theory Spec2Isabelle
  imports Complex_Main "HOL-Library.Sublist" "HOL-Library.Monad_Syntax"
begin

section \<open>Strings\<close>

text \<open>
  A JavaScript string is modelled by the list of bytes of its UTF-8 encoding. Concatenation,
  template literals and \<open>join\<close> act on the encodings as they act on the strings. Characters
  outside ASCII are written as their bytes, with the text they encode in a comment.
\<close>

text \<open>\<open>String.prototype.startsWith\<close>.\<close>

fun str_startsWith :: "string \<Rightarrow> string \<Rightarrow> bool" where
  "str_startsWith s [] = True"
| "str_startsWith [] (p # ps) = False"
| "str_startsWith (c # cs) (p # ps) = (c = p \<and> str_startsWith cs ps)"

text \<open>\<open>String.prototype.includes\<close>: the argument occurs at some position of the string.\<close>

fun str_includes :: "string \<Rightarrow> string \<Rightarrow> bool" where
  "str_includes [] sub = (sub = [])"
| "str_includes (c # cs) sub = (str_startsWith (c # cs) sub \<or> str_includes cs sub)"

text \<open>\<open>Array.prototype.join\<close> on an array of strings.\<close>

fun join :: "string \<Rightarrow> string list \<Rightarrow> string" where
  "join sep [] = []"
| "join sep [x] = x"
| "join sep (x # y # ys) = x @ sep @ join sep (y # ys)"

text \<open>The decimal digits of a natural number, as a template literal prints an array index.\<close>

definition digit :: "nat \<Rightarrow> char" where
  "digit d = ''0123456789'' ! d"

function show_nat :: "nat \<Rightarrow> string" where
  "show_nat n = (if n < 10 then [digit n] else show_nat (n div 10) @ [digit (n mod 10)])"
  by pat_completeness auto
termination
  by (relation "measure id") auto

subsection \<open>Numbers\<close>

text \<open>
  A number of the program is a double. It is modelled by a rational: the rational stands for
  the double nearest to it (ties to the even significand), as a numeric literal does.
  \<open>Number_toString\<close> is \<open>Number::toString\<close> of the language standard, which a template
  literal and \<open>JSON.stringify\<close> apply to a number: the shortest decimal that reads back as
  the same double, printed in positional form when its exponent is between -6 and 21 and in
  exponent form otherwise.
\<close>

text \<open>The number of digits of \<open>n\<close> in base \<open>b\<close>.\<close>

function ndigits :: "int \<Rightarrow> int \<Rightarrow> nat" where
  "ndigits b n = (if n \<le> 0 \<or> b < 2 then 0 else Suc (ndigits b (n div b)))"
  by pat_completeness auto
termination
  by (relation "measure (\<lambda>(b, n). nat n)") (auto intro: int_div_less_self)

text \<open>The integer part of the logarithm of a positive rational.\<close>

definition floor_log :: "int \<Rightarrow> rat \<Rightarrow> int" where
  "floor_log b q =
     (if 1 \<le> q then int (ndigits b \<lfloor>q\<rfloor>) - 1 else - int (ndigits b (\<lceil>1 / q\<rceil> - 1)))"

definition power_int_rat :: "int \<Rightarrow> int \<Rightarrow> rat" where
  "power_int_rat b e = (if 0 \<le> e then of_int b ^ nat e else 1 / of_int b ^ nat (- e))"

definition round_half_even :: "rat \<Rightarrow> int" where
  "round_half_even r =
     (let f = \<lfloor>r\<rfloor>; d = r - of_int f in
      if d < 1 / 2 then f else if 1 / 2 < d then f + 1 else if even f then f else f + 1)"

text \<open>
  The double nearest to a positive rational: 53 significant bits, and below 2 to the power
  -1022 the even spacing of the subnormal numbers.
\<close>

definition to_double :: "rat \<Rightarrow> rat" where
  "to_double q =
     (let e = max (floor_log 2 q) (- 1022); ulp = power_int_rat 2 (e - 52) in
      of_int (round_half_even (q / ulp)) * ulp)"

text \<open>
  The decimals with \<open>k\<close> digits \<open>s\<close> and the decimal point after the \<open>n\<close>-th digit that read
  back as the double \<open>x\<close>: only the two that enclose \<open>x\<close> can. Of two that do, the nearer to
  \<open>x\<close> is taken, and the even one when they are equally near.
\<close>

definition decimal_candidates :: "rat \<Rightarrow> nat \<Rightarrow> (int \<times> int) list" where
  "decimal_candidates x k =
     (let n = floor_log 10 x + 1;
          lo = \<lfloor>x / power_int_rat 10 (n - int k)\<rfloor> in
      filter (\<lambda>(s, n). to_double (of_int s * power_int_rat 10 (n - int k)) = x)
        (map (\<lambda>s. if s = 10 ^ k then (10 ^ (k - 1), n + 1) else (s, n)) [lo, lo + 1]))"

definition closest :: "rat \<Rightarrow> nat \<Rightarrow> (int \<times> int) list \<Rightarrow> (int \<times> int) option" where
  "closest x k cs =
     (case cs of
        [] \<Rightarrow> None
      | [c] \<Rightarrow> Some c
      | (s, n) # (s', n') # rest \<Rightarrow>
          (let d = \<bar>of_int s * power_int_rat 10 (n - int k) - x\<bar>;
               d' = \<bar>of_int s' * power_int_rat 10 (n' - int k) - x\<bar> in
           if d < d' then Some (s, n)
           else if d' < d then Some (s', n')
           else if even s then Some (s, n) else Some (s', n')))"

text \<open>The first number of digits, of those tried in order, for which such a decimal exists.\<close>

fun shortest_decimal :: "rat \<Rightarrow> nat list \<Rightarrow> (int \<times> nat \<times> int) option" where
  "shortest_decimal x [] = None"
| "shortest_decimal x (k # ks) =
     (case closest x k (decimal_candidates x k) of
        Some (s, n) \<Rightarrow> Some (s, k, n)
      | None \<Rightarrow> shortest_decimal x ks)"

text \<open>The digits \<open>s\<close>, \<open>k\<close> of them, with the decimal point after the \<open>n\<close>-th.\<close>

definition format_decimal :: "int \<Rightarrow> nat \<Rightarrow> int \<Rightarrow> string" where
  "format_decimal s k n =
     (let ds = show_nat (nat s) in
      if int k \<le> n \<and> n \<le> 21 then ds @ replicate (nat (n - int k)) (CHR ''0'')
      else if 0 < n \<and> n \<le> 21 then take (nat n) ds @ ''.'' @ drop (nat n) ds
      else if - 6 < n \<and> n \<le> 0 then ''0.'' @ replicate (nat (- n)) (CHR ''0'') @ ds
      else (if k = 1 then ds else take 1 ds @ ''.'' @ drop 1 ds)
           @ ''e'' @ (if n - 1 < 0 then ''-'' else ''+'') @ show_nat (nat \<bar>n - 1\<bar>))"

text \<open>
  A double has a shortest decimal of at most 17 digits. A rational too small for a double
  is zero, one too large is \<open>Infinity\<close>.
\<close>

definition positive_toString :: "rat \<Rightarrow> string" where
  "positive_toString q =
     (let x = to_double q in
      if x = 0 then ''0''
      else if 2 ^ 1024 \<le> x then ''Infinity''
      else (case shortest_decimal x [1 ..< 18] of
              Some (s, k, n) \<Rightarrow> format_decimal s k n
            | None \<Rightarrow> ''NaN''))"

definition Number_toString :: "rat \<Rightarrow> string" where
  "Number_toString q =
     (if q = 0 then ''0'' else if q < 0 then ''-'' @ positive_toString (- q)
      else positive_toString q)"

section \<open>JavaScript values and zod schemas\<close>

text \<open>
  The values that cross the boundary to the language model are untyped at run time. An object
  is the list of its properties in the order in which the run time enumerates them; a key is
  looked up with \<open>map_of\<close>, so an object of the program is a list with distinct keys.
\<close>

datatype jsval =
    JUndefined
  | JNull
  | JBool bool
  | JNum rat
  | JStr string
  | JArr "jsval list"
  | JObj "(string \<times> jsval) list"

text \<open>Property access \<open>o[k]\<close> on the property list of an object.\<close>

fun get_prop :: "(string \<times> jsval) list \<Rightarrow> string \<Rightarrow> jsval" where
  "get_prop kvs k = (case map_of kvs k of None \<Rightarrow> JUndefined | Some v \<Rightarrow> v)"

text \<open>
  \<open>JSON.stringify\<close> of the language standard, as a template literal prints its result. A
  string is quoted with the escapes of \<open>QuoteJSONString\<close>: the quotation mark, the backslash
  and the control characters; every other byte of the encoding stands for itself. A property
  whose value is \<open>undefined\<close> is left out of an object, an element that is \<open>undefined\<close> is
  \<open>null\<close> in an array, and \<open>undefined\<close> itself is not serialized: the template literal prints
  the word. A number too large for a double is \<open>null\<close>.
\<close>

definition hex_digit :: "nat \<Rightarrow> char" where
  "hex_digit d = ''0123456789abcdef'' ! d"

definition quote_char :: "char \<Rightarrow> string" where
  "quote_char c =
     (if c = CHR 0x22 then [CHR 0x5C, CHR 0x22]
      else if c = CHR 0x5C then [CHR 0x5C, CHR 0x5C]
      else if c = CHR 0x08 then [CHR 0x5C, CHR ''b'']
      else if c = CHR 0x09 then [CHR 0x5C, CHR ''t'']
      else if c = CHR 0x0A then [CHR 0x5C, CHR ''n'']
      else if c = CHR 0x0C then [CHR 0x5C, CHR ''f'']
      else if c = CHR 0x0D then [CHR 0x5C, CHR ''r'']
      else if of_char c < (32 :: nat)
        then [CHR 0x5C, CHR ''u'', CHR ''0'', CHR ''0'',
              hex_digit (of_char c div 16), hex_digit (of_char c mod 16)]
      else [c])"

definition QuoteJSONString :: "string \<Rightarrow> string" where
  "QuoteJSONString s = [CHR 0x22] @ concat (map quote_char s) @ [CHR 0x22]"

fun json_text :: "jsval \<Rightarrow> string"
  and json_elements :: "jsval list \<Rightarrow> string list"
  and json_properties :: "(string \<times> jsval) list \<Rightarrow> string list" where
  "json_text JUndefined = ''undefined''"
| "json_text JNull = ''null''"
| "json_text (JBool b) = (if b then ''true'' else ''false'')"
| "json_text (JNum r) =
     (if Number_toString r = ''Infinity'' \<or> Number_toString r = ''-Infinity'' then ''null''
      else Number_toString r)"
| "json_text (JStr s) = QuoteJSONString s"
| "json_text (JArr xs) = ''['' @ join '','' (json_elements xs) @ '']''"
| "json_text (JObj kvs) = ''{'' @ join '','' (json_properties kvs) @ ''}''"
| "json_elements [] = []"
| "json_elements (x # xs) =
     (if x = JUndefined then ''null'' else json_text x) # json_elements xs"
| "json_properties [] = []"
| "json_properties (kv # kvs) =
     (if snd kv = JUndefined then json_properties kvs
      else (QuoteJSONString (fst kv) @ '':'' @ json_text (snd kv)) # json_properties kvs)"

text \<open>
  The part of zod the two workflow files use. \<open>z.string().min(1)\<close> is \<open>ZString [CMin 1]\<close>,
  \<open>z.number().int().min(1).max(6)\<close> is \<open>ZNumber [CInt, CMin 1, CMax 6]\<close>,
  \<open>z.array(s).min(1)\<close> is \<open>ZArray s [CMin 1]\<close>, \<open>s.optional()\<close> is \<open>ZOptional s\<close>,
  \<open>s.nullable()\<close> is \<open>ZNullable s\<close> and \<open>s.default(d)\<close> is \<open>ZDefault s d\<close>.
\<close>

datatype zcheck = CInt | CMin int | CMax int

datatype zod =
    ZString "zcheck list"
  | ZNumber "zcheck list"
  | ZBoolean
  | ZEnum "string list"
  | ZArray zod "zcheck list"
  | ZObject "(string \<times> zod) list"
  | ZOptional zod
  | ZNullable zod
  | ZDefault zod jsval

datatype path_seg = Key string | Idx nat

datatype zod_issue = ZodIssue (code: string) (path: "path_seg list")

text \<open>
  A check of a chain applies to the length of a string or of an array, or to a number itself.
\<close>

fun check_issue :: "rat \<Rightarrow> zcheck \<Rightarrow> zod_issue list" where
  "check_issue r CInt = (if of_int \<lfloor>r\<rfloor> = r then [] else [ZodIssue ''invalid_type'' []])"
| "check_issue r (CMin n) = (if r < of_int n then [ZodIssue ''too_small'' []] else [])"
| "check_issue r (CMax n) = (if of_int n < r then [ZodIssue ''too_big'' []] else [])"

fun at_path :: "path_seg \<Rightarrow> zod_issue list \<Rightarrow> zod_issue list" where
  "at_path p [] = []"
| "at_path p (i # is) = ZodIssue (code i) (p # path i) # at_path p is"

text \<open>
  \<open>zparse s v\<close> is what \<open>s.safeParse(v)\<close> computes: the issues found (none when the value
  satisfies the schema) and the parsed output. A value of the wrong type gives one issue; a
  value of the right type is put to every check of the chain, and an array or object collects
  the issues of all its parts. An object schema reads the keys of its shape and drops every
  other key of the value (zod's default); a key whose parsed value is \<open>undefined\<close> is not
  part of the output.
\<close>

fun zparse :: "zod \<Rightarrow> jsval \<Rightarrow> zod_issue list \<times> jsval" where
  "zparse (ZString cs) v =
     (case v of
        JStr s \<Rightarrow> (concat (map (check_issue (of_nat (length s))) cs), v)
      | _ \<Rightarrow> ([ZodIssue ''invalid_type'' []], v))"
| "zparse (ZNumber cs) v =
     (case v of
        JNum r \<Rightarrow> (concat (map (check_issue r) cs), v)
      | _ \<Rightarrow> ([ZodIssue ''invalid_type'' []], v))"
| "zparse ZBoolean v =
     (case v of JBool b \<Rightarrow> ([], v) | _ \<Rightarrow> ([ZodIssue ''invalid_type'' []], v))"
| "zparse (ZEnum opts) v =
     (case v of
        JStr s \<Rightarrow> (if s \<in> set opts then ([], v) else ([ZodIssue ''invalid_enum_value'' []], v))
      | _ \<Rightarrow> ([ZodIssue ''invalid_type'' []], v))"
| "zparse (ZArray el cs) v =
     (case v of
        JArr xs \<Rightarrow>
          (let rs = map (zparse el) xs in
           (concat (map (check_issue (of_nat (length xs))) cs)
              @ concat (map (\<lambda>(i, r). at_path (Idx i) (fst r)) (enumerate 0 rs)),
            JArr (map snd rs)))
      | _ \<Rightarrow> ([ZodIssue ''invalid_type'' []], v))"
| "zparse (ZObject shape) v =
     (case v of
        JObj kvs \<Rightarrow>
          (let rs = map (\<lambda>ks. (fst ks, zparse (snd ks) (get_prop kvs (fst ks)))) shape in
           (concat (map (\<lambda>(k, r). at_path (Key k) (fst r)) rs),
            JObj (filter (\<lambda>(k, x). x \<noteq> JUndefined) (map (\<lambda>(k, r). (k, snd r)) rs))))
      | _ \<Rightarrow> ([ZodIssue ''invalid_type'' []], v))"
| "zparse (ZOptional s) v = (case v of JUndefined \<Rightarrow> ([], JUndefined) | _ \<Rightarrow> zparse s v)"
| "zparse (ZNullable s) v = (case v of JNull \<Rightarrow> ([], JNull) | _ \<Rightarrow> zparse s v)"
| "zparse (ZDefault s d) v = (case v of JUndefined \<Rightarrow> zparse s d | _ \<Rightarrow> zparse s v)"

text \<open>The value satisfies the schema: \<open>s.safeParse(v).success\<close>.\<close>

definition satisfies :: "zod \<Rightarrow> jsval \<Rightarrow> bool" where
  "satisfies s v = (fst (zparse s v) = [])"

section \<open>Configuration and the external collaborators\<close>

text \<open>\<open>env.ts\<close>: the configuration, read once when the process starts.\<close>

record env =
  OPENAI_API_KEY :: string
  OPENAI_MODEL :: string
  SLACK_WEBHOOK_URL :: "string option"
  SLACK_USERNAME :: "string option"

text \<open>
  What a run of the program can throw: an \<open>Error\<close> made by the program itself with its
  message, a \<open>ZodError\<close> with its issues, a \<open>TypeError\<close> of the run time, and whatever an
  external client (the model call, the webhook) raises, which the program passes on.
\<close>

datatype error =
    Error string
  | ZodError "zod_issue list"
  | TypeError string
  | Upstream string

text \<open>
  The incoming webhook of the chat channel and what is sent to it: a header or section block
  is \<open>{type, text: {type, text}}\<close>.
\<close>

record webhook =
  url :: string
  username :: string

record text_object =
  text_type :: string
  text_text :: string

record block =
  block_type :: string
  block_text :: text_object

record payload =
  payload_text :: string
  payload_blocks :: "block list"

text \<open>
  The calls a run makes to the outside, in order. A model call carries the model name, the
  schema (structured call only), the system prompt and the user prompt.
\<close>

datatype event =
    GenerateText string string string
  | GenerateObject string zod string string
  | ConsoleError string
  | ConsoleWarn string
  | WebhookSend webhook payload

text \<open>
  The collaborators are parameters of the model: the free-text call of the AI SDK, the value
  the model provider answers to a structured call and the error the AI SDK raises when that
  value does not match the schema, the built-in \<open>JSON.parse\<close> (\<open>Inl\<close> is the message of its
  \<open>SyntaxError\<close>) and \<open>JSON.stringify\<close>, the message zod gives a \<open>ZodError\<close>, and the
  webhook's \<open>send\<close> (\<open>Some\<close> is the failure it raises).
\<close>

record world =
  generateText :: "string \<Rightarrow> string \<Rightarrow> string \<Rightarrow> error + string"
  provider_object :: "string \<Rightarrow> zod \<Rightarrow> string \<Rightarrow> string \<Rightarrow> error + jsval"
  NoObjectGeneratedError :: "zod_issue list \<Rightarrow> error"
  JSON_parse :: "string \<Rightarrow> string + jsval"
  JSON_stringify :: "jsval \<Rightarrow> string"
  ZodError_message :: "zod_issue list \<Rightarrow> string"
  webhook_send :: "webhook \<Rightarrow> payload \<Rightarrow> error option"

text \<open>
  \<open>generateObject\<close> of the AI SDK, called with a zod schema: the library puts the value the
  provider answered to the schema, returns the schema's output when the value matches, and
  throws when it does not. A failure of the provider or of the transport is passed on.
\<close>

definition generateObject :: "world \<Rightarrow> string \<Rightarrow> zod \<Rightarrow> string \<Rightarrow> string \<Rightarrow> error + jsval" where
  "generateObject w model schema system prompt =
     (case provider_object w model schema system prompt of
        Inl err \<Rightarrow> Inl err
      | Inr v \<Rightarrow>
          (case zparse schema v of
             ([], out) \<Rightarrow> Inr out
           | (i # is, out) \<Rightarrow> Inl (NoObjectGeneratedError w (i # is))))"

text \<open>An effectful computation: the calls it made, and the error it threw or its value.\<close>

type_synonym 'a res = "event list \<times> (error + 'a)"

section \<open>The structured generation adapter\<close>

definition MODEL_NAME :: "env \<Rightarrow> string" where
  "MODEL_NAME e = OPENAI_MODEL e"

text \<open>\<open>commerce-influencer.ts\<close>: \<open>MODEL_NAME.includes('search')\<close>.\<close>

definition isSearchModel :: "env \<Rightarrow> bool" where
  "isSearchModel e = str_includes (MODEL_NAME e) ''search''"

text \<open>
  The market-research workflow:
  \<open>MODEL_NAME.includes('search') || MODEL_NAME.startsWith('gpt-5')\<close>.
\<close>

definition isNonStructuredModel :: "env \<Rightarrow> bool" where
  "isNonStructuredModel e =
     (str_includes (MODEL_NAME e) ''search'' \<or> str_startsWith (MODEL_NAME e) ''gpt-5'')"

text \<open>The instructions the text branch appends to the system prompt and to the user prompt.\<close>

definition json_only_system :: string where
  "json_only_system =
     [CHR 0x0A, CHR 0x0A] @ ''IMPORTANT: You MUST respond with valid JSON only. Do not ''
     @ ''include any explanatory text, only valid JSON.''"

definition json_only_prompt :: string where
  "json_only_prompt =
     [CHR 0x0A, CHR 0x0A] @ ''Respond with valid JSON only, no additional text.''"

text \<open>
  The body of the \<open>try\<close> block of the text branch, \<open>schema.parse(JSON.parse(text))\<close>: the
  \<open>SyntaxError\<close> or \<open>ZodError\<close> it throws is given by its message, which is all the
  \<open>catch\<close> block reads.
\<close>

definition parse_and_validate :: "world \<Rightarrow> zod \<Rightarrow> string \<Rightarrow> string + jsval" where
  "parse_and_validate w schema txt =
     (case JSON_parse w txt of
        Inl msg \<Rightarrow> Inl msg
      | Inr parsed \<Rightarrow>
          (case zparse schema parsed of
             ([], out) \<Rightarrow> Inr out
           | (i # is, out) \<Rightarrow> Inl (ZodError_message w (i # is))))"

text \<open>
  \<open>generateStructuredObject\<close> of \<open>commerce-influencer.ts\<close>. The branch is chosen by the
  flag computed from the configured model name, not by \<open>params.model\<close>. A failure of the model
  call itself is outside the \<open>try\<close> block and is passed on.
\<close>

definition generateStructuredObject_ci ::
  "world \<Rightarrow> env \<Rightarrow> string \<Rightarrow> zod \<Rightarrow> string \<Rightarrow> string \<Rightarrow> jsval res" where
  "generateStructuredObject_ci w e model schema system prompt =
     (if isSearchModel e then
        (let call = GenerateText model (system @ json_only_system) (prompt @ json_only_prompt) in
         case generateText w model (system @ json_only_system) (prompt @ json_only_prompt) of
           Inl err \<Rightarrow> ([call], Inl err)
         | Inr txt \<Rightarrow>
             (case parse_and_validate w schema txt of
                Inl msg \<Rightarrow>
                  ([call],
                   Inl (Error (''Failed to parse search model response as valid JSON: '' @ msg)))
              | Inr out \<Rightarrow> ([call], Inr out)))
      else
        ([GenerateObject model schema system prompt],
         generateObject w model schema system prompt))"

text \<open>
  The \<open>catch\<close> block of the market-research workflow writes three lines to the error
  console before it throws: a heading, the text the model returned, and a second heading
  (the byte lists are the cross mark U+274C).
\<close>

definition parse_failure_log :: "string \<Rightarrow> event list" where
  "parse_failure_log txt =
     [ConsoleError ([CHR 0xE2, CHR 0x9D, CHR 0x8C] @ '' Model response that failed to parse:''),
      ConsoleError txt,
      ConsoleError ([CHR 0x0A, CHR 0xE2, CHR 0x9D, CHR 0x8C] @ '' Parse error:'')]"

text \<open>\<open>generateStructuredObject\<close> of the market-research workflow.\<close>

definition generateStructuredObject_mr ::
  "world \<Rightarrow> env \<Rightarrow> string \<Rightarrow> zod \<Rightarrow> string \<Rightarrow> string \<Rightarrow> jsval res" where
  "generateStructuredObject_mr w e model schema system prompt =
     (if isNonStructuredModel e then
        (let call = GenerateText model (system @ json_only_system) (prompt @ json_only_prompt) in
         case generateText w model (system @ json_only_system) (prompt @ json_only_prompt) of
           Inl err \<Rightarrow> ([call], Inl err)
         | Inr txt \<Rightarrow>
             (case parse_and_validate w schema txt of
                Inl msg \<Rightarrow>
                  (call # parse_failure_log txt,
                   Inl (Error
                     (''Failed to parse non-structured model response as valid JSON: '' @ msg)))
              | Inr out \<Rightarrow> ([call], Inr out)))
      else
        ([GenerateObject model schema system prompt],
         generateObject w model schema system prompt))"

text \<open>The adapter took the text branch: its model call was the free-text one.\<close>

fun is_text_call :: "event \<Rightarrow> bool" where
  "is_text_call (GenerateText m s p) = True"
| "is_text_call _ = False"

definition text_mode :: "'a res \<Rightarrow> bool" where
  "text_mode r = (case fst r of [] \<Rightarrow> False | c # cs \<Rightarrow> is_text_call c)"

section \<open>The schema layer\<close>

text \<open>The Japanese literals of the two workflow files, as UTF-8.\<close>

definition NL :: string where
  "NL = [CHR 0x0A]"

definition ja_default_keyword :: string where \<comment> \<open>komasu x infuruensa (the default focus keyword)\<close>
  "ja_default_keyword =
     [CHR 0xE3, CHR 0x82, CHR 0xB3, CHR 0xE3, CHR 0x83, CHR 0x9E, CHR 0xE3, CHR 0x83, CHR 0xBC]
     @ [CHR 0xE3, CHR 0x82, CHR 0xB9] @ '' x ''
     @ [CHR 0xE3, CHR 0x82, CHR 0xA4, CHR 0xE3, CHR 0x83, CHR 0xB3, CHR 0xE3, CHR 0x83, CHR 0x95]
     @ [CHR 0xE3, CHR 0x83, CHR 0xAB, CHR 0xE3, CHR 0x82, CHR 0xA8, CHR 0xE3, CHR 0x83, CHR 0xB3]
     @ [CHR 0xE3, CHR 0x82, CHR 0xB5, CHR 0xE3, CHR 0x83, CHR 0xBC]"

definition ja_sales :: string where \<comment> \<open>uriage (sales), U+58F2 U+4E0A\<close>
  "ja_sales = [CHR 0xE5, CHR 0xA3, CHR 0xB2, CHR 0xE4, CHR 0xB8, CHR 0x8A]"

definition ja_key_kpis :: string where \<comment> \<open>shuyo KPI (key KPIs), U+4E3B U+8981 then KPI\<close>
  "ja_key_kpis = [CHR 0xE4, CHR 0xB8, CHR 0xBB, CHR 0xE8, CHR 0xA6, CHR 0x81] @ ''KPI''"

definition ja_sources :: string where \<comment> \<open>sanko (reference), U+53C2 U+8003\<close>
  "ja_sources = [CHR 0xE5, CHR 0x8F, CHR 0x82, CHR 0xE8, CHR 0x80, CHR 0x83]"

definition fullwidth_bar :: string where \<comment> \<open>the fullwidth vertical line U+FF5C\<close>
  "fullwidth_bar = [CHR 0xEF, CHR 0xBD, CHR 0x9C]"

definition em_dash :: string where \<comment> \<open>the em dash U+2014\<close>
  "em_dash = [CHR 0xE2, CHR 0x80, CHR 0x94]"

definition ja_title :: string where \<comment> \<open>the default keyword followed by tasha jirei (cases of other companies)\<close>
  "ja_title =
     ja_default_keyword
     @ [CHR 0xE4, CHR 0xBB, CHR 0x96, CHR 0xE7, CHR 0xA4, CHR 0xBE]
     @ [CHR 0xE4, CHR 0xBA, CHR 0x8B, CHR 0xE4, CHR 0xBE, CHR 0x8B]"

definition ja_no_webhook_warning :: string where
  \<comment> \<open>"SLACK_WEBHOOK_URL is not set, so sending to Slack was skipped."\<close>
  "ja_no_webhook_warning =
     ''SLACK_WEBHOOK_URL ''
     @ [CHR 0xE3, CHR 0x81, CHR 0x8C, CHR 0xE8, CHR 0xA8, CHR 0xAD, CHR 0xE5, CHR 0xAE, CHR 0x9A]
     @ [CHR 0xE3, CHR 0x81, CHR 0x95, CHR 0xE3, CHR 0x82, CHR 0x8C, CHR 0xE3, CHR 0x81, CHR 0xA6]
     @ [CHR 0xE3, CHR 0x81, CHR 0x84, CHR 0xE3, CHR 0x81, CHR 0xAA, CHR 0xE3, CHR 0x81, CHR 0x84]
     @ [CHR 0xE3, CHR 0x81, CHR 0x9F, CHR 0xE3, CHR 0x82, CHR 0x81, CHR 0xE3, CHR 0x80, CHR 0x81]
     @ ''Slack ''
     @ [CHR 0xE9, CHR 0x80, CHR 0x81, CHR 0xE4, CHR 0xBF, CHR 0xA1, CHR 0xE3, CHR 0x82, CHR 0x92]
     @ [CHR 0xE3, CHR 0x82, CHR 0xB9, CHR 0xE3, CHR 0x82, CHR 0xAD, CHR 0xE3, CHR 0x83, CHR 0x83]
     @ [CHR 0xE3, CHR 0x83, CHR 0x97, CHR 0xE3, CHR 0x81, CHR 0x97, CHR 0xE3, CHR 0x81, CHR 0xBE]
     @ [CHR 0xE3, CHR 0x81, CHR 0x97, CHR 0xE3, CHR 0x81, CHR 0x9F, CHR 0xE3, CHR 0x80, CHR 0x82]"

text \<open>
  \<open>s.extend(aug)\<close> on an object schema: the shape \<open>{...s.shape, ...aug}\<close>, where a key of
  \<open>aug\<close> replaces the same key of \<open>s\<close> in place and a new key is appended.
\<close>

fun extend :: "zod \<Rightarrow> (string \<times> zod) list \<Rightarrow> zod" where
  "extend (ZObject shape) aug =
     ZObject (map (\<lambda>(k, s). (k, case map_of aug k of None \<Rightarrow> s | Some s' \<Rightarrow> s')) shape
              @ filter (\<lambda>(k, s). map_of shape k = None) aug)"
| "extend s aug = s"

definition languageSchema :: zod where
  "languageSchema = ZEnum [''ja'', ''en'']"

definition influencerSchema :: zod where
  "influencerSchema = ZObject
     [(''name'', ZString []),
      (''platform'', ZOptional (ZString [])),
      (''handle'', ZOptional (ZString [])),
      (''followers'', ZOptional (ZString [])),
      (''positioning'', ZOptional (ZString []))]"

definition baseCaseSchema :: zod where
  "baseCaseSchema = ZObject
     [(''brand'', ZString []),
      (''campaignName'', ZString []),
      (''geography'', ZString []),
      (''timeframe'', ZOptional (ZString [])),
      (''summary'', ZString []),
      (''productFocus'', ZOptional (ZString [])),
      (''offerType'', ZOptional (ZString [])),
      (''influencers'', ZArray influencerSchema [CMin 1]),
      (''sources'', ZOptional (ZArray (ZString []) [CMin 1]))]"

text \<open>
  The metric schema is the one declaration on which the two files differ: the market-research
  workflow also admits \<open>null\<close> as the currency.
\<close>

definition metricSchema_ci :: zod where
  "metricSchema_ci = ZObject
     [(''metric'', ZString []),
      (''value'', ZString []),
      (''currency'', ZOptional (ZString [])),
      (''timeframe'', ZOptional (ZString [])),
      (''note'', ZOptional (ZString []))]"

definition metricSchema_mr :: zod where
  "metricSchema_mr = ZObject
     [(''metric'', ZString []),
      (''value'', ZString []),
      (''currency'', ZOptional (ZNullable (ZString []))),
      (''timeframe'', ZOptional (ZString [])),
      (''note'', ZOptional (ZString []))]"

definition enrichedCaseSchema_ci :: zod where
  "enrichedCaseSchema_ci = extend baseCaseSchema [(''metrics'', ZArray metricSchema_ci [CMin 1])]"

definition enrichedCaseSchema_mr :: zod where
  "enrichedCaseSchema_mr = extend baseCaseSchema [(''metrics'', ZArray metricSchema_mr [CMin 1])]"

definition caseListSchema :: zod where
  "caseListSchema = ZObject [(''cases'', ZArray baseCaseSchema [CMax 6])]"

definition enrichedCaseListSchema_ci :: zod where
  "enrichedCaseListSchema_ci = ZObject [(''cases'', ZArray enrichedCaseSchema_ci [])]"

definition enrichedCaseListSchema_mr :: zod where
  "enrichedCaseListSchema_mr = ZObject [(''cases'', ZArray enrichedCaseSchema_mr [])]"

text \<open>
  The input and output schemas of the three steps. The input schema of the first step is the
  input schema of the workflow; the output schema of a step is the input schema of the next.
\<close>

definition collectCompetitorCasesStep_inputSchema :: zod where
  "collectCompetitorCasesStep_inputSchema = ZObject
     [(''focusKeyword'', ZDefault (ZString []) (JStr ja_default_keyword)),
      (''geography'', ZDefault (ZString []) (JStr ''Japan'')),
      (''minExamples'', ZDefault (ZNumber [CInt, CMin 1, CMax 6]) (JNum 3)),
      (''language'', ZDefault languageSchema (JStr ''ja'')),
      (''metricFocus'',
         ZDefault (ZArray (ZString []) [CMin 1]) (JArr [JStr ja_sales, JStr ''CVR'', JStr ''ROI''])),
      (''includeSources'', ZDefault ZBoolean (JBool True))]"

definition collectCasesStep_inputSchema :: zod where
  "collectCasesStep_inputSchema = ZObject
     [(''focusKeyword'', ZString [CMin 1]),
      (''geography'', ZDefault (ZString []) (JStr ''Japan'')),
      (''minExamples'', ZDefault (ZNumber [CInt, CMin 1, CMax 6]) (JNum 3)),
      (''language'', ZDefault languageSchema (JStr ''ja'')),
      (''metricFocus'',
         ZDefault (ZArray (ZString []) [CMin 1]) (JArr [JStr ja_sales, JStr ''GMV'', JStr ''CVR''])),
      (''includeSources'', ZDefault ZBoolean (JBool True))]"

text \<open>The output schema of the first step and input schema of the second, in both files.\<close>

definition collect_outputSchema :: zod where
  "collect_outputSchema = ZObject
     [(''cases'', ZArray baseCaseSchema [CMin 1]),
      (''metricFocus'', ZArray (ZString []) [CMin 1]),
      (''language'', languageSchema),
      (''includeSources'', ZBoolean)]"

definition enrich_outputSchema_ci :: zod where
  "enrich_outputSchema_ci = ZObject
     [(''cases'', ZArray enrichedCaseSchema_ci [CMin 1]),
      (''metricFocus'', ZArray (ZString []) [CMin 1]),
      (''language'', languageSchema),
      (''includeSources'', ZBoolean)]"

definition enrich_outputSchema_mr :: zod where
  "enrich_outputSchema_mr = ZObject
     [(''cases'', ZArray enrichedCaseSchema_mr [CMin 1]),
      (''metricFocus'', ZArray (ZString []) [CMin 1]),
      (''language'', languageSchema),
      (''includeSources'', ZBoolean)]"

definition summarize_outputSchema_ci :: zod where
  "summarize_outputSchema_ci = ZObject
     [(''summary'', ZString []),
      (''sentToSlack'', ZBoolean),
      (''cases'', ZArray enrichedCaseSchema_ci [CMin 1])]"

definition summarize_outputSchema_mr :: zod where
  "summarize_outputSchema_mr = ZObject
     [(''summary'', ZString []),
      (''sentToSlack'', ZBoolean),
      (''cases'', ZArray enrichedCaseSchema_mr [CMin 1])]"

section \<open>The types the schemas infer\<close>

text \<open>
  \<open>z.infer\<close> of the schemas, for the code that reads the fields. An optional field is an
  \<open>option\<close>; the currency, which may also be \<open>null\<close>, has three states. A field whose name
  several types share, or whose name Isabelle reserves, carries the initial of its type.
\<close>

datatype language = Ja | En

datatype 'a nullish = Absent | IsNull | Present 'a

record influencer =
  i_name :: string
  i_platform :: "string option"
  i_handle :: "string option"
  i_followers :: "string option"
  i_positioning :: "string option"

record baseCase =
  c_brand :: string
  c_campaignName :: string
  c_geography :: string
  c_timeframe :: "string option"
  c_summary :: string
  c_productFocus :: "string option"
  c_offerType :: "string option"
  c_influencers :: "influencer list"
  c_sources :: "string list option"

record metric =
  m_metric :: string
  m_value :: string
  m_currency :: "string nullish"
  m_timeframe :: "string option"
  m_note :: "string option"

record enrichedCase = baseCase +
  c_metrics :: "metric list"

text \<open>The fields every step forwards, and the data of a step that also has cases.\<close>

record carry =
  metricFocus :: "string list"
  language :: language
  includeSources :: bool

record collect_input = carry +
  focusKeyword :: string
  geography :: string
  minExamples :: rat

record 'c with_cases = carry +
  cases :: 'c

record workflow_result =
  summary :: string
  sentToSlack :: bool
  result_cases :: "enrichedCase list"

section \<open>Stages 1 and 2: the two model calls\<close>

text \<open>
  Member access \<open>v.k\<close> for a key that is no built-in property: it throws on \<open>undefined\<close> and
  \<open>null\<close>, reads the property of an object, and is \<open>undefined\<close> on every other value.
\<close>

fun js_member :: "jsval \<Rightarrow> string \<Rightarrow> error + jsval" where
  "js_member (JObj kvs) k = Inr (get_prop kvs k)"
| "js_member JUndefined k =
     Inl (TypeError (''Cannot read properties of undefined (reading '' @ [CHR 0x27] @ k
                     @ [CHR 0x27] @ '')''))"
| "js_member JNull k =
     Inl (TypeError (''Cannot read properties of null (reading '' @ [CHR 0x27] @ k
                     @ [CHR 0x27] @ '')''))"
| "js_member v k = Inr JUndefined"

text \<open>
  What both steps return: \<open>{cases: structured.cases, metricFocus, language, includeSources}\<close>,
  the cases of the value the adapter returned beside the three fields of the input.
\<close>

definition forward_cases :: "'a carry_scheme \<Rightarrow> jsval res \<Rightarrow> jsval with_cases res" where
  "forward_cases inputData r =
     (case r of
        (evs, Inl err) \<Rightarrow> (evs, Inl err)
      | (evs, Inr structured) \<Rightarrow>
          (case js_member structured ''cases'' of
             Inl err \<Rightarrow> (evs, Inl err)
           | Inr cs \<Rightarrow>
               (evs, Inr \<lparr>metricFocus = metricFocus inputData, language = language inputData,
                           includeSources = includeSources inputData, cases = cs\<rparr>)))"

definition ja_no_info :: string where \<comment> \<open>joho nashi (no information)\<close>
  "ja_no_info =
     [CHR 0xE6, CHR 0x83, CHR 0x85, CHR 0xE5, CHR 0xA0, CHR 0xB1, CHR 0xE3, CHR 0x81, CHR 0xAA]
     @ [CHR 0xE3, CHR 0x81, CHR 0x97]"

subsection \<open>\<open>commerce-influencer.ts\<close>\<close>

definition collect_system_ci :: string where
  \<open>collect_system_ci =
     ''You are a GTM analyst who researches commerce x influencer collaborations. ''
     @ ''Return only vetted cases from 2021 onward, prioritizing Japan/APAC ''
     @ ''brands unless told otherwise.''\<close>

definition collect_prompt_ci :: "collect_input \<Rightarrow> string" where
  \<open>collect_prompt_ci inputData =
     ''Focus keyword: ''
     @ focusKeyword inputData
     @ ''\<newline>''
     @ ''Priority region: ''
     @ geography inputData
     @ ''. Provide at least ''
     @ Number_toString (minExamples inputData)
     @ '' distinct competitor case studies that match the focus. Return concise ''
     @ ''factual summaries, channels, creator roles, and reliable source ''
     @ ''URLs. Respond in ''
     @ (if language inputData = Ja then ''Japanese'' else ''English'')
     @ ''.''\<close>

definition collectCompetitorCasesStep :: "world \<Rightarrow> env \<Rightarrow> collect_input \<Rightarrow> jsval with_cases res" where
  "collectCompetitorCasesStep w e inputData =
     forward_cases inputData
       (generateStructuredObject_ci w e (MODEL_NAME e) caseListSchema
          collect_system_ci (collect_prompt_ci inputData))"

definition enrich_system_ci :: string where
  \<open>enrich_system_ci =
     ''Act as a revenue operations analyst. Enrich each case with concrete ''
     @ ''numeric KPIs (sales, GMV, conversion, ROI). Quote actual historical ''
     @ ''numbers when publicly reported and note the currency/timeframe. ''
     @ ''If unavailable, write "''
     @ ja_no_info @ ''" and explain the gap.''\<close>

definition enrich_prompt_ci :: "world \<Rightarrow> jsval with_cases \<Rightarrow> string" where
  \<open>enrich_prompt_ci w inputData =
     ''Here is JSON for competitor cases: ''
     @ JSON_stringify w (cases inputData)
     @ ''. Focus your numeric extraction on: ''
     @ join '', '' (metricFocus inputData)
     @ ''. Write explanations in ''
     @ (if language inputData = Ja then ''Japanese'' else ''English'')
     @ ''.''\<close>

definition enrichCasesWithMetricsStep_ci ::
  "world \<Rightarrow> env \<Rightarrow> jsval with_cases \<Rightarrow> jsval with_cases res" where
  "enrichCasesWithMetricsStep_ci w e inputData =
     forward_cases inputData
       (generateStructuredObject_ci w e (MODEL_NAME e) enrichedCaseListSchema_ci
          enrich_system_ci (enrich_prompt_ci w inputData))"

subsection \<open>The market-research workflow\<close>

definition collect_system_mr :: string where
  \<open>collect_system_mr =
     ''You are a professional market research analyst. Research real-world ''
     @ ''case studies and collaborations from 2021 onward. Focus on factual ''
     @ ''information with verifiable sources. Prioritize Japan/APAC region ''
     @ ''unless specified otherwise. You MUST respond with a JSON object ''
     @ ''containing a "cases" array, not a bare array.''\<close>

definition collect_prompt_mr :: "collect_input \<Rightarrow> string" where
  \<open>collect_prompt_mr inputData =
     ''Research topic: ''
     @ focusKeyword inputData
     @ ''\<newline>''
     @ ''Target region: ''
     @ geography inputData
     @ ''. Find at least ''
     @ Number_toString (minExamples inputData)
     @ '' distinct case studies that match the research topic.\<newline>''
     @ ''\<newline>''
     @ ''Respond in ''
     @ (if language inputData = Ja then ''Japanese'' else ''English'')
     @ ''.\<newline>''
     @ ''\<newline>''
     @ ''IMPORTANT: Your response must be a JSON object with the following ''
     @ ''exact structure:\<newline>''
     @ ''{\<newline>''
     @ ''  "cases": [\<newline>''
     @ ''    {\<newline>''
     @ ''      "brand": "Brand name",\<newline>''
     @ ''      "campaignName": "Campaign name",\<newline>''
     @ ''      "geography": "''
     @ geography inputData
     @ ''",\<newline>''
     @ ''      "timeframe": "2021-2023 (optional)",\<newline>''
     @ ''      "summary": "Detailed summary of the initiative",\<newline>''
     @ ''      "productFocus": "Product category (optional)",\<newline>''
     @ ''      "offerType": "Offer type (optional)",\<newline>''
     @ ''      "influencers": [\<newline>''
     @ ''        {\<newline>''
     @ ''          "name": "Influencer name",\<newline>''
     @ ''          "platform": "Instagram/YouTube/etc (optional)",\<newline>''
     @ ''          "handle": "@username (optional)",\<newline>''
     @ ''          "followers": "1M followers (optional)",\<newline>''
     @ ''          "positioning": "Fashion/Beauty/etc (optional)"\<newline>''
     @ ''        }\<newline>''
     @ ''      ],\<newline>''
     @ ''      "sources": ["https://source1.com", "https://source2.com"]\<newline>''
     @ ''    }\<newline>''
     @ ''  ]\<newline>''
     @ ''}\<newline>''
     @ ''\<newline>''
     @ ''Each case MUST include: brand, campaignName, geography, summary, ''
     @ ''and at least one influencer.''\<close>

definition collectCasesStep :: "world \<Rightarrow> env \<Rightarrow> collect_input \<Rightarrow> jsval with_cases res" where
  "collectCasesStep w e inputData =
     forward_cases inputData
       (generateStructuredObject_mr w e (MODEL_NAME e) caseListSchema
          collect_system_mr (collect_prompt_mr inputData))"

definition enrich_system_mr :: string where
  \<open>enrich_system_mr =
     ''Act as a revenue operations analyst. Enrich each case with concrete ''
     @ ''numeric KPIs (sales, GMV, conversion, ROI). Quote actual historical ''
     @ ''numbers when publicly reported and note the currency/timeframe. ''
     @ ''If unavailable, write "''
     @ ja_no_info
     @ ''" and explain the gap. You MUST respond with a JSON object containing ''
     @ ''a "cases" array, not a bare array.''\<close>

definition enrich_prompt_mr :: "world \<Rightarrow> jsval with_cases \<Rightarrow> string" where
  \<open>enrich_prompt_mr w inputData =
     ''Here is JSON for competitor cases: ''
     @ JSON_stringify w (cases inputData)
     @ ''. Focus your numeric extraction on: ''
     @ join '', '' (metricFocus inputData)
     @ ''. Write explanations in ''
     @ (if language inputData = Ja then ''Japanese'' else ''English'')
     @ ''.\<newline>''
     @ ''\<newline>''
     @ ''IMPORTANT: Your response must be a JSON object with a "cases" property ''
     @ ''containing an array, like this:\<newline>''
     @ ''{\<newline>''
     @ ''  "cases": [\<newline>''
     @ ''    {\<newline>''
     @ ''      "brand": "...",\<newline>''
     @ ''      "campaignName": "...",\<newline>''
     @ ''      "geography": "...",\<newline>''
     @ ''      "summary": "...",\<newline>''
     @ ''      "influencers": [...],\<newline>''
     @ ''      "metrics": [\<newline>''
     @ ''        {\<newline>''
     @ ''          "metric": "''
     @ ja_sales
     @ '' or GMV or CVR",\<newline>''
     @ ''          "value": "actual value or ''
     @ ja_no_info @ ''",\<newline>''
     @ ''          "currency": "JPY/USD (optional)",\<newline>''
     @ ''          "timeframe": "2021-2023 (optional)",\<newline>''
     @ ''          "note": "explanation if unavailable"\<newline>''
     @ ''        }\<newline>''
     @ ''      ]\<newline>''
     @ ''    }\<newline>''
     @ ''  ]\<newline>''
     @ ''}''\<close>

definition enrichCasesWithMetricsStep_mr ::
  "world \<Rightarrow> env \<Rightarrow> jsval with_cases \<Rightarrow> jsval with_cases res" where
  "enrichCasesWithMetricsStep_mr w e inputData =
     forward_cases inputData
       (generateStructuredObject_mr w e (MODEL_NAME e) enrichedCaseListSchema_mr
          enrich_system_mr (enrich_prompt_mr w inputData))"

section \<open>Stage 3: summarize and notify\<close>

text \<open>
  The webhook client, made when the module is loaded: \<open>null\<close> when no URL is configured
  (an empty string is falsy too), with the default user name when none is configured.
\<close>

definition slackWebhook :: "env \<Rightarrow> webhook option" where
  "slackWebhook e =
     (case SLACK_WEBHOOK_URL e of
        None \<Rightarrow> None
      | Some u \<Rightarrow>
          if u = [] then None
          else Some \<lparr>url = u,
                     username = (case SLACK_USERNAME e of
                                   None \<Rightarrow> ''mastra-commerce-workflow''
                                 | Some n \<Rightarrow> n)\<rparr>)"

text \<open>
  \<open>x ? f(x) : ''\<close> for an optional string \<open>x\<close>: the part is printed when \<open>x\<close> is truthy,
  that is, a string that is not empty.
\<close>

fun if_truthy :: "string option \<Rightarrow> (string \<Rightarrow> string) \<Rightarrow> string" where
  "if_truthy None f = []"
| "if_truthy (Some s) f = (if s = [] then [] else f s)"

fun if_truthy_nullish :: "string nullish \<Rightarrow> (string \<Rightarrow> string) \<Rightarrow> string" where
  "if_truthy_nullish Absent f = []"
| "if_truthy_nullish IsNull f = []"
| "if_truthy_nullish (Present s) f = (if s = [] then [] else f s)"

subsection \<open>\<open>commerce-influencer.ts\<close>\<close>

definition bulletLabel_ci :: "language \<Rightarrow> string" where
  "bulletLabel_ci lang = (if lang = Ja then ja_key_kpis else ''Key KPIs'')"

definition metric_line_ci :: "metric \<Rightarrow> string" where
  "metric_line_ci m =
     ''- '' @ m_metric m @ '': '' @ m_value m
     @ if_truthy_nullish (m_currency m) (\<lambda>c. '' '' @ c)
     @ if_truthy (m_timeframe m) (\<lambda>t. '' ('' @ t @ '')'')
     @ if_truthy (m_note m) (\<lambda>n. fullwidth_bar @ n)"

definition sources_line_ci :: "language \<Rightarrow> bool \<Rightarrow> enrichedCase \<Rightarrow> string" where
  "sources_line_ci lang incl c =
     (if incl \<and> (case c_sources c of None \<Rightarrow> False | Some ss \<Rightarrow> length ss \<noteq> 0)
      then NL @ (if lang = Ja then ja_sources else ''Sources'') @ '': ''
           @ join '', '' (case c_sources c of None \<Rightarrow> [] | Some ss \<Rightarrow> ss)
      else [])"

definition case_text_ci :: "language \<Rightarrow> bool \<Rightarrow> nat \<times> enrichedCase \<Rightarrow> string" where
  "case_text_ci lang incl ic =
     (case ic of (idx, c) \<Rightarrow>
        show_nat (idx + 1) @ ''. '' @ c_brand c @ '' / '' @ c_campaignName c @ NL
        @ c_summary c @ NL
        @ bulletLabel_ci lang @ '':'' @ NL
        @ join NL (map metric_line_ci (c_metrics c))
        @ sources_line_ci lang incl c)"

definition summary_ci :: "language \<Rightarrow> bool \<Rightarrow> enrichedCase list \<Rightarrow> string" where
  "summary_ci lang incl cs = join (NL @ NL) (map (case_text_ci lang incl) (enumerate 0 cs))"

definition header_block_ci :: "language \<Rightarrow> block" where
  "header_block_ci lang =
     \<lparr>block_type = ''header'',
      block_text = \<lparr>text_type = ''plain_text'',
                    text_text = (if lang = Ja then ja_title else ''Commerce x Influencer Scan'')\<rparr>\<rparr>"

definition section_block_ci :: "language \<Rightarrow> nat \<times> enrichedCase \<Rightarrow> block" where
  "section_block_ci lang ic =
     (case ic of (idx, c) \<Rightarrow>
        \<lparr>block_type = ''section'',
         block_text = \<lparr>text_type = ''mrkdwn'',
                       text_text =
                         ''*'' @ show_nat (idx + 1) @ ''. '' @ c_brand c @ '' '' @ em_dash @ '' ''
                         @ c_campaignName c @ ''*'' @ NL
                         @ c_summary c @ NL
                         @ bulletLabel_ci lang @ '': ''
                         @ join '' / '' (map (\<lambda>m. m_metric m @ '': '' @ m_value m) (c_metrics c))\<rparr>\<rparr>)"

definition blocks_ci :: "language \<Rightarrow> enrichedCase list \<Rightarrow> block list" where
  "blocks_ci lang cs = take 50 (header_block_ci lang # map (section_block_ci lang) (enumerate 0 cs))"

text \<open>The argument of \<open>send\<close>: \<open>{text: summary, blocks}\<close>.\<close>

definition chat_payload_ci :: "language \<Rightarrow> bool \<Rightarrow> enrichedCase list \<Rightarrow> payload" where
  "chat_payload_ci lang incl cs = \<lparr>payload_text = summary_ci lang incl cs, payload_blocks = blocks_ci lang cs\<rparr>"

text \<open>
  \<open>execute\<close> of \<open>summarizeAndNotifyStep\<close>. A failure of \<open>send\<close> is not caught: the step
  throws it and returns nothing.
\<close>

definition summarizeAndNotifyStep_ci ::
  "world \<Rightarrow> env \<Rightarrow> enrichedCase list with_cases \<Rightarrow> workflow_result res" where
  "summarizeAndNotifyStep_ci w e inputData =
     (let s = summary_ci (language inputData) (includeSources inputData) (cases inputData) in
      case slackWebhook e of
        Some hook \<Rightarrow>
          (let p = chat_payload_ci (language inputData) (includeSources inputData) (cases inputData) in
           case webhook_send w hook p of
             Some err \<Rightarrow> ([WebhookSend hook p], Inl err)
           | None \<Rightarrow>
               ([WebhookSend hook p],
                Inr \<lparr>summary = s, sentToSlack = True, result_cases = cases inputData\<rparr>))
      | None \<Rightarrow>
          ([ConsoleWarn ja_no_webhook_warning],
           Inr \<lparr>summary = s, sentToSlack = False, result_cases = cases inputData\<rparr>))"

subsection \<open>The market-research workflow\<close>

definition bulletLabel_mr :: "language \<Rightarrow> string" where
  "bulletLabel_mr lang = (if lang = Ja then ja_key_kpis else ''Key KPIs'')"

definition metric_line_mr :: "metric \<Rightarrow> string" where
  "metric_line_mr m =
     ''- '' @ m_metric m @ '': '' @ m_value m
     @ if_truthy_nullish (m_currency m) (\<lambda>c. '' '' @ c)
     @ if_truthy (m_timeframe m) (\<lambda>t. '' ('' @ t @ '')'')
     @ if_truthy (m_note m) (\<lambda>n. fullwidth_bar @ n)"

definition sources_line_mr :: "language \<Rightarrow> bool \<Rightarrow> enrichedCase \<Rightarrow> string" where
  "sources_line_mr lang incl c =
     (if incl \<and> (case c_sources c of None \<Rightarrow> False | Some ss \<Rightarrow> length ss \<noteq> 0)
      then NL @ (if lang = Ja then ja_sources else ''Sources'') @ '': ''
           @ join '', '' (case c_sources c of None \<Rightarrow> [] | Some ss \<Rightarrow> ss)
      else [])"

definition case_text_mr :: "language \<Rightarrow> bool \<Rightarrow> nat \<times> enrichedCase \<Rightarrow> string" where
  "case_text_mr lang incl ic =
     (case ic of (idx, c) \<Rightarrow>
        show_nat (idx + 1) @ ''. '' @ c_brand c @ '' / '' @ c_campaignName c @ NL
        @ c_summary c @ NL
        @ bulletLabel_mr lang @ '':'' @ NL
        @ join NL (map metric_line_mr (c_metrics c))
        @ sources_line_mr lang incl c)"

definition summary_mr :: "language \<Rightarrow> bool \<Rightarrow> enrichedCase list \<Rightarrow> string" where
  "summary_mr lang incl cs = join (NL @ NL) (map (case_text_mr lang incl) (enumerate 0 cs))"

definition header_block_mr :: "language \<Rightarrow> block" where
  "header_block_mr lang =
     \<lparr>block_type = ''header'',
      block_text = \<lparr>text_type = ''plain_text'',
                    text_text = (if lang = Ja then ja_title else ''Commerce x Influencer Scan'')\<rparr>\<rparr>"

definition section_block_mr :: "language \<Rightarrow> nat \<times> enrichedCase \<Rightarrow> block" where
  "section_block_mr lang ic =
     (case ic of (idx, c) \<Rightarrow>
        \<lparr>block_type = ''section'',
         block_text = \<lparr>text_type = ''mrkdwn'',
                       text_text =
                         ''*'' @ show_nat (idx + 1) @ ''. '' @ c_brand c @ '' '' @ em_dash @ '' ''
                         @ c_campaignName c @ ''*'' @ NL
                         @ c_summary c @ NL
                         @ bulletLabel_mr lang @ '': ''
                         @ join '' / '' (map (\<lambda>m. m_metric m @ '': '' @ m_value m) (c_metrics c))\<rparr>\<rparr>)"

definition blocks_mr :: "language \<Rightarrow> enrichedCase list \<Rightarrow> block list" where
  "blocks_mr lang cs = take 50 (header_block_mr lang # map (section_block_mr lang) (enumerate 0 cs))"

text \<open>The argument of \<open>send\<close>: \<open>{text: summary, blocks}\<close>.\<close>

definition chat_payload_mr :: "language \<Rightarrow> bool \<Rightarrow> enrichedCase list \<Rightarrow> payload" where
  "chat_payload_mr lang incl cs = \<lparr>payload_text = summary_mr lang incl cs, payload_blocks = blocks_mr lang cs\<rparr>"

definition summarizeAndNotifyStep_mr ::
  "world \<Rightarrow> env \<Rightarrow> enrichedCase list with_cases \<Rightarrow> workflow_result res" where
  "summarizeAndNotifyStep_mr w e inputData =
     (let s = summary_mr (language inputData) (includeSources inputData) (cases inputData) in
      case slackWebhook e of
        Some hook \<Rightarrow>
          (let p = chat_payload_mr (language inputData) (includeSources inputData) (cases inputData) in
           case webhook_send w hook p of
             Some err \<Rightarrow> ([WebhookSend hook p], Inl err)
           | None \<Rightarrow>
               ([WebhookSend hook p],
                Inr \<lparr>summary = s, sentToSlack = True, result_cases = cases inputData\<rparr>))
      | None \<Rightarrow>
          ([ConsoleWarn ja_no_webhook_warning],
           Inr \<lparr>summary = s, sentToSlack = False, result_cases = cases inputData\<rparr>))"

section \<open>The workflow\<close>

text \<open>
  The cases of the second step are handed to the third as they are. The third step reads
  them at the type the schema infers: a value that satisfies a schema, read at that type.
  The result is \<open>None\<close> when the value is not of that type.
\<close>

fun as_string :: "jsval \<Rightarrow> string option" where
  "as_string (JStr s) = Some s"
| "as_string v = None"

fun as_optional :: "(jsval \<Rightarrow> 'a option) \<Rightarrow> jsval \<Rightarrow> 'a option option" where
  "as_optional f JUndefined = Some None"
| "as_optional f v = map_option Some (f v)"

fun as_nullish :: "(jsval \<Rightarrow> 'a option) \<Rightarrow> jsval \<Rightarrow> 'a nullish option" where
  "as_nullish f JUndefined = Some Absent"
| "as_nullish f JNull = Some IsNull"
| "as_nullish f v = map_option Present (f v)"

fun as_array :: "(jsval \<Rightarrow> 'a option) \<Rightarrow> jsval \<Rightarrow> 'a list option" where
  "as_array f (JArr xs) = those (map f xs)"
| "as_array f v = None"

definition as_influencer :: "jsval \<Rightarrow> influencer option" where
  "as_influencer v =
     (case v of
        JObj kvs \<Rightarrow> do {
          name \<leftarrow> as_string (get_prop kvs ''name'');
          platform \<leftarrow> as_optional as_string (get_prop kvs ''platform'');
          handle \<leftarrow> as_optional as_string (get_prop kvs ''handle'');
          followers \<leftarrow> as_optional as_string (get_prop kvs ''followers'');
          positioning \<leftarrow> as_optional as_string (get_prop kvs ''positioning'');
          Some \<lparr>i_name = name, i_platform = platform, i_handle = handle,
                 i_followers = followers, i_positioning = positioning\<rparr>
        }
      | _ \<Rightarrow> None)"

definition as_metric :: "jsval \<Rightarrow> metric option" where
  "as_metric v =
     (case v of
        JObj kvs \<Rightarrow> do {
          name \<leftarrow> as_string (get_prop kvs ''metric'');
          val \<leftarrow> as_string (get_prop kvs ''value'');
          currency \<leftarrow> as_nullish as_string (get_prop kvs ''currency'');
          timeframe \<leftarrow> as_optional as_string (get_prop kvs ''timeframe'');
          remark \<leftarrow> as_optional as_string (get_prop kvs ''note'');
          Some \<lparr>m_metric = name, m_value = val, m_currency = currency,
                 m_timeframe = timeframe, m_note = remark\<rparr>
        }
      | _ \<Rightarrow> None)"

definition as_enrichedCase :: "jsval \<Rightarrow> enrichedCase option" where
  "as_enrichedCase v =
     (case v of
        JObj kvs \<Rightarrow> do {
          brand \<leftarrow> as_string (get_prop kvs ''brand'');
          campaignName \<leftarrow> as_string (get_prop kvs ''campaignName'');
          region \<leftarrow> as_string (get_prop kvs ''geography'');
          timeframe \<leftarrow> as_optional as_string (get_prop kvs ''timeframe'');
          abstract \<leftarrow> as_string (get_prop kvs ''summary'');
          productFocus \<leftarrow> as_optional as_string (get_prop kvs ''productFocus'');
          offerType \<leftarrow> as_optional as_string (get_prop kvs ''offerType'');
          influencers \<leftarrow> as_array as_influencer (get_prop kvs ''influencers'');
          sources \<leftarrow> as_optional (as_array as_string) (get_prop kvs ''sources'');
          metrics \<leftarrow> as_array as_metric (get_prop kvs ''metrics'');
          Some \<lparr>c_brand = brand, c_campaignName = campaignName, c_geography = region,
                 c_timeframe = timeframe, c_summary = abstract, c_productFocus = productFocus,
                 c_offerType = offerType, c_influencers = influencers, c_sources = sources,
                 c_metrics = metrics\<rparr>
        }
      | _ \<Rightarrow> None)"

text \<open>
  The input of the third step: the data of the second, its cases read at their type. What
  the adapter returns satisfies the schema of enriched cases, so the cases are of that type
  whenever the second step returns.
\<close>

definition summarize_input :: "jsval with_cases \<Rightarrow> enrichedCase list with_cases res" where
  "summarize_input d =
     (case as_array as_enrichedCase (cases d) of
        None \<Rightarrow> ([], Inl (TypeError ''the cases are not of the inferred type''))
      | Some cs \<Rightarrow>
          ([], Inr \<lparr>metricFocus = metricFocus d, language = language d,
                      includeSources = includeSources d, cases = cs\<rparr>))"

text \<open>Sequencing: the second computation runs when the first returns a value.\<close>

definition bind_res :: "'a res \<Rightarrow> ('a \<Rightarrow> 'b res) \<Rightarrow> 'b res" where
  "bind_res m f =
     (case m of
        (evs, Inl err) \<Rightarrow> (evs, Inl err)
      | (evs, Inr x) \<Rightarrow> (case f x of (evs', r) \<Rightarrow> (evs @ evs', r)))"

text \<open>
  The runner is the framework's (\<open>createWorkflow(...).then(...).then(...).then(...)\<close>), not
  the repository's. A run hands its input to \<open>execute\<close> of the first step and the value a step
  returns to \<open>execute\<close> of the next, and it ends at the first step that throws. The data is
  not put to the input and output schemas the steps declare: nothing in the two files
  applies them, and the run does not.
\<close>

definition commerceInfluencerWorkflow :: "world \<Rightarrow> env \<Rightarrow> collect_input \<Rightarrow> workflow_result res" where
  "commerceInfluencerWorkflow w e inputData =
     bind_res (collectCompetitorCasesStep w e inputData)
       (\<lambda>out1. bind_res (enrichCasesWithMetricsStep_ci w e out1)
          (\<lambda>out2. bind_res (summarize_input out2) (summarizeAndNotifyStep_ci w e)))"

definition marketResearchWorkflow :: "world \<Rightarrow> env \<Rightarrow> collect_input \<Rightarrow> workflow_result res" where
  "marketResearchWorkflow w e inputData =
     bind_res (collectCasesStep w e inputData)
       (\<lambda>out1. bind_res (enrichCasesWithMetricsStep_mr w e out1)
          (\<lambda>out2. bind_res (summarize_input out2) (summarizeAndNotifyStep_mr w e)))"

text \<open>
  The two entry points (\<open>run-commerce-influencer.ts\<close> and the runner of the market-research
  workflow) merge the overrides of the command line over the same defaults,
  \<open>{...defaultInput, ...overrides}\<close>, and start the run with the result as it is.
\<close>

definition defaultInput :: collect_input where
  "defaultInput =
     \<lparr>metricFocus = [ja_sales, ''GMV'', ''CVR''], language = Ja, includeSources = True,
      focusKeyword = ja_default_keyword, geography = ''Japan'', minExamples = 3\<rparr>"

text \<open>The data of a run as the values the schemas of the steps are declared for.\<close>

fun language_json :: "language \<Rightarrow> jsval" where
  "language_json Ja = JStr ''ja''"
| "language_json En = JStr ''en''"

definition collect_input_json :: "collect_input \<Rightarrow> jsval" where
  "collect_input_json d =
     JObj [(''focusKeyword'', JStr (focusKeyword d)),
           (''geography'', JStr (geography d)),
           (''minExamples'', JNum (minExamples d)),
           (''language'', language_json (language d)),
           (''metricFocus'', JArr (map JStr (metricFocus d))),
           (''includeSources'', JBool (includeSources d))]"

definition with_cases_json :: "jsval with_cases \<Rightarrow> jsval" where
  "with_cases_json d =
     JObj [(''cases'', cases d),
           (''metricFocus'', JArr (map JStr (metricFocus d))),
           (''language'', language_json (language d)),
           (''includeSources'', JBool (includeSources d))]"

section \<open>The invariants of the case lists\<close>

text \<open>The property \<open>k\<close> of a case is an array with at least one element.\<close>

definition has_items :: "string \<Rightarrow> jsval \<Rightarrow> bool" where
  "has_items k c = (case js_member c k of Inr (JArr (x # xs)) \<Rightarrow> True | _ \<Rightarrow> False)"

text \<open>The value is an array of cases that all have the property; it has at most \<open>n\<close> cases.\<close>

definition every_case :: "(jsval \<Rightarrow> bool) \<Rightarrow> jsval \<Rightarrow> bool" where
  "every_case P v = (case v of JArr cs \<Rightarrow> list_all P cs | _ \<Rightarrow> False)"

definition at_most_cases :: "nat \<Rightarrow> jsval \<Rightarrow> bool" where
  "at_most_cases n v = (case v of JArr cs \<Rightarrow> length cs \<le> n | _ \<Rightarrow> False)"

text \<open>
  The keys of every object shape of a schema are distinct, as the keys of the object literal
  are from which zod makes the shape.
\<close>

fun distinct_keys :: "zod \<Rightarrow> bool" where
  "distinct_keys (ZArray el cs) = distinct_keys el"
| "distinct_keys (ZObject shape) =
     (distinct (map fst shape) \<and> list_all (\<lambda>ks. distinct_keys (snd ks)) shape)"
| "distinct_keys (ZOptional s) = distinct_keys s"
| "distinct_keys (ZNullable s) = distinct_keys s"
| "distinct_keys (ZDefault s d) = distinct_keys s"
| "distinct_keys s = True"

text \<open>The fields of a case that the first stage produces.\<close>

definition base_fields :: "jsval \<Rightarrow> (string \<times> jsval) list" where
  "base_fields c =
     map (\<lambda>k. (k, case js_member c k of Inr v \<Rightarrow> v | Inl err \<Rightarrow> JUndefined))
       [''brand'', ''campaignName'', ''geography'', ''summary'', ''influencers'', ''sources'',
        ''timeframe'', ''productFocus'', ''offerType'']"

section \<open>The summary line as the specification words it\<close>

text \<open>
  The metric line with each optional part left out exactly when its field is absent
  (\<open>null\<close> counted as absent).
\<close>

definition spec_metric_line :: "metric \<Rightarrow> string" where
  "spec_metric_line m =
     ''- '' @ m_metric m @ '': '' @ m_value m
     @ (case m_currency m of Present c \<Rightarrow> '' '' @ c | _ \<Rightarrow> [])
     @ (case m_timeframe m of Some t \<Rightarrow> '' ('' @ t @ '')'' | None \<Rightarrow> [])
     @ (case m_note m of Some n \<Rightarrow> fullwidth_bar @ n | None \<Rightarrow> [])"

text \<open>The metric in which a field holding the empty string (or \<open>null\<close>) counts as absent.\<close>

fun blank_to_absent :: "string option \<Rightarrow> string option" where
  "blank_to_absent None = None"
| "blank_to_absent (Some s) = (if s = [] then None else Some s)"

fun blank_to_absent_nullish :: "string nullish \<Rightarrow> string nullish" where
  "blank_to_absent_nullish (Present s) = (if s = [] then Absent else Present s)"
| "blank_to_absent_nullish x = Absent"

definition drop_blank :: "metric \<Rightarrow> metric" where
  "drop_blank m =
     m\<lparr>m_currency := blank_to_absent_nullish (m_currency m),
       m_timeframe := blank_to_absent (m_timeframe m),
       m_note := blank_to_absent (m_note m)\<rparr>"

text \<open>An error carries a text when the text is part of its message.\<close>

fun carries :: "error \<Rightarrow> string \<Rightarrow> bool" where
  "carries (Error msg) t = str_includes msg t"
| "carries (ZodError is) t = False"
| "carries (TypeError msg) t = str_includes msg t"
| "carries (Upstream msg) t = str_includes msg t"

section \<open>Example configurations and data\<close>

definition example_env :: "string \<Rightarrow> string option \<Rightarrow> env" where
  "example_env model hook_url =
     \<lparr>OPENAI_API_KEY = ''sk-example'', OPENAI_MODEL = model,
      SLACK_WEBHOOK_URL = hook_url, SLACK_USERNAME = None\<rparr>"

definition example_hook :: webhook where
  "example_hook = \<lparr>url = ''https://hooks.example/T1'', username = ''mastra-commerce-workflow''\<rparr>"

text \<open>
  A world in which the free-text call answers \<open>txt\<close>, on which \<open>JSON.parse\<close> gives \<open>parsed\<close>,
  the provider answers \<open>obj\<close> to a structured call, \<open>JSON.stringify\<close> is the serializer of
  the language standard, and the webhook accepts what it is sent. The error of the AI SDK
  for a value that does not match the schema has the message of the library.
\<close>

definition example_world :: "string \<Rightarrow> jsval \<Rightarrow> string + jsval \<Rightarrow> world" where
  "example_world txt obj parsed =
     \<lparr>generateText = (\<lambda>model system prompt. Inr txt),
      provider_object = (\<lambda>model schema system prompt. Inr obj),
      NoObjectGeneratedError =
        (\<lambda>is. Upstream ''No object generated: response did not match schema.''),
      JSON_parse = (\<lambda>t. parsed),
      JSON_stringify = json_text,
      ZodError_message = (\<lambda>is. ''Required''),
      webhook_send = (\<lambda>hook p. None)\<rparr>"

text \<open>
  A world for a whole run: the provider answers \<open>first\<close> to the call for a case list and
  \<open>second\<close> to the call for a list of enriched cases.
\<close>

definition scripted_world :: "jsval \<Rightarrow> jsval \<Rightarrow> world" where
  "scripted_world first second =
     (example_world ''{}'' first (Inr (JObj [])))
       \<lparr>provider_object :=
          (\<lambda>model schema system prompt. Inr (if schema = caseListSchema then first else second))\<rparr>"

definition example_metric :: metric where
  "example_metric =
     \<lparr>m_metric = ''GMV'', m_value = ''120'', m_currency = Present ''JPY'',
      m_timeframe = Some ''2023'', m_note = None\<rparr>"

definition blank_metric :: metric where
  "blank_metric =
     \<lparr>m_metric = ''GMV'', m_value = ''120'', m_currency = Absent,
      m_timeframe = Some [], m_note = None\<rparr>"

definition example_case :: enrichedCase where
  "example_case =
     \<lparr>c_brand = ''Acme'', c_campaignName = ''Spring'', c_geography = ''Japan'',
      c_timeframe = None, c_summary = ''Live commerce'', c_productFocus = None,
      c_offerType = None,
      c_influencers = [\<lparr>i_name = ''Hana'', i_platform = None, i_handle = None,
                        i_followers = None, i_positioning = None\<rparr>],
      c_sources = Some [''https://a.example'', ''https://b.example''],
      c_metrics = [example_metric]\<rparr>"

definition stage3_input ::
  "language \<Rightarrow> bool \<Rightarrow> enrichedCase list \<Rightarrow> enrichedCase list with_cases" where
  "stage3_input lang incl cs =
     \<lparr>metricFocus = [''GMV''], language = lang, includeSources = incl, cases = cs\<rparr>"

text \<open>Cases as the model returns them, and the data of a step.\<close>

definition example_base_json :: jsval where
  "example_base_json =
     JObj [(''brand'', JStr ''Acme''), (''campaignName'', JStr ''Spring''),
           (''geography'', JStr ''Japan''), (''summary'', JStr ''Live commerce''),
           (''influencers'', JArr [JObj [(''name'', JStr ''Hana'')]]),
           (''sources'', JArr [JStr ''https://a.example'', JStr ''https://b.example''])]"

definition example_enriched_json :: "string \<Rightarrow> jsval" where
  "example_enriched_json brand =
     JObj [(''brand'', JStr brand), (''campaignName'', JStr ''Spring''),
           (''geography'', JStr ''Japan''), (''summary'', JStr ''Live commerce''),
           (''influencers'', JArr [JObj [(''name'', JStr ''Hana'')]]),
           (''sources'', JArr [JStr ''https://a.example'', JStr ''https://b.example'']),
           (''metrics'', JArr [JObj [(''metric'', JStr ''GMV''), (''value'', JStr ''120''),
                                    (''currency'', JStr ''JPY''),
                                    (''timeframe'', JStr ''2023'')]])]"

definition example_data :: "jsval \<Rightarrow> jsval with_cases" where
  "example_data cs = \<lparr>metricFocus = [''GMV''], language = En, includeSources = True, cases = cs\<rparr>"

text \<open>The data of a step for the default input.\<close>

definition default_data :: "jsval \<Rightarrow> jsval with_cases" where
  "default_data cs =
     \<lparr>metricFocus = [ja_sales, ''GMV'', ''CVR''], language = Ja, includeSources = True,
      cases = cs\<rparr>"

text \<open>
  An answer of the model in prose, and the message of \<open>JSON.parse\<close> for it: the message of
  the V8 engine, which quotes the first ten characters of the text, and the older form of
  the message, which names the position.
\<close>

definition chatty_answer :: string where
  "chatty_answer =
     ''Sure! Here are three live commerce case studies from Japan that match your focus ''
     @ ''keyword. Let me know if you would like more detail on any of them, or a ''
     @ ''different region.''"

definition quoting_message :: string where
  "quoting_message =
     ''Unexpected token '' @ [CHR 0x27] @ ''S'' @ [CHR 0x27] @ '', '' @ [CHR 0x22]
     @ ''Sure! Here'' @ [CHR 0x22] @ ''... is not valid JSON''"

definition position_message :: string where
  "position_message = ''Unexpected token S in JSON at position 0''"


section \<open>Properties of the strings\<close>

declare show_nat.simps [simp del]

lemma str_startsWith_prefix: "str_startsWith s p = prefix p s"
  by (induction s p rule: str_startsWith.induct) auto

lemma str_includes_sublist: "str_includes s sub = sublist sub s"
proof (induction s)
  case Nil
  show ?case by simp
next
  case (Cons c cs)
  show ?case
  proof (cases sub)
    case Nil
    then show ?thesis by simp
  next
    case (Cons p ps)
    then show ?thesis
      using Cons.IH by (simp add: str_startsWith_prefix sublist_Cons_right)
  qed
qed

lemma take_enumerate: "take n (enumerate k xs) = enumerate k (take n xs)"
proof (induction xs arbitrary: n k)
  case Nil
  then show ?case by simp
next
  case (Cons x xs)
  then show ?case by (cases n) simp_all
qed

lemma enumerate_map_snd: "enumerate k (map f xs) = map (\<lambda>(i, x). (i, f x)) (enumerate k xs)"
  by (induction xs arbitrary: k) simp_all

lemma sublist_appendL: "sublist xs ys \<Longrightarrow> sublist xs (ps @ ys)"
  unfolding sublist_def by (metis append.assoc)

text \<open>Every element of an array is part of its \<open>join\<close>.\<close>

lemma sublist_join: "x \<in> set xs \<Longrightarrow> sublist x (join sep xs)"
proof (induction sep xs rule: join.induct)
  case (1 sep)
  then show ?case by simp
next
  case (2 sep x)
  then show ?case by simp
next
  case (3 sep xa y ys)
  show ?case
  proof (cases "x = xa")
    case True
    have "sublist xa ([] @ xa @ (sep @ join sep (y # ys)))" by (rule sublist_appendI)
    then show ?thesis using True by simp
  next
    case False
    then have "x \<in> set (y # ys)" using 3 by auto
    then have "sublist x (join sep (y # ys))" using 3 by blast
    then have "sublist x ((xa @ sep) @ join sep (y # ys))" by (rule sublist_appendL)
    then show ?thesis by simp
  qed
qed


section \<open>Properties of the schemas\<close>


declare get_prop.simps [simp del]

lemma at_path_Nil_iff [simp]: "at_path p is = [] \<longleftrightarrow> is = []"
  by (cases "is") simp_all

lemma object_field_ok:
  assumes "fst (zparse (ZObject shape) (JObj kvs)) = []" and "(k, s) \<in> set shape"
  shows "fst (zparse s (get_prop kvs k)) = []"
  using assms by (auto simp: Let_def)

lemma object_ok_is_object:
  assumes "fst (zparse (ZObject shape) v) = []"
  obtains kvs where "v = JObj kvs"
  using assms by (cases v) simp_all

lemma array_ok:
  assumes "fst (zparse (ZArray el cs) v) = []"
  obtains xs where "v = JArr xs"
    and "\<forall>c \<in> set cs. check_issue (of_nat (length xs)) c = []"
    and "\<forall>x \<in> set xs. fst (zparse el x) = []"
proof (cases v)
  case (JArr xs)
  have "\<forall>x \<in> set xs. fst (zparse el x) = []"
  proof
    fix x assume "x \<in> set xs"
    then obtain i where "i < length xs" "xs ! i = x" by (auto simp: in_set_conv_nth)
    then have "(i, zparse el x) \<in> set (enumerate 0 (map (zparse el) xs))"
      by (simp add: in_set_enumerate_eq)
    then show "fst (zparse el x) = []"
      using assms JArr by (fastforce simp: Let_def)
  qed
  moreover have "\<forall>c \<in> set cs. check_issue (of_nat (length xs)) c = []"
    using assms JArr by (simp add: Let_def)
  ultimately show ?thesis using that JArr by blast
qed (use assms in simp_all)

lemma array_out:
  "snd (zparse (ZArray el cs) (JArr xs)) = JArr (map (\<lambda>x. snd (zparse el x)) xs)"
  by (simp add: Let_def)

lemma get_prop_filter_map:
  assumes "distinct (map fst shape)" and "(k, s) \<in> set shape"
  shows "get_prop (filter (\<lambda>(k, x). x \<noteq> JUndefined) (map (\<lambda>(k, s). (k, f k s)) shape)) k = f k s"
  using assms
proof (induction shape)
  case Nil
  then show ?case by simp
next
  case (Cons a shape)
  obtain k' s' where a: "a = (k', s')" by (cases a)
  show ?case
  proof (cases "k' = k")
    case True
    have nk: "k \<notin> fst ` set shape" using Cons.prems a True by auto
    then have "(k, s) \<notin> set shape" by force
    then have "s' = s" using Cons.prems a True by auto
    moreover from nk have "map_of (filter (\<lambda>(k, x). x \<noteq> JUndefined) (map (\<lambda>(k, s). (k, f k s)) shape)) k = None"
      by (force simp: map_of_eq_None_iff)
    ultimately show ?thesis using a True by (simp add: get_prop.simps)
  next
    case False
    then show ?thesis using Cons a by (auto simp: get_prop.simps)
  qed
qed

lemma object_out:
  "snd (zparse (ZObject shape) (JObj kvs)) =
     JObj (filter (\<lambda>(k, x). x \<noteq> JUndefined)
            (map (\<lambda>(k, s). (k, snd (zparse s (get_prop kvs k)))) shape))"
  by (simp add: Let_def case_prod_unfold comp_def)


lemma zparse_pairI:
  assumes "fst (zparse s v) = []" and "snd (zparse s v) = v'"
  shows "zparse s v = ([], v')"
  using assms by (cases "zparse s v") simp

declare zparse.simps [simp del]

lemma has_items_obj: "has_items k (JObj kvs) = (\<exists>x xs. get_prop kvs k = JArr (x # xs))"
  by (auto simp: has_items_def split: jsval.splits list.splits)

lemma min1_array:
  assumes "fst (zparse (ZArray el [CMin 1]) v) = []"
  obtains x xs where "v = JArr (x # xs)" and "\<forall>y \<in> set (x # xs). fst (zparse el y) = []"
proof -
  from assms obtain ys where v: "v = JArr ys"
    and c: "\<forall>c \<in> set [CMin 1]. check_issue (of_nat (length ys)) c = []"
    and e: "\<forall>y \<in> set ys. fst (zparse el y) = []"
    by (rule array_ok)
  from c have "ys \<noteq> []" by (auto split: if_splits)
  then obtain x xs where "ys = x # xs" by (cases ys) auto
  with v e that show ?thesis by blast
qed

lemma min1_array_out:
  assumes "fst (zparse (ZArray el [CMin 1]) v) = []"
  shows "\<exists>x xs. snd (zparse (ZArray el [CMin 1]) v) = JArr (x # xs)"
proof -
  from assms obtain x xs where "v = JArr (x # xs)" by (rule min1_array)
  then show ?thesis by (simp add: array_out)
qed

lemma array_ok_iff:
  "fst (zparse (ZArray el cs) (JArr xs)) = [] \<longleftrightarrow>
     (\<forall>c \<in> set cs. check_issue (of_nat (length xs)) c = []) \<and> (\<forall>x \<in> set xs. fst (zparse el x) = [])"
proof
  assume "fst (zparse (ZArray el cs) (JArr xs)) = []"
  then show "(\<forall>c \<in> set cs. check_issue (of_nat (length xs)) c = []) \<and> (\<forall>x \<in> set xs. fst (zparse el x) = [])"
    by (elim array_ok) simp
next
  assume a: "(\<forall>c \<in> set cs. check_issue (of_nat (length xs)) c = []) \<and> (\<forall>x \<in> set xs. fst (zparse el x) = [])"
  have "\<forall>p \<in> set (enumerate 0 (map (zparse el) xs)). fst (snd p) = []"
  proof
    fix p assume "p \<in> set (enumerate 0 (map (zparse el) xs))"
    then have "fst p < length xs" and "snd p = zparse el (xs ! fst p)"
      by (auto simp: in_set_enumerate_eq)
    then show "fst (snd p) = []" using a by simp
  qed
  then show "fst (zparse (ZArray el cs) (JArr xs)) = []"
    using a by (auto simp: zparse.simps Let_def)
qed

lemma object_ok_iff:
  "fst (zparse (ZObject shape) (JObj kvs)) = [] \<longleftrightarrow>
     list_all (\<lambda>(k, s). fst (zparse s (get_prop kvs k)) = []) shape"
  by (auto simp: zparse.simps Let_def list_all_iff)

lemma not_object_bad:
  "fst (zparse (ZObject shape) JUndefined) \<noteq> []"
  "fst (zparse (ZObject shape) JNull) \<noteq> []"
  "fst (zparse (ZObject shape) (JBool b)) \<noteq> []"
  "fst (zparse (ZObject shape) (JNum r)) \<noteq> []"
  "fst (zparse (ZObject shape) (JStr t)) \<noteq> []"
  "fst (zparse (ZObject shape) (JArr xs)) \<noteq> []"
  by (simp_all add: zparse.simps)

lemma not_array_bad:
  "fst (zparse (ZArray el cs) JUndefined) \<noteq> []"
  "fst (zparse (ZArray el cs) JNull) \<noteq> []"
  "fst (zparse (ZArray el cs) (JBool b)) \<noteq> []"
  "fst (zparse (ZArray el cs) (JNum r)) \<noteq> []"
  "fst (zparse (ZArray el cs) (JStr t)) \<noteq> []"
  "fst (zparse (ZArray el cs) (JObj kvs)) \<noteq> []"
  by (simp_all add: zparse.simps)

text \<open>A case that satisfies the base schema has an influencer, before and after parsing.\<close>

lemma baseCase_has_influencers:
  assumes "fst (zparse baseCaseSchema c) = []"
  shows "has_items ''influencers'' c" and "has_items ''influencers'' (snd (zparse baseCaseSchema c))"
proof -
  from assms obtain kvs where c: "c = JObj kvs"
    unfolding baseCaseSchema_def by (rule object_ok_is_object)
  have ok: "fst (zparse (ZArray influencerSchema [CMin 1]) (get_prop kvs ''influencers'')) = []"
    using assms unfolding c baseCaseSchema_def by (rule object_field_ok) simp
  then obtain x xs where i: "get_prop kvs ''influencers'' = JArr (x # xs)"
    by (rule min1_array)
  then show "has_items ''influencers'' c"
    by (simp add: c has_items_obj)
  have o: "snd (zparse (ZArray influencerSchema [CMin 1]) (get_prop kvs ''influencers''))
             = JArr (snd (zparse influencerSchema x) # map (\<lambda>x. snd (zparse influencerSchema x)) xs)"
    by (simp add: i array_out)
  show "has_items ''influencers'' (snd (zparse baseCaseSchema c))"
    unfolding c baseCaseSchema_def object_out has_items_obj
    by (subst get_prop_filter_map [where s = "ZArray influencerSchema [CMin 1]"]) (simp_all add: o)
qed

lemma enrichedCaseSchema_ci_shape:
  "enrichedCaseSchema_ci = ZObject
     [(''brand'', ZString []),
      (''campaignName'', ZString []),
      (''geography'', ZString []),
      (''timeframe'', ZOptional (ZString [])),
      (''summary'', ZString []),
      (''productFocus'', ZOptional (ZString [])),
      (''offerType'', ZOptional (ZString [])),
      (''influencers'', ZArray influencerSchema [CMin 1]),
      (''sources'', ZOptional (ZArray (ZString []) [CMin 1])),
      (''metrics'', ZArray metricSchema_ci [CMin 1])]"
  by (simp add: enrichedCaseSchema_ci_def baseCaseSchema_def)

lemma enrichedCase_ci_has_items:
  assumes "fst (zparse enrichedCaseSchema_ci c) = []"
  shows "has_items ''influencers'' c \<and> has_items ''metrics'' c"
    and "has_items ''influencers'' (snd (zparse enrichedCaseSchema_ci c))
         \<and> has_items ''metrics'' (snd (zparse enrichedCaseSchema_ci c))"
proof -
  from assms obtain kvs where c: "c = JObj kvs"
    unfolding enrichedCaseSchema_ci_shape by (rule object_ok_is_object)
  have "fst (zparse (ZArray influencerSchema [CMin 1]) (get_prop kvs ''influencers'')) = []"
    using assms unfolding c enrichedCaseSchema_ci_shape by (rule object_field_ok) simp
  then obtain x xs where i: "get_prop kvs ''influencers'' = JArr (x # xs)"
    by (rule min1_array)
  have "fst (zparse (ZArray metricSchema_ci [CMin 1]) (get_prop kvs ''metrics'')) = []"
    using assms unfolding c enrichedCaseSchema_ci_shape by (rule object_field_ok) simp
  then obtain y ys where m: "get_prop kvs ''metrics'' = JArr (y # ys)"
    by (rule min1_array)
  show "has_items ''influencers'' c \<and> has_items ''metrics'' c"
    by (simp add: c has_items_obj i m)
  have oi: "snd (zparse (ZArray influencerSchema [CMin 1]) (get_prop kvs ''influencers''))
             = JArr (snd (zparse influencerSchema x) # map (\<lambda>x. snd (zparse influencerSchema x)) xs)"
    by (simp add: i array_out)
  have om: "snd (zparse (ZArray metricSchema_ci [CMin 1]) (get_prop kvs ''metrics''))
             = JArr (snd (zparse metricSchema_ci y) # map (\<lambda>x. snd (zparse metricSchema_ci x)) ys)"
    by (simp add: m array_out)
  have "has_items ''influencers'' (snd (zparse enrichedCaseSchema_ci c))"
    unfolding c enrichedCaseSchema_ci_shape object_out has_items_obj
    by (subst get_prop_filter_map [where s = "ZArray influencerSchema [CMin 1]"]) (simp_all add: oi)
  moreover have "has_items ''metrics'' (snd (zparse enrichedCaseSchema_ci c))"
    unfolding c enrichedCaseSchema_ci_shape object_out has_items_obj
    by (subst get_prop_filter_map [where s = "ZArray metricSchema_ci [CMin 1]"]) (simp_all add: om)
  ultimately show "has_items ''influencers'' (snd (zparse enrichedCaseSchema_ci c))
         \<and> has_items ''metrics'' (snd (zparse enrichedCaseSchema_ci c))" by simp
qed

lemma enrichedCaseSchema_mr_shape:
  "enrichedCaseSchema_mr = ZObject
     [(''brand'', ZString []),
      (''campaignName'', ZString []),
      (''geography'', ZString []),
      (''timeframe'', ZOptional (ZString [])),
      (''summary'', ZString []),
      (''productFocus'', ZOptional (ZString [])),
      (''offerType'', ZOptional (ZString [])),
      (''influencers'', ZArray influencerSchema [CMin 1]),
      (''sources'', ZOptional (ZArray (ZString []) [CMin 1])),
      (''metrics'', ZArray metricSchema_mr [CMin 1])]"
  by (simp add: enrichedCaseSchema_mr_def baseCaseSchema_def)

lemma enrichedCase_mr_has_items:
  assumes "fst (zparse enrichedCaseSchema_mr c) = []"
  shows "has_items ''influencers'' c \<and> has_items ''metrics'' c"
    and "has_items ''influencers'' (snd (zparse enrichedCaseSchema_mr c))
         \<and> has_items ''metrics'' (snd (zparse enrichedCaseSchema_mr c))"
proof -
  from assms obtain kvs where c: "c = JObj kvs"
    unfolding enrichedCaseSchema_mr_shape by (rule object_ok_is_object)
  have "fst (zparse (ZArray influencerSchema [CMin 1]) (get_prop kvs ''influencers'')) = []"
    using assms unfolding c enrichedCaseSchema_mr_shape by (rule object_field_ok) simp
  then obtain x xs where i: "get_prop kvs ''influencers'' = JArr (x # xs)"
    by (rule min1_array)
  have "fst (zparse (ZArray metricSchema_mr [CMin 1]) (get_prop kvs ''metrics'')) = []"
    using assms unfolding c enrichedCaseSchema_mr_shape by (rule object_field_ok) simp
  then obtain y ys where m: "get_prop kvs ''metrics'' = JArr (y # ys)"
    by (rule min1_array)
  show "has_items ''influencers'' c \<and> has_items ''metrics'' c"
    by (simp add: c has_items_obj i m)
  have oi: "snd (zparse (ZArray influencerSchema [CMin 1]) (get_prop kvs ''influencers''))
             = JArr (snd (zparse influencerSchema x) # map (\<lambda>x. snd (zparse influencerSchema x)) xs)"
    by (simp add: i array_out)
  have om: "snd (zparse (ZArray metricSchema_mr [CMin 1]) (get_prop kvs ''metrics''))
             = JArr (snd (zparse metricSchema_mr y) # map (\<lambda>x. snd (zparse metricSchema_mr x)) ys)"
    by (simp add: m array_out)
  have "has_items ''influencers'' (snd (zparse enrichedCaseSchema_mr c))"
    unfolding c enrichedCaseSchema_mr_shape object_out has_items_obj
    by (subst get_prop_filter_map [where s = "ZArray influencerSchema [CMin 1]"]) (simp_all add: oi)
  moreover have "has_items ''metrics'' (snd (zparse enrichedCaseSchema_mr c))"
    unfolding c enrichedCaseSchema_mr_shape object_out has_items_obj
    by (subst get_prop_filter_map [where s = "ZArray metricSchema_mr [CMin 1]"]) (simp_all add: om)
  ultimately show "has_items ''influencers'' (snd (zparse enrichedCaseSchema_mr c))
         \<and> has_items ''metrics'' (snd (zparse enrichedCaseSchema_mr c))" by simp
qed

lemma those_Cons_nonempty: "those (x # xs) = Some ys \<Longrightarrow> ys \<noteq> []"
  by (auto split: option.splits)

lemma those_map_all:
  "those (map f xs) = Some ys \<Longrightarrow> list_all2 (\<lambda>x y. f x = Some y) xs ys"
proof (induction xs arbitrary: ys)
  case Nil
  then show ?case by simp
next
  case (Cons x xs)
  then show ?case by (auto split: option.splits)
qed

lemma as_array_items:
  assumes "as_array f v = Some ys" and "has_items k c" and "js_member c k = Inr v"
  shows "ys \<noteq> []"
  using assms by (auto simp: has_items_def split: jsval.splits list.splits option.splits)

lemma as_enrichedCase_items:
  assumes "as_enrichedCase c = Some t"
    and "has_items ''influencers'' c" and "has_items ''metrics'' c"
  shows "c_influencers t \<noteq> [] \<and> c_metrics t \<noteq> []"
proof -
  from assms(1) obtain kvs where c: "c = JObj kvs"
    by (cases c) (simp_all add: as_enrichedCase_def)
  from assms(1) have
    "as_array as_influencer (get_prop kvs ''influencers'') = Some (c_influencers t)"
    "as_array as_metric (get_prop kvs ''metrics'') = Some (c_metrics t)"
    by (auto simp: c as_enrichedCase_def split: Option.bind_splits)
  then show ?thesis
    using assms(2,3) by (auto simp: c dest: as_array_items)
qed

lemma bind_res_Inl: "bind_res (evs, Inl err) f = (evs, Inl err)"
  by (simp add: bind_res_def)

lemma parsed_member:
  assumes "distinct (map fst shape)" and "map_of shape k = Some s"
  shows "js_member (snd (zparse (ZObject shape) (JObj kvs))) k
           = Inr (snd (zparse s (get_prop kvs k)))"
proof -
  have "(k, s) \<in> set shape"
    using assms(2) by (rule map_of_SomeD)
  with assms(1) show ?thesis
    unfolding object_out by (simp add: get_prop_filter_map)
qed

lemma field_ok:
  assumes "fst (zparse (ZObject shape) (JObj kvs)) = []" and "map_of shape k = Some s"
  shows "fst (zparse s (get_prop kvs k)) = []"
  using assms(1) map_of_SomeD [OF assms(2)] by (rule object_field_ok)

lemma those_map_Some:
  assumes "those (map f xs) = Some ys"
  shows "length ys = length xs" and "\<forall>y \<in> set ys. \<exists>x \<in> set xs. f x = Some y"
proof -
  have a: "list_all2 (\<lambda>x y. f x = Some y) xs ys"
    using assms by (rule those_map_all)
  then show "length ys = length xs" by (simp add: list_all2_lengthD)
  from a show "\<forall>y \<in> set ys. \<exists>x \<in> set xs. f x = Some y"
    by (induction rule: list_all2_induct) auto
qed


text \<open>A value that is not \<open>undefined\<close> is not parsed to \<open>undefined\<close>.\<close>

lemma zparse_out_defined:
  assumes "fst (zparse s v) = []" and "v \<noteq> JUndefined"
  shows "snd (zparse s v) \<noteq> JUndefined"
  using assms
proof (induction s arbitrary: v)
  case (ZString cs)
  then show ?case by (cases v) (simp_all add: zparse.simps)
next
  case (ZNumber cs)
  then show ?case by (cases v) (simp_all add: zparse.simps)
next
  case ZBoolean
  then show ?case by (cases v) (simp_all add: zparse.simps)
next
  case (ZEnum opts)
  then show ?case by (cases v) (simp_all add: zparse.simps)
next
  case (ZArray el cs)
  then show ?case by (cases v) (simp_all add: zparse.simps Let_def)
next
  case (ZObject shape)
  then show ?case by (cases v) (simp_all add: zparse.simps Let_def)
next
  case (ZOptional s)
  then show ?case by (cases v) (simp_all add: zparse.simps)
next
  case (ZNullable s)
  then show ?case by (cases v) (simp_all add: zparse.simps)
next
  case (ZDefault s d)
  then show ?case by (cases v) (simp_all add: zparse.simps)
qed

lemma leaf_idem:
  assumes "fst (zparse s v) = []" and "snd (zparse s v) = v"
  shows "zparse s (snd (zparse s v)) = ([], snd (zparse s v))"
  using assms by (cases "zparse s v") simp

text \<open>
  The output of a schema satisfies the schema and is its own output: parsing what was parsed
  changes nothing.
\<close>

lemma zparse_idem:
  assumes "distinct_keys s" and "fst (zparse s v) = []"
  shows "zparse s (snd (zparse s v)) = ([], snd (zparse s v))"
  using assms
proof (induction s arbitrary: v)
  case (ZString cs)
  have "snd (zparse (ZString cs) v) = v" by (cases v) (simp_all add: zparse.simps)
  with ZString show ?case by (intro leaf_idem)
next
  case (ZNumber cs)
  have "snd (zparse (ZNumber cs) v) = v" by (cases v) (simp_all add: zparse.simps)
  with ZNumber show ?case by (intro leaf_idem)
next
  case ZBoolean
  have "snd (zparse ZBoolean v) = v" by (cases v) (simp_all add: zparse.simps)
  with ZBoolean show ?case by (intro leaf_idem)
next
  case (ZEnum opts)
  have "snd (zparse (ZEnum opts) v) = v" by (cases v) (simp_all add: zparse.simps)
  with ZEnum show ?case by (intro leaf_idem)
next
  case (ZArray el cs)
  from ZArray.prems(2) obtain xs where v: "v = JArr xs"
    and c: "\<forall>c \<in> set cs. check_issue (of_nat (length xs)) c = []"
    and e: "\<forall>x \<in> set xs. fst (zparse el x) = []"
    by (rule array_ok)
  have d: "distinct_keys el" using ZArray.prems(1) by simp
  have i: "zparse el (snd (zparse el x)) = ([], snd (zparse el x))" if "x \<in> set xs" for x
    using ZArray.IH [OF d] e that by blast
  have "fst (zparse (ZArray el cs) (JArr (map (\<lambda>x. snd (zparse el x)) xs))) = []"
    unfolding array_ok_iff using c i by simp
  moreover have "snd (zparse (ZArray el cs) (JArr (map (\<lambda>x. snd (zparse el x)) xs)))
      = JArr (map (\<lambda>x. snd (zparse el x)) xs)"
    unfolding array_out using i by simp
  ultimately have "zparse (ZArray el cs) (JArr (map (\<lambda>x. snd (zparse el x)) xs))
      = ([], JArr (map (\<lambda>x. snd (zparse el x)) xs))"
    by (rule zparse_pairI)
  then show ?case
    by (simp add: v array_out)
next
  case (ZObject shape)
  from ZObject.prems(2) obtain kvs where v: "v = JObj kvs"
    by (rule object_ok_is_object)
  define out where
    "out = filter (\<lambda>(k, x). x \<noteq> JUndefined)
             (map (\<lambda>(k, s). (k, snd (zparse s (get_prop kvs k)))) shape)"
  have dk: "distinct (map fst shape)" using ZObject.prems(1) by simp
  have g: "get_prop out k = snd (zparse s (get_prop kvs k))" if "(k, s) \<in> set shape" for k s
    unfolding out_def using dk that by (rule get_prop_filter_map)
  have i: "zparse s (get_prop out k) = ([], get_prop out k)" if "(k, s) \<in> set shape" for k s
  proof -
    have "distinct_keys s"
      using ZObject.prems(1) that by (auto simp: list_all_iff)
    moreover have "fst (zparse s (get_prop kvs k)) = []"
      using ZObject.prems(2) that unfolding v by (rule object_field_ok)
    moreover have "s \<in> Basic_BNFs.snds (k, s)" by simp
    ultimately have "zparse s (snd (zparse s (get_prop kvs k))) = ([], snd (zparse s (get_prop kvs k)))"
      using ZObject.IH that by blast
    then show ?thesis by (simp add: g [OF that])
  qed
  have "fst (zparse (ZObject shape) (JObj out)) = []"
    unfolding object_ok_iff using i by (auto simp: list_all_iff)
  moreover have "snd (zparse (ZObject shape) (JObj out)) = JObj out"
  proof -
    have m: "map (\<lambda>(k, s). (k, snd (zparse s (get_prop out k)))) shape
        = map (\<lambda>(k, s). (k, snd (zparse s (get_prop kvs k)))) shape"
      using i g by (intro map_cong) auto
    show ?thesis
      unfolding object_out by (subst m) (simp add: out_def)
  qed
  ultimately have "zparse (ZObject shape) (JObj out) = ([], JObj out)"
    by (rule zparse_pairI)
  then show ?case
    by (simp add: v object_out out_def)
next
  case (ZOptional s)
  show ?case
  proof (cases "v = JUndefined")
    case True
    then show ?thesis by (simp add: zparse.simps)
  next
    case False
    then have z: "zparse (ZOptional s) v = zparse s v"
      by (cases v) (simp_all add: zparse.simps)
    then have ok: "fst (zparse s v) = []" using ZOptional.prems(2) by simp
    then have "snd (zparse s v) \<noteq> JUndefined" using False by (rule zparse_out_defined)
    then have "zparse (ZOptional s) (snd (zparse s v)) = zparse s (snd (zparse s v))"
      by (cases "snd (zparse s v)") (simp_all add: zparse.simps)
    moreover have "zparse s (snd (zparse s v)) = ([], snd (zparse s v))"
      using ZOptional.IH ZOptional.prems(1) ok by simp
    ultimately show ?thesis by (simp add: z)
  qed
next
  case (ZNullable s)
  show ?case
  proof (cases "v = JNull")
    case True
    then show ?thesis by (simp add: zparse.simps)
  next
    case False
    then have z: "zparse (ZNullable s) v = zparse s v"
      by (cases v) (simp_all add: zparse.simps)
    then have ok: "fst (zparse s v) = []" using ZNullable.prems(2) by simp
    have i: "zparse s (snd (zparse s v)) = ([], snd (zparse s v))"
      using ZNullable.IH ZNullable.prems(1) ok by simp
    have "zparse (ZNullable s) (snd (zparse s v)) = ([], snd (zparse s v))"
      using i by (cases "snd (zparse s v)") (simp_all add: zparse.simps)
    then show ?thesis by (simp add: z)
  qed
next
  case (ZDefault s d)
  have dk: "distinct_keys s" using ZDefault.prems(1) by simp
  show ?case
  proof (cases "v = JUndefined")
    case True
    then have z: "zparse (ZDefault s d) v = zparse s d" by (simp add: zparse.simps)
    then have ok: "fst (zparse s d) = []" using ZDefault.prems(2) by simp
    have i: "zparse s (snd (zparse s d)) = ([], snd (zparse s d))"
      using ZDefault.IH dk ok by simp
    have "zparse (ZDefault s d) (snd (zparse s d)) = ([], snd (zparse s d))"
    proof (cases "snd (zparse s d) = JUndefined")
      case True
      have "zparse (ZDefault s d) JUndefined = zparse s d"
        by (simp add: zparse.simps)
      moreover have "zparse s d = ([], snd (zparse s d))"
        using ok by (rule zparse_pairI [OF _ refl])
      ultimately show ?thesis
        using True by metis
    next
      case False
      then have "zparse (ZDefault s d) (snd (zparse s d)) = zparse s (snd (zparse s d))"
        by (cases "snd (zparse s d)") (simp_all add: zparse.simps)
      then show ?thesis using i by simp
    qed
    then show ?thesis by (simp add: z)
  next
    case False
    then have z: "zparse (ZDefault s d) v = zparse s v"
      by (cases v) (simp_all add: zparse.simps)
    then have ok: "fst (zparse s v) = []" using ZDefault.prems(2) by simp
    then have "snd (zparse s v) \<noteq> JUndefined" using False by (rule zparse_out_defined)
    then have "zparse (ZDefault s d) (snd (zparse s v)) = zparse s (snd (zparse s v))"
      by (cases "snd (zparse s v)") (simp_all add: zparse.simps)
    moreover have "zparse s (snd (zparse s v)) = ([], snd (zparse s v))"
      using ZDefault.IH dk ok by simp
    ultimately show ?thesis by (simp add: z)
  qed
qed

lemma satisfies_output:
  assumes "distinct_keys s" and "fst (zparse s v) = []"
  shows "satisfies s (snd (zparse s v))"
  using zparse_idem [OF assms] by (simp add: satisfies_def)

lemma distinct_keys_schemas:
  "distinct_keys caseListSchema"
  "distinct_keys enrichedCaseListSchema_ci"
  "distinct_keys enrichedCaseListSchema_mr"
  by (simp_all add: caseListSchema_def enrichedCaseListSchema_ci_def enrichedCaseListSchema_mr_def
      enrichedCaseSchema_ci_shape enrichedCaseSchema_mr_shape baseCaseSchema_def
      influencerSchema_def metricSchema_ci_def metricSchema_mr_def)

subsection \<open>Values read at the inferred type\<close>

lemma string_value:
  assumes "fst (zparse (ZString cs) v) = []"
  obtains t where "v = JStr t"
  using assms by (cases v) (simp_all add: zparse.simps)

lemma optional_string_value:
  assumes "fst (zparse (ZOptional (ZString cs)) v) = []"
  shows "v = JUndefined \<or> (\<exists>t. v = JStr t)"
  using assms by (cases v) (simp_all add: zparse.simps)

lemma nullish_string_value:
  assumes "fst (zparse (ZOptional (ZNullable (ZString cs))) v) = []"
  shows "v = JUndefined \<or> v = JNull \<or> (\<exists>t. v = JStr t)"
  using assms by (cases v) (simp_all add: zparse.simps)

lemma those_all_Some:
  assumes "\<forall>x \<in> set xs. \<exists>y. f x = Some y"
  shows "\<exists>ys. those (map f xs) = Some ys"
  using assms by (induction xs) auto

lemma array_view:
  assumes "fst (zparse (ZArray el cs) v) = []"
    and "\<And>x. fst (zparse el x) = [] \<Longrightarrow> \<exists>y. f x = Some y"
  shows "\<exists>ys. as_array f v = Some ys"
proof -
  from assms(1) obtain xs where "v = JArr xs" and "\<forall>x \<in> set xs. fst (zparse el x) = []"
    by (rule array_ok)
  then show ?thesis using assms(2) by (simp add: those_all_Some)
qed

lemma optional_array_view:
  assumes "fst (zparse (ZOptional (ZArray el cs)) v) = []"
    and "\<And>x. fst (zparse el x) = [] \<Longrightarrow> \<exists>y. f x = Some y"
  shows "\<exists>ys. as_optional (as_array f) v = Some ys"
proof (cases "v = JUndefined")
  case True
  then show ?thesis by simp
next
  case False
  then have "fst (zparse (ZArray el cs) v) = []"
    using assms(1) by (cases v) (simp_all add: zparse.simps)
  then obtain ys where "as_array f v = Some ys"
    using array_view assms(2) by blast
  then show ?thesis using False by (cases v) simp_all
qed

lemma string_view: "fst (zparse (ZString cs) v) = [] \<Longrightarrow> \<exists>t. as_string v = Some t"
  by (erule string_value) simp

lemma optional_string_view:
  "fst (zparse (ZOptional (ZString cs)) v) = [] \<Longrightarrow> \<exists>t. as_optional as_string v = Some t"
  by (drule optional_string_value) auto

lemma nullish_string_view:
  "fst (zparse (ZOptional (ZNullable (ZString cs))) v) = [] \<Longrightarrow> \<exists>t. as_nullish as_string v = Some t"
  by (drule nullish_string_value) auto

lemma optional_as_nullish_view:
  "fst (zparse (ZOptional (ZString cs)) v) = [] \<Longrightarrow> \<exists>t. as_nullish as_string v = Some t"
  by (drule optional_string_value) auto

lemma influencer_view:
  assumes "fst (zparse influencerSchema v) = []"
  shows "\<exists>i. as_influencer v = Some i"
proof -
  from assms obtain kvs where v: "v = JObj kvs"
    unfolding influencerSchema_def by (rule object_ok_is_object)
  note f = field_ok [OF assms [unfolded v influencerSchema_def]]
  obtain a where a: "as_string (get_prop kvs ''name'') = Some a"
    using string_view [OF f [of "''name''"]] by auto
  obtain b where b: "as_optional as_string (get_prop kvs ''platform'') = Some b"
    using optional_string_view [OF f [of "''platform''"]] by auto
  obtain c where c: "as_optional as_string (get_prop kvs ''handle'') = Some c"
    using optional_string_view [OF f [of "''handle''"]] by auto
  obtain d where d: "as_optional as_string (get_prop kvs ''followers'') = Some d"
    using optional_string_view [OF f [of "''followers''"]] by auto
  obtain g where g: "as_optional as_string (get_prop kvs ''positioning'') = Some g"
    using optional_string_view [OF f [of "''positioning''"]] by auto
  show ?thesis
    by (simp add: v as_influencer_def a b c d g)
qed

lemma metric_ci_view:
  assumes "fst (zparse metricSchema_ci v) = []"
  shows "\<exists>m. as_metric v = Some m"
proof -
  from assms obtain kvs where v: "v = JObj kvs"
    unfolding metricSchema_ci_def by (rule object_ok_is_object)
  note f = field_ok [OF assms [unfolded v metricSchema_ci_def]]
  obtain a where a: "as_string (get_prop kvs ''metric'') = Some a"
    using string_view [OF f [of "''metric''"]] by auto
  obtain b where b: "as_string (get_prop kvs ''value'') = Some b"
    using string_view [OF f [of "''value''"]] by auto
  obtain c where c: "as_nullish as_string (get_prop kvs ''currency'') = Some c"
    using optional_as_nullish_view [OF f [of "''currency''"]] by auto
  obtain d where d: "as_optional as_string (get_prop kvs ''timeframe'') = Some d"
    using optional_string_view [OF f [of "''timeframe''"]] by auto
  obtain g where g: "as_optional as_string (get_prop kvs ''note'') = Some g"
    using optional_string_view [OF f [of "''note''"]] by auto
  show ?thesis
    by (simp add: v as_metric_def a b c d g)
qed

lemma metric_mr_view:
  assumes "fst (zparse metricSchema_mr v) = []"
  shows "\<exists>m. as_metric v = Some m"
proof -
  from assms obtain kvs where v: "v = JObj kvs"
    unfolding metricSchema_mr_def by (rule object_ok_is_object)
  note f = field_ok [OF assms [unfolded v metricSchema_mr_def]]
  obtain a where a: "as_string (get_prop kvs ''metric'') = Some a"
    using string_view [OF f [of "''metric''"]] by auto
  obtain b where b: "as_string (get_prop kvs ''value'') = Some b"
    using string_view [OF f [of "''value''"]] by auto
  obtain c where c: "as_nullish as_string (get_prop kvs ''currency'') = Some c"
    using nullish_string_view [OF f [of "''currency''"]] by auto
  obtain d where d: "as_optional as_string (get_prop kvs ''timeframe'') = Some d"
    using optional_string_view [OF f [of "''timeframe''"]] by auto
  obtain g where g: "as_optional as_string (get_prop kvs ''note'') = Some g"
    using optional_string_view [OF f [of "''note''"]] by auto
  show ?thesis
    by (simp add: v as_metric_def a b c d g)
qed

lemma enrichedCase_view:
  assumes "fst (zparse (ZObject
     [(''brand'', ZString []),
      (''campaignName'', ZString []),
      (''geography'', ZString []),
      (''timeframe'', ZOptional (ZString [])),
      (''summary'', ZString []),
      (''productFocus'', ZOptional (ZString [])),
      (''offerType'', ZOptional (ZString [])),
      (''influencers'', ZArray influencerSchema [CMin 1]),
      (''sources'', ZOptional (ZArray (ZString []) [CMin 1])),
      (''metrics'', ZArray ms [CMin 1])]) v) = []"
    and "\<And>x. fst (zparse ms x) = [] \<Longrightarrow> \<exists>m. as_metric x = Some m"
  shows "\<exists>c. as_enrichedCase v = Some c"
proof -
  from assms(1) obtain kvs where v: "v = JObj kvs"
    by (rule object_ok_is_object)
  note f = field_ok [OF assms(1) [unfolded v]]
  obtain a where a: "as_string (get_prop kvs ''brand'') = Some a"
    using string_view [OF f [of "''brand''"]] by auto
  obtain b where b: "as_string (get_prop kvs ''campaignName'') = Some b"
    using string_view [OF f [of "''campaignName''"]] by auto
  obtain c where c: "as_string (get_prop kvs ''geography'') = Some c"
    using string_view [OF f [of "''geography''"]] by auto
  obtain d where d: "as_optional as_string (get_prop kvs ''timeframe'') = Some d"
    using optional_string_view [OF f [of "''timeframe''"]] by auto
  obtain g where g: "as_string (get_prop kvs ''summary'') = Some g"
    using string_view [OF f [of "''summary''"]] by auto
  obtain h where h: "as_optional as_string (get_prop kvs ''productFocus'') = Some h"
    using optional_string_view [OF f [of "''productFocus''"]] by auto
  obtain i where i: "as_optional as_string (get_prop kvs ''offerType'') = Some i"
    using optional_string_view [OF f [of "''offerType''"]] by auto
  obtain j where j: "as_array as_influencer (get_prop kvs ''influencers'') = Some j"
    using array_view [OF f [of "''influencers''"], where f = as_influencer] influencer_view by auto
  obtain k where k: "as_optional (as_array as_string) (get_prop kvs ''sources'') = Some k"
    using optional_array_view [OF f [of "''sources''"], where f = as_string] string_view by auto
  obtain l where l: "as_array as_metric (get_prop kvs ''metrics'') = Some l"
    using array_view [OF f [of "''metrics''"], where f = as_metric] assms(2) by auto
  show ?thesis
    by (simp add: v as_enrichedCase_def a b c d g h i j k l)
qed

lemma enrichedCase_ci_view:
  "fst (zparse enrichedCaseSchema_ci v) = [] \<Longrightarrow> \<exists>c. as_enrichedCase v = Some c"
  unfolding enrichedCaseSchema_ci_shape by (erule enrichedCase_view) (rule metric_ci_view)

lemma enrichedCase_mr_view:
  "fst (zparse enrichedCaseSchema_mr v) = [] \<Longrightarrow> \<exists>c. as_enrichedCase v = Some c"
  unfolding enrichedCaseSchema_mr_shape by (erule enrichedCase_view) (rule metric_mr_view)

section \<open>The adapter\<close>


lemma parse_and_validate_eq:
  "parse_and_validate w s txt =
     (case JSON_parse w txt of
        Inl msg \<Rightarrow> Inl msg
      | Inr parsed \<Rightarrow>
          if satisfies s parsed then Inr (snd (zparse s parsed))
          else Inl (ZodError_message w (fst (zparse s parsed))))"
  by (simp add: parse_and_validate_def satisfies_def split: sum.splits prod.splits list.splits)

lemma parse_and_validate_Inr:
  assumes "parse_and_validate w s txt = Inr v"
  shows "\<exists>parsed. fst (zparse s parsed) = [] \<and> v = snd (zparse s parsed)"
  using assms
  by (auto simp: parse_and_validate_eq satisfies_def split: sum.splits if_splits)

lemma forward_cases_Inr:
  assumes "forward_cases d r = (evs, Inr out)"
  shows "\<exists>structured. r = (evs, Inr structured) \<and> js_member structured ''cases'' = Inr (cases out)"
    and "metricFocus out = metricFocus d" and "language out = language d"
    and "includeSources out = includeSources d"
  using assms by (auto simp: forward_cases_def split: prod.splits sum.splits)


lemma generateObject_eq:
  "generateObject w m s sys p =
     (case provider_object w m s sys p of
        Inl err \<Rightarrow> Inl err
      | Inr v \<Rightarrow>
          if satisfies s v then Inr (snd (zparse s v))
          else Inl (NoObjectGeneratedError w (fst (zparse s v))))"
  by (simp add: generateObject_def satisfies_def split: sum.splits prod.splits list.splits)

lemma generateObject_Inr:
  assumes "generateObject w m s sys p = Inr out"
  shows "\<exists>v. fst (zparse s v) = [] \<and> out = snd (zparse s v)"
  using assms by (auto simp: generateObject_eq satisfies_def split: sum.splits if_splits)

text \<open>In either mode, what the adapter returns is the output of the schema for some value.\<close>

lemma adapter_ci_value:
  assumes "generateStructuredObject_ci w e m s sys p = (evs, Inr out)"
  shows "\<exists>v. fst (zparse s v) = [] \<and> out = snd (zparse s v)"
proof (cases "isSearchModel e")
  case True
  with assms obtain t where "parse_and_validate w s t = Inr out"
    by (auto simp: generateStructuredObject_ci_def Let_def split: sum.splits)
  then show ?thesis by (rule parse_and_validate_Inr)
next
  case False
  with assms have "generateObject w m s sys p = Inr out"
    by (simp add: generateStructuredObject_ci_def)
  then show ?thesis by (rule generateObject_Inr)
qed

lemma adapter_mr_value:
  assumes "generateStructuredObject_mr w e m s sys p = (evs, Inr out)"
  shows "\<exists>v. fst (zparse s v) = [] \<and> out = snd (zparse s v)"
proof (cases "isNonStructuredModel e")
  case True
  with assms obtain t where "parse_and_validate w s t = Inr out"
    by (auto simp: generateStructuredObject_mr_def Let_def split: sum.splits)
  then show ?thesis by (rule parse_and_validate_Inr)
next
  case False
  with assms have "generateObject w m s sys p = Inr out"
    by (simp add: generateStructuredObject_mr_def)
  then show ?thesis by (rule generateObject_Inr)
qed

lemma adapter_ci_valid:
  assumes "distinct_keys s" and "generateStructuredObject_ci w e m s sys p = (evs, Inr out)"
  shows "satisfies s out"
  using adapter_ci_value [OF assms(2)] satisfies_output [OF assms(1)] by blast

lemma adapter_mr_valid:
  assumes "distinct_keys s" and "generateStructuredObject_mr w e m s sys p = (evs, Inr out)"
  shows "satisfies s out"
  using adapter_mr_value [OF assms(2)] satisfies_output [OF assms(1)] by blast

lemma empty_case_list_parsed:
  "zparse caseListSchema (JObj [(''cases'', JArr [])]) = ([], JObj [(''cases'', JArr [])])"
  by (simp add: caseListSchema_def zparse.simps get_prop.simps)

lemma empty_object_not_case_list: "fst (zparse caseListSchema (JObj [])) \<noteq> []"
  by (simp add: caseListSchema_def zparse.simps get_prop.simps)

text \<open>
  C4, as amended. The branch of the adapter is a function of the configured model name alone.
  The market-research workflow takes the text branch exactly when the name contains
  "search" or starts with "gpt-5"; \<open>commerce-influencer.ts\<close> takes it exactly when the name
  contains "search", so that a name such as "gpt-5-mini" selects the structured branch there.
\<close>

theorem mode_selection:
  "text_mode (generateStructuredObject_mr w e m s sys p)
     = (sublist ''search'' (OPENAI_MODEL e) \<or> prefix ''gpt-5'' (OPENAI_MODEL e))
   \<and> text_mode (generateStructuredObject_ci w e m s sys p) = sublist ''search'' (OPENAI_MODEL e)"
  by (simp add: text_mode_def generateStructuredObject_mr_def generateStructuredObject_ci_def
      isSearchModel_def isNonStructuredModel_def MODEL_NAME_def Let_def
      str_includes_sublist str_startsWith_prefix split: sum.splits)

text \<open>
  C4 as stated fails for \<open>commerce-influencer.ts\<close>: with the model "gpt-5-mini", whose name
  starts with "gpt-5", its adapter makes the structured call.
\<close>

theorem mode_selection_counterexample:
  "prefix ''gpt-5'' ''gpt-5-mini''
   \<and> generateStructuredObject_ci (example_world (''{'' @ [CHR 0x22] @ ''cases'' @ [CHR 0x22] @ '':[]}'') (JObj [(''cases'', JArr [])]) (Inr (JObj [(''cases'', JArr [])]))) (example_env ''gpt-5-mini'' None)
        ''gpt-5-mini'' caseListSchema ''system'' ''prompt''
      = ([GenerateObject ''gpt-5-mini'' caseListSchema ''system'' ''prompt''],
         Inr (JObj [(''cases'', JArr [])]))
   \<and> \<not> text_mode (generateStructuredObject_ci (example_world (''{'' @ [CHR 0x22] @ ''cases'' @ [CHR 0x22] @ '':[]}'') (JObj [(''cases'', JArr [])]) (Inr (JObj [(''cases'', JArr [])]))) (example_env ''gpt-5-mini'' None)
        ''gpt-5-mini'' caseListSchema ''system'' ''prompt'')"
  by (simp add: text_mode_def generateStructuredObject_ci_def isSearchModel_def MODEL_NAME_def
      example_env_def example_world_def generateObject_def empty_case_list_parsed)

text \<open>
  C3. In the structured branch the adapter hands the schema to \<open>generateObject\<close>, which puts
  the value the provider answered to the schema before the adapter sees it. A value that
  does not satisfy the schema makes the call, and with it the adapter, fail with the error
  of the library; a value that satisfies it is returned as the output of the schema, which
  satisfies the schema again. The adapter adds no check of its own to that of the library,
  and it never returns a value that violates the schema.
\<close>

theorem structured_mode_validates:
  "(\<not> isSearchModel e \<longrightarrow>
      generateStructuredObject_ci w e m s sys p =
        ([GenerateObject m s sys p],
         case provider_object w m s sys p of
           Inl err \<Rightarrow> Inl err
         | Inr v \<Rightarrow>
             if satisfies s v then Inr (snd (zparse s v))
             else Inl (NoObjectGeneratedError w (fst (zparse s v))))
      \<and> (distinct_keys s \<and> snd (generateStructuredObject_ci w e m s sys p) = Inr out \<longrightarrow>
            satisfies s out))
   \<and> (\<not> isNonStructuredModel e \<longrightarrow>
      generateStructuredObject_mr w e m s sys p =
        ([GenerateObject m s sys p],
         case provider_object w m s sys p of
           Inl err \<Rightarrow> Inl err
         | Inr v \<Rightarrow>
             if satisfies s v then Inr (snd (zparse s v))
             else Inl (NoObjectGeneratedError w (fst (zparse s v))))
      \<and> (distinct_keys s \<and> snd (generateStructuredObject_mr w e m s sys p) = Inr out \<longrightarrow>
            satisfies s out))"
proof (intro conjI impI)
  assume "\<not> isSearchModel e"
  then show "generateStructuredObject_ci w e m s sys p =
        ([GenerateObject m s sys p],
         case provider_object w m s sys p of
           Inl err \<Rightarrow> Inl err
         | Inr v \<Rightarrow>
             if satisfies s v then Inr (snd (zparse s v))
             else Inl (NoObjectGeneratedError w (fst (zparse s v))))"
    by (simp add: generateStructuredObject_ci_def generateObject_eq)
next
  assume "distinct_keys s \<and> snd (generateStructuredObject_ci w e m s sys p) = Inr out"
  then show "satisfies s out"
    using adapter_ci_valid [of s w e m sys p "fst (generateStructuredObject_ci w e m s sys p)" out]
    by (cases "generateStructuredObject_ci w e m s sys p") simp
next
  assume "\<not> isNonStructuredModel e"
  then show "generateStructuredObject_mr w e m s sys p =
        ([GenerateObject m s sys p],
         case provider_object w m s sys p of
           Inl err \<Rightarrow> Inl err
         | Inr v \<Rightarrow>
             if satisfies s v then Inr (snd (zparse s v))
             else Inl (NoObjectGeneratedError w (fst (zparse s v))))"
    by (simp add: generateStructuredObject_mr_def generateObject_eq)
next
  assume "distinct_keys s \<and> snd (generateStructuredObject_mr w e m s sys p) = Inr out"
  then show "satisfies s out"
    using adapter_mr_valid [of s w e m sys p "fst (generateStructuredObject_mr w e m s sys p)" out]
    by (cases "generateStructuredObject_mr w e m s sys p") simp
qed

text \<open>
  A provider that answers the empty object, which has no \<open>cases\<close>: the adapter fails. A
  provider that answers an empty case list: the adapter returns it.
\<close>

theorem structured_mode_validates_witness:
  "\<not> isSearchModel (example_env ''gpt-4o-mini'' None)
   \<and> \<not> isNonStructuredModel (example_env ''gpt-4o-mini'' None)
   \<and> distinct_keys caseListSchema
   \<and> \<not> satisfies caseListSchema (JObj [])
   \<and> generateStructuredObject_ci (example_world ''{}'' (JObj []) (Inr (JObj []))) (example_env ''gpt-4o-mini'' None)
        ''gpt-4o-mini'' caseListSchema ''system'' ''prompt''
      = ([GenerateObject ''gpt-4o-mini'' caseListSchema ''system'' ''prompt''],
         Inl (Upstream ''No object generated: response did not match schema.''))
   \<and> generateStructuredObject_mr (example_world ''{}'' (JObj []) (Inr (JObj []))) (example_env ''gpt-4o-mini'' None)
        ''gpt-4o-mini'' caseListSchema ''system'' ''prompt''
      = ([GenerateObject ''gpt-4o-mini'' caseListSchema ''system'' ''prompt''],
         Inl (Upstream ''No object generated: response did not match schema.''))
   \<and> generateStructuredObject_ci (example_world ''{}'' (JObj [(''cases'', JArr [])]) (Inr (JObj []))) (example_env ''gpt-4o-mini'' None)
        ''gpt-4o-mini'' caseListSchema ''system'' ''prompt''
      = ([GenerateObject ''gpt-4o-mini'' caseListSchema ''system'' ''prompt''],
         Inr (JObj [(''cases'', JArr [])]))
   \<and> satisfies caseListSchema (JObj [(''cases'', JArr [])])"
proof -
  have a: "\<not> isSearchModel (example_env ''gpt-4o-mini'' None)"
    "\<not> isNonStructuredModel (example_env ''gpt-4o-mini'' None)"
    by (simp_all add: isSearchModel_def isNonStructuredModel_def MODEL_NAME_def example_env_def)
  have b: "\<not> satisfies caseListSchema (JObj [])"
    by (simp add: satisfies_def empty_object_not_case_list)
  have c: "satisfies caseListSchema (JObj [(''cases'', JArr [])])"
    by (simp add: satisfies_def empty_case_list_parsed)
  have d: "provider_object (example_world t obj parsed) m s sys p = Inr obj"
    "NoObjectGeneratedError (example_world t obj parsed) iss
       = Upstream ''No object generated: response did not match schema.''"
    for t obj parsed m s sys p iss
    by (simp_all add: example_world_def)
  note t1 = structured_mode_validates [of "example_env ''gpt-4o-mini'' None"
      "example_world ''{}'' (JObj []) (Inr (JObj []))" "''gpt-4o-mini''" caseListSchema
      "''system''" "''prompt''" "JObj []"]
  note t2 = structured_mode_validates [of "example_env ''gpt-4o-mini'' None"
      "example_world ''{}'' (JObj [(''cases'', JArr [])]) (Inr (JObj []))" "''gpt-4o-mini''"
      caseListSchema "''system''" "''prompt''" "JObj [(''cases'', JArr [])]"]
  have r1: "generateStructuredObject_ci (example_world ''{}'' (JObj []) (Inr (JObj []))) (example_env ''gpt-4o-mini'' None)
        ''gpt-4o-mini'' caseListSchema ''system'' ''prompt''
      = ([GenerateObject ''gpt-4o-mini'' caseListSchema ''system'' ''prompt''],
         Inl (Upstream ''No object generated: response did not match schema.''))"
    using t1 [THEN conjunct1, rule_format, OF a(1), THEN conjunct1] b by (simp add: d)
  have r2: "generateStructuredObject_mr (example_world ''{}'' (JObj []) (Inr (JObj []))) (example_env ''gpt-4o-mini'' None)
        ''gpt-4o-mini'' caseListSchema ''system'' ''prompt''
      = ([GenerateObject ''gpt-4o-mini'' caseListSchema ''system'' ''prompt''],
         Inl (Upstream ''No object generated: response did not match schema.''))"
    using t1 [THEN conjunct2, rule_format, OF a(2), THEN conjunct1] b by (simp add: d)
  have r3: "generateStructuredObject_ci (example_world ''{}'' (JObj [(''cases'', JArr [])]) (Inr (JObj []))) (example_env ''gpt-4o-mini'' None)
        ''gpt-4o-mini'' caseListSchema ''system'' ''prompt''
      = ([GenerateObject ''gpt-4o-mini'' caseListSchema ''system'' ''prompt''],
         Inr (JObj [(''cases'', JArr [])]))"
    using t2 [THEN conjunct1, rule_format, OF a(1), THEN conjunct1] c
    by (simp add: d empty_case_list_parsed)
  have r4: "satisfies caseListSchema (JObj [(''cases'', JArr [])])"
    using t2 [THEN conjunct1, rule_format, OF a(1), THEN conjunct2, rule_format]
      distinct_keys_schemas(1) r3 by simp
  from a b r1 r2 r3 r4 distinct_keys_schemas(1) show ?thesis by blast
qed


lemma carries_Error: "carries (Error msg) t = sublist t msg"
  by (simp add: str_includes_sublist)

lemma longer_not_carried:
  assumes "length msg < length t"
  shows "\<not> carries (Error msg) t"
proof
  assume "carries (Error msg) t"
  then have "sublist t msg" by (simp only: carries_Error)
  then have "length t \<le> length msg" by (rule sublist_length_le)
  with assms show False by simp
qed

text \<open>
  C5, as amended. In the text branch the adapter appends the JSON-only instruction to the
  system prompt and to the user prompt and makes one free-text call; a failure of the call
  is passed on. It hands the returned text to \<open>JSON.parse\<close> and the parsed value to the schema.
  When the text is not JSON, or the parsed value does not satisfy the schema, it throws an
  \<open>Error\<close> whose message is a fixed prefix followed by the message of the parser or of zod,
  and nothing else: the returned text is part of the error only where that message quotes
  it, and a text longer than the whole message is not carried (the market-research workflow
  writes the text to the error console before it throws). Otherwise it returns the output
  of the schema, which satisfies the schema.
\<close>

theorem text_mode_parses_and_validates:
  "(isSearchModel e \<longrightarrow>
      generateStructuredObject_ci w e m s sys p =
        ([GenerateText m (sys @ json_only_system) (p @ json_only_prompt)],
         case generateText w m (sys @ json_only_system) (p @ json_only_prompt) of
           Inl err \<Rightarrow> Inl err
         | Inr txt \<Rightarrow>
             (case JSON_parse w txt of
                Inl msg \<Rightarrow>
                  Inl (Error (''Failed to parse search model response as valid JSON: '' @ msg))
              | Inr parsed \<Rightarrow>
                  if satisfies s parsed then Inr (snd (zparse s parsed))
                  else Inl (Error (''Failed to parse search model response as valid JSON: ''
                                    @ ZodError_message w (fst (zparse s parsed)))))))
   \<and> (isNonStructuredModel e \<longrightarrow>
      generateStructuredObject_mr w e m s sys p =
        (case generateText w m (sys @ json_only_system) (p @ json_only_prompt) of
           Inl err \<Rightarrow> ([GenerateText m (sys @ json_only_system) (p @ json_only_prompt)], Inl err)
         | Inr txt \<Rightarrow>
             (case JSON_parse w txt of
                Inl msg \<Rightarrow>
                  (GenerateText m (sys @ json_only_system) (p @ json_only_prompt)
                     # parse_failure_log txt,
                   Inl (Error (''Failed to parse non-structured model response as valid JSON: ''
                                @ msg)))
              | Inr parsed \<Rightarrow>
                  if satisfies s parsed
                  then ([GenerateText m (sys @ json_only_system) (p @ json_only_prompt)],
                        Inr (snd (zparse s parsed)))
                  else (GenerateText m (sys @ json_only_system) (p @ json_only_prompt)
                          # parse_failure_log txt,
                        Inl (Error
                          (''Failed to parse non-structured model response as valid JSON: ''
                            @ ZodError_message w (fst (zparse s parsed))))))))
   \<and> carries (Error (''Failed to parse search model response as valid JSON: '' @ msg)) t
       = sublist t (''Failed to parse search model response as valid JSON: '' @ msg)
   \<and> carries (Error (''Failed to parse non-structured model response as valid JSON: '' @ msg)) t
       = sublist t (''Failed to parse non-structured model response as valid JSON: '' @ msg)
   \<and> (length (''Failed to parse search model response as valid JSON: '' @ msg) < length t \<longrightarrow>
        \<not> carries (Error (''Failed to parse search model response as valid JSON: '' @ msg)) t)
   \<and> (length (''Failed to parse non-structured model response as valid JSON: '' @ msg) < length t \<longrightarrow>
        \<not> carries (Error (''Failed to parse non-structured model response as valid JSON: '' @ msg)) t)
   \<and> (distinct_keys s \<and> isSearchModel e
        \<and> snd (generateStructuredObject_ci w e m s sys p) = Inr out \<longrightarrow> satisfies s out)
   \<and> (distinct_keys s \<and> isNonStructuredModel e
        \<and> snd (generateStructuredObject_mr w e m s sys p) = Inr out \<longrightarrow> satisfies s out)"
proof (intro conjI impI)
  assume "isSearchModel e"
  then show "generateStructuredObject_ci w e m s sys p =
        ([GenerateText m (sys @ json_only_system) (p @ json_only_prompt)],
         case generateText w m (sys @ json_only_system) (p @ json_only_prompt) of
           Inl err \<Rightarrow> Inl err
         | Inr txt \<Rightarrow>
             (case JSON_parse w txt of
                Inl msg \<Rightarrow>
                  Inl (Error (''Failed to parse search model response as valid JSON: '' @ msg))
              | Inr parsed \<Rightarrow>
                  if satisfies s parsed then Inr (snd (zparse s parsed))
                  else Inl (Error (''Failed to parse search model response as valid JSON: ''
                                    @ ZodError_message w (fst (zparse s parsed))))))"
    by (simp add: generateStructuredObject_ci_def Let_def parse_and_validate_eq split: sum.splits)
next
  assume "isNonStructuredModel e"
  then show "generateStructuredObject_mr w e m s sys p =
        (case generateText w m (sys @ json_only_system) (p @ json_only_prompt) of
           Inl err \<Rightarrow> ([GenerateText m (sys @ json_only_system) (p @ json_only_prompt)], Inl err)
         | Inr txt \<Rightarrow>
             (case JSON_parse w txt of
                Inl msg \<Rightarrow>
                  (GenerateText m (sys @ json_only_system) (p @ json_only_prompt)
                     # parse_failure_log txt,
                   Inl (Error (''Failed to parse non-structured model response as valid JSON: ''
                                @ msg)))
              | Inr parsed \<Rightarrow>
                  if satisfies s parsed
                  then ([GenerateText m (sys @ json_only_system) (p @ json_only_prompt)],
                        Inr (snd (zparse s parsed)))
                  else (GenerateText m (sys @ json_only_system) (p @ json_only_prompt)
                          # parse_failure_log txt,
                        Inl (Error
                          (''Failed to parse non-structured model response as valid JSON: ''
                            @ ZodError_message w (fst (zparse s parsed)))))))"
    by (simp add: generateStructuredObject_mr_def Let_def parse_and_validate_eq split: sum.splits)
next
  show "carries (Error (''Failed to parse search model response as valid JSON: '' @ msg)) t
       = sublist t (''Failed to parse search model response as valid JSON: '' @ msg)"
    by (rule carries_Error)
next
  show "carries (Error (''Failed to parse non-structured model response as valid JSON: '' @ msg)) t
       = sublist t (''Failed to parse non-structured model response as valid JSON: '' @ msg)"
    by (rule carries_Error)
next
  assume "length (''Failed to parse search model response as valid JSON: '' @ msg) < length t"
  then show "\<not> carries (Error (''Failed to parse search model response as valid JSON: '' @ msg)) t"
    by (rule longer_not_carried)
next
  assume "length (''Failed to parse non-structured model response as valid JSON: '' @ msg) < length t"
  then show "\<not> carries (Error (''Failed to parse non-structured model response as valid JSON: '' @ msg)) t"
    by (rule longer_not_carried)
next
  assume "distinct_keys s \<and> isSearchModel e
        \<and> snd (generateStructuredObject_ci w e m s sys p) = Inr out"
  then show "satisfies s out"
    using adapter_ci_valid [of s w e m sys p "fst (generateStructuredObject_ci w e m s sys p)" out]
    by (cases "generateStructuredObject_ci w e m s sys p") simp
next
  assume "distinct_keys s \<and> isNonStructuredModel e
        \<and> snd (generateStructuredObject_mr w e m s sys p) = Inr out"
  then show "satisfies s out"
    using adapter_mr_valid [of s w e m sys p "fst (generateStructuredObject_mr w e m s sys p)" out]
    by (cases "generateStructuredObject_mr w e m s sys p") simp
qed

lemma search_preview_is_text:
  "isSearchModel (example_env ''gpt-4o-search-preview'' None)"
  "isNonStructuredModel (example_env ''gpt-4o-search-preview'' None)"
  by (simp_all add: isSearchModel_def isNonStructuredModel_def MODEL_NAME_def example_env_def)

text \<open>
  A model that answers an empty case list as JSON, and one that answers in prose: the first
  answer is returned, the second makes the adapter throw, and the text of 170 characters
  is not part of the message of 108.
\<close>

theorem text_mode_parses_and_validates_witness:
  "isSearchModel (example_env ''gpt-4o-search-preview'' None)
   \<and> isNonStructuredModel (example_env ''gpt-4o-search-preview'' None)
   \<and> distinct_keys caseListSchema
   \<and> satisfies caseListSchema (JObj [(''cases'', JArr [])])
   \<and> generateStructuredObject_ci (example_world (''{'' @ [CHR 0x22] @ ''cases'' @ [CHR 0x22] @ '':[]}'') (JObj [(''cases'', JArr [])]) (Inr (JObj [(''cases'', JArr [])]))) (example_env ''gpt-4o-search-preview'' None)
        ''gpt-4o-search-preview'' caseListSchema ''system'' ''prompt''
      = ([GenerateText ''gpt-4o-search-preview'' (''system'' @ json_only_system)
            (''prompt'' @ json_only_prompt)],
         Inr (JObj [(''cases'', JArr [])]))
   \<and> generateStructuredObject_mr (example_world (''{'' @ [CHR 0x22] @ ''cases'' @ [CHR 0x22] @ '':[]}'') (JObj [(''cases'', JArr [])]) (Inr (JObj [(''cases'', JArr [])]))) (example_env ''gpt-4o-search-preview'' None)
        ''gpt-4o-search-preview'' caseListSchema ''system'' ''prompt''
      = ([GenerateText ''gpt-4o-search-preview'' (''system'' @ json_only_system)
            (''prompt'' @ json_only_prompt)],
         Inr (JObj [(''cases'', JArr [])]))
   \<and> length (''Failed to parse search model response as valid JSON: '' @ quoting_message)
       < length chatty_answer
   \<and> length (''Failed to parse non-structured model response as valid JSON: '' @ quoting_message)
       < length chatty_answer
   \<and> \<not> carries (Error (''Failed to parse search model response as valid JSON: '' @ quoting_message))
         chatty_answer
   \<and> \<not> carries (Error (''Failed to parse non-structured model response as valid JSON: ''
                         @ quoting_message)) chatty_answer"
proof -
  note a = search_preview_is_text
  have c: "satisfies caseListSchema (JObj [(''cases'', JArr [])])"
    by (simp add: satisfies_def empty_case_list_parsed)
  have l: "length (''Failed to parse search model response as valid JSON: '' @ quoting_message)
       < length chatty_answer"
    "length (''Failed to parse non-structured model response as valid JSON: '' @ quoting_message)
       < length chatty_answer"
    by (simp_all add: chatty_answer_def quoting_message_def)
  note t = text_mode_parses_and_validates [of "example_env ''gpt-4o-search-preview'' None"
      "example_world (''{'' @ [CHR 0x22] @ ''cases'' @ [CHR 0x22] @ '':[]}'') (JObj [(''cases'', JArr [])]) (Inr (JObj [(''cases'', JArr [])]))"
      "''gpt-4o-search-preview''" caseListSchema "''system''" "''prompt''" quoting_message
      chatty_answer "JObj [(''cases'', JArr [])]"]
  have r1: "generateStructuredObject_ci (example_world (''{'' @ [CHR 0x22] @ ''cases'' @ [CHR 0x22] @ '':[]}'') (JObj [(''cases'', JArr [])]) (Inr (JObj [(''cases'', JArr [])]))) (example_env ''gpt-4o-search-preview'' None)
        ''gpt-4o-search-preview'' caseListSchema ''system'' ''prompt''
      = ([GenerateText ''gpt-4o-search-preview'' (''system'' @ json_only_system)
            (''prompt'' @ json_only_prompt)],
         Inr (JObj [(''cases'', JArr [])]))"
    using t [THEN conjunct1, rule_format, OF a(1)] c
    by (simp add: example_world_def empty_case_list_parsed)
  have r2: "generateStructuredObject_mr (example_world (''{'' @ [CHR 0x22] @ ''cases'' @ [CHR 0x22] @ '':[]}'') (JObj [(''cases'', JArr [])]) (Inr (JObj [(''cases'', JArr [])]))) (example_env ''gpt-4o-search-preview'' None)
        ''gpt-4o-search-preview'' caseListSchema ''system'' ''prompt''
      = ([GenerateText ''gpt-4o-search-preview'' (''system'' @ json_only_system)
            (''prompt'' @ json_only_prompt)],
         Inr (JObj [(''cases'', JArr [])]))"
    using t [THEN conjunct2, THEN conjunct1, rule_format, OF a(2)] c
    by (simp add: example_world_def empty_case_list_parsed)
  have r3: "\<not> carries (Error (''Failed to parse search model response as valid JSON: '' @ quoting_message))
         chatty_answer"
    using t [THEN conjunct2, THEN conjunct2, THEN conjunct2, THEN conjunct2, THEN conjunct1,
        rule_format, OF l(1)] .
  have r4: "\<not> carries (Error (''Failed to parse non-structured model response as valid JSON: ''
                         @ quoting_message)) chatty_answer"
    using t [THEN conjunct2, THEN conjunct2, THEN conjunct2, THEN conjunct2, THEN conjunct2,
        THEN conjunct1, rule_format, OF l(2)] .
  from a c l r1 r2 r3 r4 distinct_keys_schemas(1) show ?thesis by blast
qed

text \<open>
  C5 as stated fails: the model answers in prose, which is not JSON, and the error the adapter
  throws holds the message of the parser and not the text. The message of the parser quotes
  the first ten characters of the text; in its older form it names the offending character
  and its position. In neither case is the text of the model part of the error.
\<close>

theorem text_mode_counterexample:
  "isSearchModel (example_env ''gpt-4o-search-preview'' None)
   \<and> generateStructuredObject_ci (example_world chatty_answer (JObj []) (Inl quoting_message)) (example_env ''gpt-4o-search-preview'' None)
        ''gpt-4o-search-preview'' caseListSchema ''system'' ''prompt''
      = ([GenerateText ''gpt-4o-search-preview'' (''system'' @ json_only_system)
            (''prompt'' @ json_only_prompt)],
         Inl (Error (''Failed to parse search model response as valid JSON: '' @ quoting_message)))
   \<and> \<not> carries (Error (''Failed to parse search model response as valid JSON: '' @ quoting_message))
         chatty_answer
   \<and> generateStructuredObject_ci (example_world chatty_answer (JObj []) (Inl position_message)) (example_env ''gpt-4o-search-preview'' None)
        ''gpt-4o-search-preview'' caseListSchema ''system'' ''prompt''
      = ([GenerateText ''gpt-4o-search-preview'' (''system'' @ json_only_system)
            (''prompt'' @ json_only_prompt)],
         Inl (Error (''Failed to parse search model response as valid JSON: '' @ position_message)))
   \<and> \<not> carries (Error (''Failed to parse search model response as valid JSON: '' @ position_message))
         chatty_answer"
proof -
  have r: "generateStructuredObject_ci (example_world chatty_answer (JObj []) (Inl msg)) (example_env ''gpt-4o-search-preview'' None)
        ''gpt-4o-search-preview'' caseListSchema ''system'' ''prompt''
      = ([GenerateText ''gpt-4o-search-preview'' (''system'' @ json_only_system)
            (''prompt'' @ json_only_prompt)],
         Inl (Error (''Failed to parse search model response as valid JSON: '' @ msg)))" for msg
    using search_preview_is_text(1)
    by (simp add: generateStructuredObject_ci_def example_world_def parse_and_validate_def)
  have n1: "\<not> carries (Error (''Failed to parse search model response as valid JSON: '' @ quoting_message))
         chatty_answer"
    by (rule longer_not_carried)
       (simp add: chatty_answer_def quoting_message_def position_message_def)
  have n2: "\<not> carries (Error (''Failed to parse search model response as valid JSON: '' @ position_message))
         chatty_answer"
    by (rule longer_not_carried)
       (simp add: chatty_answer_def quoting_message_def position_message_def)
  from search_preview_is_text(1) r n1 n2 show ?thesis by blast
qed

section \<open>Stage 3\<close>

subsection \<open>\<open>commerce-influencer.ts\<close>\<close>

lemma blocks_ci_eq:
  "blocks_ci lang cs =
     header_block_ci lang # map (section_block_ci lang) (enumerate 0 (take 49 cs))"
  by (simp add: blocks_ci_def take_map take_enumerate)

lemma blocks_ci_length: "length (blocks_ci lang cs) = min 50 (Suc (length cs))"
  by (simp add: blocks_ci_def)

lemma payload_blocks_ci:
  "payload_blocks (chat_payload_ci lang incl cs) =
     header_block_ci lang # map (section_block_ci lang) (enumerate 0 (take 49 cs))"
  by (simp add: chat_payload_ci_def blocks_ci_eq)

lemma payload_blocks_ci_le: "length (payload_blocks (chat_payload_ci lang incl cs)) \<le> 50"
  by (simp add: chat_payload_ci_def blocks_ci_length)

lemma step3_ci_sends:
  assumes "slackWebhook e = Some hook"
  shows "fst (summarizeAndNotifyStep_ci w e d) =
           [WebhookSend hook (chat_payload_ci (language d) (includeSources d) (cases d))]"
  using assms by (simp add: summarizeAndNotifyStep_ci_def Let_def split: option.splits)

lemma step3_ci_returns:
  assumes "slackWebhook e = Some hook"
    and "webhook_send w hook (chat_payload_ci (language d) (includeSources d) (cases d)) = None"
  shows "snd (summarizeAndNotifyStep_ci w e d) =
           Inr \<lparr>summary = summary_ci (language d) (includeSources d) (cases d),
                 sentToSlack = True, result_cases = cases d\<rparr>"
  using assms by (simp add: summarizeAndNotifyStep_ci_def Let_def)

lemma step3_ci_no_hook:
  assumes "slackWebhook e = None"
  shows "summarizeAndNotifyStep_ci w e d =
           ([ConsoleWarn ja_no_webhook_warning],
            Inr \<lparr>summary = summary_ci (language d) (includeSources d) (cases d),
                 sentToSlack = False, result_cases = cases d\<rparr>)"
  using assms by (simp add: summarizeAndNotifyStep_ci_def Let_def)

text \<open>The numbered heading of every case is part of the summary.\<close>

lemma heading_in_summary_ci:
  assumes "i < length cs"
  shows "sublist (show_nat (i + 1) @ ''. '' @ c_brand (cs ! i) @ '' / '' @ c_campaignName (cs ! i))
           (summary_ci lang incl cs)"
proof -
  let ?h = "show_nat (i + 1) @ ''. '' @ c_brand (cs ! i) @ '' / '' @ c_campaignName (cs ! i)"
  have "(i, cs ! i) \<in> set (enumerate 0 cs)"
    using assms by (simp add: in_set_enumerate_eq)
  then have "case_text_ci lang incl (i, cs ! i) \<in> set (map (case_text_ci lang incl) (enumerate 0 cs))"
    by simp
  then have "sublist (case_text_ci lang incl (i, cs ! i)) (summary_ci lang incl cs)"
    unfolding summary_ci_def by (rule sublist_join)
  moreover have "sublist ?h (case_text_ci lang incl (i, cs ! i))"
  proof -
    have "case_text_ci lang incl (i, cs ! i) =
            ?h @ (NL @ c_summary (cs ! i) @ NL @ bulletLabel_ci lang @ '':'' @ NL
                  @ join NL (map metric_line_ci (c_metrics (cs ! i)))
                  @ sources_line_ci lang incl (cs ! i))"
      by (simp add: case_text_ci_def)
    then show ?thesis by (metis sublist_append_rightI)
  qed
  ultimately show ?thesis by (meson sublist_order.order_trans)
qed

lemma metric_line_ci_spec: "metric_line_ci m = spec_metric_line (drop_blank m)"
  by (cases "m_currency m"; cases "m_timeframe m"; cases "m_note m")
     (simp_all add: metric_line_ci_def spec_metric_line_def drop_blank_def)

lemma sources_line_ci_cases:
  "sources_line_ci lang incl c =
     (case c_sources c of
        None \<Rightarrow> []
      | Some [] \<Rightarrow> []
      | Some (u # us) \<Rightarrow>
          if incl
          then NL @ (case lang of Ja \<Rightarrow> ja_sources | En \<Rightarrow> ''Sources'') @ '': ''
               @ join '', '' (u # us)
          else [])"
  by (cases lang) (simp_all add: sources_line_ci_def split: option.splits list.splits)

lemma case_text_ci_unfold:
  "case_text_ci lang incl =
     (\<lambda>(i, c). show_nat (i + 1) @ ''. '' @ c_brand c @ '' / '' @ c_campaignName c @ NL
                @ c_summary c @ NL
                @ (case lang of Ja \<Rightarrow> ja_key_kpis | En \<Rightarrow> ''Key KPIs'') @ '':'' @ NL
                @ join NL (map metric_line_ci (c_metrics c))
                @ sources_line_ci lang incl c)"
  by (rule ext) (simp add: case_text_ci_def bulletLabel_ci_def split: prod.splits language.splits)

lemma case_text_ci_no_sources:
  "case_text_ci lang False (i, c\<lparr>c_sources := x\<rparr>) = case_text_ci lang False (i, c)"
  by (simp add: case_text_ci_def sources_line_ci_def)

lemma summary_ci_no_sources:
  "summary_ci lang False (map (\<lambda>c. c\<lparr>c_sources := None\<rparr>) cs) = summary_ci lang False cs"
proof -
  have "case_text_ci lang False \<circ> (\<lambda>p. (fst p, snd p\<lparr>c_sources := None\<rparr>))
          = case_text_ci lang False"
    by (rule ext) (simp add: case_text_ci_no_sources)
  then show ?thesis
    by (simp add: summary_ci_def enumerate_map_snd case_prod_unfold)
qed

subsection \<open>The market-research workflow\<close>

lemma blocks_mr_eq:
  "blocks_mr lang cs =
     header_block_mr lang # map (section_block_mr lang) (enumerate 0 (take 49 cs))"
  by (simp add: blocks_mr_def take_map take_enumerate)

lemma blocks_mr_length: "length (blocks_mr lang cs) = min 50 (Suc (length cs))"
  by (simp add: blocks_mr_def)

lemma payload_blocks_mr:
  "payload_blocks (chat_payload_mr lang incl cs) =
     header_block_mr lang # map (section_block_mr lang) (enumerate 0 (take 49 cs))"
  by (simp add: chat_payload_mr_def blocks_mr_eq)

lemma payload_blocks_mr_le: "length (payload_blocks (chat_payload_mr lang incl cs)) \<le> 50"
  by (simp add: chat_payload_mr_def blocks_mr_length)

lemma step3_mr_sends:
  assumes "slackWebhook e = Some hook"
  shows "fst (summarizeAndNotifyStep_mr w e d) =
           [WebhookSend hook (chat_payload_mr (language d) (includeSources d) (cases d))]"
  using assms by (simp add: summarizeAndNotifyStep_mr_def Let_def split: option.splits)

lemma step3_mr_returns:
  assumes "slackWebhook e = Some hook"
    and "webhook_send w hook (chat_payload_mr (language d) (includeSources d) (cases d)) = None"
  shows "snd (summarizeAndNotifyStep_mr w e d) =
           Inr \<lparr>summary = summary_mr (language d) (includeSources d) (cases d),
                 sentToSlack = True, result_cases = cases d\<rparr>"
  using assms by (simp add: summarizeAndNotifyStep_mr_def Let_def)

lemma step3_mr_no_hook:
  assumes "slackWebhook e = None"
  shows "summarizeAndNotifyStep_mr w e d =
           ([ConsoleWarn ja_no_webhook_warning],
            Inr \<lparr>summary = summary_mr (language d) (includeSources d) (cases d),
                 sentToSlack = False, result_cases = cases d\<rparr>)"
  using assms by (simp add: summarizeAndNotifyStep_mr_def Let_def)

text \<open>The numbered heading of every case is part of the summary.\<close>

lemma heading_in_summary_mr:
  assumes "i < length cs"
  shows "sublist (show_nat (i + 1) @ ''. '' @ c_brand (cs ! i) @ '' / '' @ c_campaignName (cs ! i))
           (summary_mr lang incl cs)"
proof -
  let ?h = "show_nat (i + 1) @ ''. '' @ c_brand (cs ! i) @ '' / '' @ c_campaignName (cs ! i)"
  have "(i, cs ! i) \<in> set (enumerate 0 cs)"
    using assms by (simp add: in_set_enumerate_eq)
  then have "case_text_mr lang incl (i, cs ! i) \<in> set (map (case_text_mr lang incl) (enumerate 0 cs))"
    by simp
  then have "sublist (case_text_mr lang incl (i, cs ! i)) (summary_mr lang incl cs)"
    unfolding summary_mr_def by (rule sublist_join)
  moreover have "sublist ?h (case_text_mr lang incl (i, cs ! i))"
  proof -
    have "case_text_mr lang incl (i, cs ! i) =
            ?h @ (NL @ c_summary (cs ! i) @ NL @ bulletLabel_mr lang @ '':'' @ NL
                  @ join NL (map metric_line_mr (c_metrics (cs ! i)))
                  @ sources_line_mr lang incl (cs ! i))"
      by (simp add: case_text_mr_def)
    then show ?thesis by (metis sublist_append_rightI)
  qed
  ultimately show ?thesis by (meson sublist_order.order_trans)
qed

lemma metric_line_mr_spec: "metric_line_mr m = spec_metric_line (drop_blank m)"
  by (cases "m_currency m"; cases "m_timeframe m"; cases "m_note m")
     (simp_all add: metric_line_mr_def spec_metric_line_def drop_blank_def)

lemma sources_line_mr_cases:
  "sources_line_mr lang incl c =
     (case c_sources c of
        None \<Rightarrow> []
      | Some [] \<Rightarrow> []
      | Some (u # us) \<Rightarrow>
          if incl
          then NL @ (case lang of Ja \<Rightarrow> ja_sources | En \<Rightarrow> ''Sources'') @ '': ''
               @ join '', '' (u # us)
          else [])"
  by (cases lang) (simp_all add: sources_line_mr_def split: option.splits list.splits)

lemma case_text_mr_unfold:
  "case_text_mr lang incl =
     (\<lambda>(i, c). show_nat (i + 1) @ ''. '' @ c_brand c @ '' / '' @ c_campaignName c @ NL
                @ c_summary c @ NL
                @ (case lang of Ja \<Rightarrow> ja_key_kpis | En \<Rightarrow> ''Key KPIs'') @ '':'' @ NL
                @ join NL (map metric_line_mr (c_metrics c))
                @ sources_line_mr lang incl c)"
  by (rule ext) (simp add: case_text_mr_def bulletLabel_mr_def split: prod.splits language.splits)

lemma case_text_mr_no_sources:
  "case_text_mr lang False (i, c\<lparr>c_sources := x\<rparr>) = case_text_mr lang False (i, c)"
  by (simp add: case_text_mr_def sources_line_mr_def)

lemma summary_mr_no_sources:
  "summary_mr lang False (map (\<lambda>c. c\<lparr>c_sources := None\<rparr>) cs) = summary_mr lang False cs"
proof -
  have "case_text_mr lang False \<circ> (\<lambda>p. (fst p, snd p\<lparr>c_sources := None\<rparr>))
          = case_text_mr lang False"
    by (rule ext) (simp add: case_text_mr_no_sources)
  then show ?thesis
    by (simp add: summary_mr_def enumerate_map_snd case_prod_unfold)
qed

subsection \<open>Both workflows\<close>

text \<open>
  C2. With a webhook configured, the block list sent to the chat channel is the header block
  followed by one section block for each of the first 49 cases, in order, so it has at most
  50 blocks and the cases after the 49th have no block. When the send succeeds the step
  returns the summary of all the cases (the numbered heading of every case is part of it)
  and the whole case list. The summary is also the plain-text field of what is sent.
\<close>

theorem chat_payload_at_most_50_blocks:
  assumes "slackWebhook e = Some hook"
  shows "(fst (summarizeAndNotifyStep_ci w e d) =
            [WebhookSend hook (chat_payload_ci (language d) (includeSources d) (cases d))]
          \<and> payload_blocks (chat_payload_ci (language d) (includeSources d) (cases d)) =
                header_block_ci (language d)
                # map (section_block_ci (language d)) (enumerate 0 (take 49 (cases d)))
          \<and> length (payload_blocks (chat_payload_ci (language d) (includeSources d) (cases d))) \<le> 50
          \<and> (webhook_send w hook (chat_payload_ci (language d) (includeSources d) (cases d)) = None \<longrightarrow>
                snd (summarizeAndNotifyStep_ci w e d) =
                  Inr \<lparr>summary = summary_ci (language d) (includeSources d) (cases d),
                       sentToSlack = True, result_cases = cases d\<rparr>)
          \<and> (\<forall>i < length (cases d).
                sublist (show_nat (i + 1) @ ''. '' @ c_brand (cases d ! i) @ '' / ''
                        @ c_campaignName (cases d ! i))
                  (summary_ci (language d) (includeSources d) (cases d))))
       \<and> (fst (summarizeAndNotifyStep_mr w e d) =
            [WebhookSend hook (chat_payload_mr (language d) (includeSources d) (cases d))]
          \<and> payload_blocks (chat_payload_mr (language d) (includeSources d) (cases d)) =
                header_block_mr (language d)
                # map (section_block_mr (language d)) (enumerate 0 (take 49 (cases d)))
          \<and> length (payload_blocks (chat_payload_mr (language d) (includeSources d) (cases d))) \<le> 50
          \<and> (webhook_send w hook (chat_payload_mr (language d) (includeSources d) (cases d)) = None \<longrightarrow>
                snd (summarizeAndNotifyStep_mr w e d) =
                  Inr \<lparr>summary = summary_mr (language d) (includeSources d) (cases d),
                       sentToSlack = True, result_cases = cases d\<rparr>)
          \<and> (\<forall>i < length (cases d).
                sublist (show_nat (i + 1) @ ''. '' @ c_brand (cases d ! i) @ '' / ''
                        @ c_campaignName (cases d ! i))
                  (summary_mr (language d) (includeSources d) (cases d))))"
  using assms
  apply (intro conjI allI impI)
  apply (rule step3_ci_sends, assumption)
  apply (rule payload_blocks_ci)
  apply (rule payload_blocks_ci_le)
  apply (rule step3_ci_returns, assumption, assumption)
  apply (rule heading_in_summary_ci, assumption)
  apply (rule step3_mr_sends, assumption)
  apply (rule payload_blocks_mr)
  apply (rule payload_blocks_mr_le)
  apply (rule step3_mr_returns, assumption, assumption)
  apply (rule heading_in_summary_mr, assumption)
  done

text \<open>Sixty cases: 50 blocks are sent, and the heading of the sixtieth case is in the summary.\<close>

theorem chat_payload_at_most_50_blocks_witness:
  "slackWebhook (example_env ''gpt-4o-mini'' (Some ''https://hooks.example/T1'')) = Some example_hook
   \<and> fst (summarizeAndNotifyStep_mr (example_world ''{}'' (JObj []) (Inr (JObj [])))
            (example_env ''gpt-4o-mini'' (Some ''https://hooks.example/T1''))
            (stage3_input En True (replicate 60 example_case))) =
       [WebhookSend example_hook (chat_payload_mr En True (replicate 60 example_case))]
   \<and> length (payload_blocks (chat_payload_mr En True (replicate 60 example_case))) = 50
   \<and> payload_blocks (chat_payload_mr En True (replicate 60 example_case)) =
       header_block_mr En # map (section_block_mr En) (enumerate 0 (replicate 49 example_case))
   \<and> snd (summarizeAndNotifyStep_mr (example_world ''{}'' (JObj []) (Inr (JObj [])))
            (example_env ''gpt-4o-mini'' (Some ''https://hooks.example/T1''))
            (stage3_input En True (replicate 60 example_case))) =
       Inr \<lparr>summary = summary_mr En True (replicate 60 example_case), sentToSlack = True,
            result_cases = replicate 60 example_case\<rparr>
   \<and> sublist ''60. Acme / Spring'' (summary_mr En True (replicate 60 example_case))"
proof -
  have h: "slackWebhook (example_env ''gpt-4o-mini'' (Some ''https://hooks.example/T1'')) = Some example_hook"
    by (simp add: slackWebhook_def example_env_def example_hook_def)
  have s: "webhook_send (example_world ''{}'' (JObj []) (Inr (JObj []))) example_hook
             (chat_payload_mr En True (replicate 60 example_case)) = None"
    by (simp add: example_world_def)
  have n: "show_nat (59 + 1) = ''60''"
    by (simp add: show_nat.simps digit_def)
  have l: "length (payload_blocks (chat_payload_mr En True (replicate 60 example_case))) = 50"
    by (simp add: chat_payload_mr_def blocks_mr_length)
  note t = chat_payload_at_most_50_blocks [OF h, of "example_world ''{}'' (JObj []) (Inr (JObj []))"
      "stage3_input En True (replicate 60 example_case)", THEN conjunct2]
  have t1: "fst (summarizeAndNotifyStep_mr (example_world ''{}'' (JObj []) (Inr (JObj [])))
            (example_env ''gpt-4o-mini'' (Some ''https://hooks.example/T1''))
            (stage3_input En True (replicate 60 example_case))) =
       [WebhookSend example_hook (chat_payload_mr En True (replicate 60 example_case))]"
    using t by (simp add: stage3_input_def)
  have t2: "payload_blocks (chat_payload_mr En True (replicate 60 example_case)) =
       header_block_mr En # map (section_block_mr En) (enumerate 0 (replicate 49 example_case))"
    using t by (simp add: stage3_input_def)
  have t4: "snd (summarizeAndNotifyStep_mr (example_world ''{}'' (JObj []) (Inr (JObj [])))
            (example_env ''gpt-4o-mini'' (Some ''https://hooks.example/T1''))
            (stage3_input En True (replicate 60 example_case))) =
       Inr \<lparr>summary = summary_mr En True (replicate 60 example_case), sentToSlack = True,
            result_cases = replicate 60 example_case\<rparr>"
    using t s by (simp add: stage3_input_def)
  have "sublist (show_nat (59 + 1) @ ''. '' @ c_brand (replicate 60 example_case ! 59) @ '' / ''
          @ c_campaignName (replicate 60 example_case ! 59))
          (summary_mr En True (replicate 60 example_case))"
    using t [THEN conjunct2, THEN conjunct2, THEN conjunct2, THEN conjunct2, rule_format, of 59]
    by (simp add: stage3_input_def)
  then have t5: "sublist ''60. Acme / Spring'' (summary_mr En True (replicate 60 example_case))"
    unfolding n by (simp add: example_case_def)
  show ?thesis
    using h t1 l t2 t4 t5 by blast
qed

text \<open>
  C8, as amended. A metric line is "- name: value" followed by the currency, the timeframe
  in parentheses and the note after a fullwidth bar; each of the three is left out exactly
  when its field is absent or is the empty string (or, for the currency, \<open>null\<close>). The
  summary is the case texts joined by a blank line. The line of sources, the localized label
  and the URLs joined by ", ", ends the text of a case exactly when \<open>includeSources\<close> is true
  and the case has at least one source; with \<open>includeSources\<close> false the summary does not
  depend on the sources of any case.
\<close>

theorem summary_lines:
  "metric_line_ci m = spec_metric_line (drop_blank m)
   \<and> metric_line_mr m = spec_metric_line (drop_blank m)
   \<and> sources_line_ci lang incl c =
       (case c_sources c of
          None \<Rightarrow> []
        | Some [] \<Rightarrow> []
        | Some (u # us) \<Rightarrow>
            if incl
            then NL @ (case lang of Ja \<Rightarrow> ja_sources | En \<Rightarrow> ''Sources'') @ '': ''
                 @ join '', '' (u # us)
            else [])
   \<and> sources_line_mr lang incl c =
       (case c_sources c of
          None \<Rightarrow> []
        | Some [] \<Rightarrow> []
        | Some (u # us) \<Rightarrow>
            if incl
            then NL @ (case lang of Ja \<Rightarrow> ja_sources | En \<Rightarrow> ''Sources'') @ '': ''
                 @ join '', '' (u # us)
            else [])
   \<and> summary_ci lang incl cs =
       join (NL @ NL)
         (map (\<lambda>(i, c). show_nat (i + 1) @ ''. '' @ c_brand c @ '' / '' @ c_campaignName c @ NL
                         @ c_summary c @ NL
                         @ (case lang of Ja \<Rightarrow> ja_key_kpis | En \<Rightarrow> ''Key KPIs'') @ '':'' @ NL
                         @ join NL (map metric_line_ci (c_metrics c))
                         @ sources_line_ci lang incl c)
              (enumerate 0 cs))
   \<and> summary_mr lang incl cs =
       join (NL @ NL)
         (map (\<lambda>(i, c). show_nat (i + 1) @ ''. '' @ c_brand c @ '' / '' @ c_campaignName c @ NL
                         @ c_summary c @ NL
                         @ (case lang of Ja \<Rightarrow> ja_key_kpis | En \<Rightarrow> ''Key KPIs'') @ '':'' @ NL
                         @ join NL (map metric_line_mr (c_metrics c))
                         @ sources_line_mr lang incl c)
              (enumerate 0 cs))
   \<and> summary_ci lang False (map (\<lambda>c. c\<lparr>c_sources := None\<rparr>) cs) = summary_ci lang False cs
   \<and> summary_mr lang False (map (\<lambda>c. c\<lparr>c_sources := None\<rparr>) cs) = summary_mr lang False cs"
  apply (intro conjI)
  apply (rule metric_line_ci_spec)
  apply (rule metric_line_mr_spec)
  apply (rule sources_line_ci_cases)
  apply (rule sources_line_mr_cases)
  apply (simp only: summary_ci_def case_text_ci_unfold)
  apply (simp only: summary_mr_def case_text_mr_unfold)
  apply (rule summary_ci_no_sources)
  apply (rule summary_mr_no_sources)
  done

text \<open>
  C8 as stated fails on a metric whose timeframe is present and empty: the program leaves the
  parentheses out, the line of the specification has them.
\<close>

theorem summary_lines_counterexample:
  "m_timeframe blank_metric = Some []
   \<and> metric_line_ci blank_metric = ''- GMV: 120''
   \<and> metric_line_mr blank_metric = ''- GMV: 120''
   \<and> spec_metric_line blank_metric = ''- GMV: 120 ()''
   \<and> metric_line_ci blank_metric \<noteq> spec_metric_line blank_metric"
  by (simp add: metric_line_ci_def metric_line_mr_def spec_metric_line_def blank_metric_def)

text \<open>
  C9. With no webhook URL configured the step writes one warning to the console and sends
  nothing; it returns \<open>sentToSlack = false\<close>, the summary of all the cases (the numbered
  heading of every case is part of it) and the whole case list.
\<close>

theorem no_webhook_no_send:
  assumes "SLACK_WEBHOOK_URL e = None"
  shows "summarizeAndNotifyStep_ci w e d =
           ([ConsoleWarn ja_no_webhook_warning],
            Inr \<lparr>summary = summary_ci (language d) (includeSources d) (cases d),
                 sentToSlack = False, result_cases = cases d\<rparr>)
       \<and> summarizeAndNotifyStep_mr w e d =
           ([ConsoleWarn ja_no_webhook_warning],
            Inr \<lparr>summary = summary_mr (language d) (includeSources d) (cases d),
                 sentToSlack = False, result_cases = cases d\<rparr>)
       \<and> (\<forall>i < length (cases d).
             sublist (show_nat (i + 1) @ ''. '' @ c_brand (cases d ! i) @ '' / ''
                      @ c_campaignName (cases d ! i))
               (summary_ci (language d) (includeSources d) (cases d))
           \<and> sublist (show_nat (i + 1) @ ''. '' @ c_brand (cases d ! i) @ '' / ''
                      @ c_campaignName (cases d ! i))
               (summary_mr (language d) (includeSources d) (cases d)))"
proof -
  have "slackWebhook e = None"
    using assms by (simp add: slackWebhook_def)
  then show ?thesis
    apply (intro conjI allI impI)
    apply (rule step3_ci_no_hook, assumption)
    apply (rule step3_mr_no_hook, assumption)
    apply (rule heading_in_summary_ci, assumption)
    apply (rule heading_in_summary_mr, assumption)
    done
qed

lemma example_summary:
  "summary_ci Ja True [example_case] =
     ''1. Acme / Spring'' @ NL @ ''Live commerce'' @ NL @ ja_key_kpis @ '':'' @ NL
     @ ''- GMV: 120 JPY (2023)'' @ NL @ ja_sources @ '': https://a.example, https://b.example''"
  by (simp add: summary_ci_def case_text_ci_def metric_line_ci_def sources_line_ci_def
      bulletLabel_ci_def example_case_def example_metric_def show_nat.simps digit_def)

theorem no_webhook_no_send_witness:
  "SLACK_WEBHOOK_URL (example_env ''gpt-4o-mini'' None) = None
   \<and> summarizeAndNotifyStep_ci (example_world ''{}'' (JObj []) (Inr (JObj []))) (example_env ''gpt-4o-mini'' None)
        (stage3_input Ja True [example_case]) =
       ([ConsoleWarn ja_no_webhook_warning],
        Inr \<lparr>summary = ''1. Acme / Spring'' @ NL @ ''Live commerce'' @ NL @ ja_key_kpis @ '':''
                @ NL @ ''- GMV: 120 JPY (2023)'' @ NL @ ja_sources
                @ '': https://a.example, https://b.example'',
             sentToSlack = False, result_cases = [example_case]\<rparr>)"
proof -
  have h: "SLACK_WEBHOOK_URL (example_env ''gpt-4o-mini'' None) = None"
    by (simp add: example_env_def)
  show ?thesis
    using h no_webhook_no_send [OF h, of "example_world ''{}'' (JObj []) (Inr (JObj []))"
        "stage3_input Ja True [example_case]", THEN conjunct1]
    by (simp add: stage3_input_def example_summary)
qed

text \<open>
  C10. With a webhook configured, the first block sent is a header block whose title is fixed
  by the language alone: the Japanese title of the commerce and influencer scan for "ja" and
  'Commerce x Influencer Scan' for "en". The input of the step holds no focus keyword, and
  the market-research workflow sends the same title as \<open>commerce-influencer.ts\<close>.
\<close>

theorem header_title_fixed:
  assumes "slackWebhook e = Some hook"
  shows "fst (summarizeAndNotifyStep_ci w e d) =
           [WebhookSend hook (chat_payload_ci (language d) (includeSources d) (cases d))]
       \<and> fst (summarizeAndNotifyStep_mr w e d) =
           [WebhookSend hook (chat_payload_mr (language d) (includeSources d) (cases d))]
       \<and> hd (payload_blocks (chat_payload_ci (language d) (includeSources d) (cases d))) =
           \<lparr>block_type = ''header'',
            block_text = \<lparr>text_type = ''plain_text'',
                          text_text = (case language d of Ja \<Rightarrow> ja_title
                                       | En \<Rightarrow> ''Commerce x Influencer Scan'')\<rparr>\<rparr>
       \<and> hd (payload_blocks (chat_payload_mr (language d) (includeSources d) (cases d))) =
           \<lparr>block_type = ''header'',
            block_text = \<lparr>text_type = ''plain_text'',
                          text_text = (case language d of Ja \<Rightarrow> ja_title
                                       | En \<Rightarrow> ''Commerce x Influencer Scan'')\<rparr>\<rparr>
       \<and> payload_blocks (chat_payload_ci (language d) (includeSources d) (cases d)) \<noteq> []
       \<and> payload_blocks (chat_payload_mr (language d) (includeSources d) (cases d)) \<noteq> []"
  using assms
  by (cases "language d")
     (simp_all add: step3_ci_sends step3_mr_sends payload_blocks_ci payload_blocks_mr
       header_block_ci_def header_block_mr_def)

theorem header_title_fixed_witness:
  "slackWebhook (example_env ''gpt-4o-mini'' (Some ''https://hooks.example/T1'')) = Some example_hook
   \<and> fst (summarizeAndNotifyStep_mr (example_world ''{}'' (JObj []) (Inr (JObj [])))
            (example_env ''gpt-4o-mini'' (Some ''https://hooks.example/T1''))
            (stage3_input En False [example_case])) =
       [WebhookSend example_hook (chat_payload_mr En False [example_case])]
   \<and> hd (payload_blocks (chat_payload_mr En False [example_case])) =
       \<lparr>block_type = ''header'',
        block_text = \<lparr>text_type = ''plain_text'', text_text = ''Commerce x Influencer Scan''\<rparr>\<rparr>"
proof -
  have h: "slackWebhook (example_env ''gpt-4o-mini'' (Some ''https://hooks.example/T1'')) = Some example_hook"
    by (simp add: slackWebhook_def example_env_def example_hook_def)
  show ?thesis
    using h header_title_fixed [OF h, of "example_world ''{}'' (JObj []) (Inr (JObj []))"
        "stage3_input En False [example_case]"]
    by (simp add: stage3_input_def)
qed


section \<open>The stages and the workflow\<close>

lemma case_list_member:
  assumes "fst (zparse (ZObject [(''cases'', el)]) v) = []" and "js_member v ''cases'' = Inr cs"
  shows "fst (zparse el cs) = []"
proof -
  from assms(1) obtain kvs where v: "v = JObj kvs"
    by (rule object_ok_is_object)
  have "fst (zparse el (get_prop kvs ''cases'')) = []"
    using field_ok [OF assms(1) [unfolded v], of "''cases''"] by simp
  then show ?thesis using assms(2) by (simp add: v)
qed

text \<open>
  What the first stage returns: a list of at most six cases, each with an influencer. The
  list may be empty.
\<close>

lemma base_cases_invariants:
  assumes "fst (zparse (ZArray baseCaseSchema [CMax 6]) cs) = []"
  shows "at_most_cases 6 cs" and "every_case (has_items ''influencers'') cs"
proof -
  from assms obtain xs where x: "cs = JArr xs"
    and c: "\<forall>c \<in> set [CMax 6]. check_issue (of_nat (length xs)) c = []"
    and e: "\<forall>x \<in> set xs. fst (zparse baseCaseSchema x) = []"
    by (rule array_ok)
  from c have "length xs \<le> 6" by (auto split: if_splits)
  then show "at_most_cases 6 cs" by (simp add: x at_most_cases_def)
  show "every_case (has_items ''influencers'') cs"
    using e by (simp add: x every_case_def list_all_iff baseCase_has_influencers(1))
qed

lemma collect_ci_cases_valid:
  assumes "collectCompetitorCasesStep w e i = (evs, Inr out)"
  shows "fst (zparse (ZArray baseCaseSchema [CMax 6]) (cases out)) = []"
proof -
  from assms obtain structured where
    a: "generateStructuredObject_ci w e (MODEL_NAME e) caseListSchema collect_system_ci
          (collect_prompt_ci i) = (evs, Inr structured)"
    and m: "js_member structured ''cases'' = Inr (cases out)"
    unfolding collectCompetitorCasesStep_def using forward_cases_Inr(1) by blast
  have "fst (zparse caseListSchema structured) = []"
    using adapter_ci_valid [OF distinct_keys_schemas(1) a] by (simp add: satisfies_def)
  then show ?thesis
    unfolding caseListSchema_def using m by (rule case_list_member)
qed

lemma collect_mr_cases_valid:
  assumes "collectCasesStep w e i = (evs, Inr out)"
  shows "fst (zparse (ZArray baseCaseSchema [CMax 6]) (cases out)) = []"
proof -
  from assms obtain structured where
    a: "generateStructuredObject_mr w e (MODEL_NAME e) caseListSchema collect_system_mr
          (collect_prompt_mr i) = (evs, Inr structured)"
    and m: "js_member structured ''cases'' = Inr (cases out)"
    unfolding collectCasesStep_def using forward_cases_Inr(1) by blast
  have "fst (zparse caseListSchema structured) = []"
    using adapter_mr_valid [OF distinct_keys_schemas(1) a] by (simp add: satisfies_def)
  then show ?thesis
    unfolding caseListSchema_def using m by (rule case_list_member)
qed

lemma collect_keeps_invariants:
  "collectCompetitorCasesStep w e i = (evs, Inr out) \<Longrightarrow>
     at_most_cases 6 (cases out) \<and> every_case (has_items ''influencers'') (cases out)"
  "collectCasesStep w e i = (evs, Inr out) \<Longrightarrow>
     at_most_cases 6 (cases out) \<and> every_case (has_items ''influencers'') (cases out)"
  by (auto dest: collect_ci_cases_valid collect_mr_cases_valid intro: base_cases_invariants)

text \<open>
  What the second stage returns: cases that each have an influencer and a metric, and that
  the third stage reads at their type. The list may be empty.
\<close>

lemma enrich_ci_cases_valid:
  assumes "enrichCasesWithMetricsStep_ci w e d = (evs, Inr out)"
  shows "fst (zparse (ZArray enrichedCaseSchema_ci []) (cases out)) = []"
proof -
  from assms obtain structured where
    a: "generateStructuredObject_ci w e (MODEL_NAME e) enrichedCaseListSchema_ci enrich_system_ci
          (enrich_prompt_ci w d) = (evs, Inr structured)"
    and m: "js_member structured ''cases'' = Inr (cases out)"
    unfolding enrichCasesWithMetricsStep_ci_def using forward_cases_Inr(1) by blast
  have "fst (zparse enrichedCaseListSchema_ci structured) = []"
    using adapter_ci_valid [OF distinct_keys_schemas(2) a] by (simp add: satisfies_def)
  then show ?thesis
    unfolding enrichedCaseListSchema_ci_def using m by (rule case_list_member)
qed

lemma enrich_mr_cases_valid:
  assumes "enrichCasesWithMetricsStep_mr w e d = (evs, Inr out)"
  shows "fst (zparse (ZArray enrichedCaseSchema_mr []) (cases out)) = []"
proof -
  from assms obtain structured where
    a: "generateStructuredObject_mr w e (MODEL_NAME e) enrichedCaseListSchema_mr enrich_system_mr
          (enrich_prompt_mr w d) = (evs, Inr structured)"
    and m: "js_member structured ''cases'' = Inr (cases out)"
    unfolding enrichCasesWithMetricsStep_mr_def using forward_cases_Inr(1) by blast
  have "fst (zparse enrichedCaseListSchema_mr structured) = []"
    using adapter_mr_valid [OF distinct_keys_schemas(3) a] by (simp add: satisfies_def)
  then show ?thesis
    unfolding enrichedCaseListSchema_mr_def using m by (rule case_list_member)
qed

lemma typed_cases:
  assumes "fst (zparse (ZArray el []) (cases d)) = []"
    and "\<And>x. fst (zparse el x) = [] \<Longrightarrow> \<exists>c. as_enrichedCase x = Some c"
    and "\<And>x. fst (zparse el x) = [] \<Longrightarrow> has_items ''influencers'' x \<and> has_items ''metrics'' x"
  shows "every_case (\<lambda>c. has_items ''influencers'' c \<and> has_items ''metrics'' c) (cases d)"
    and "\<exists>cs. summarize_input d =
            ([], Inr \<lparr>metricFocus = metricFocus d, language = language d,
                       includeSources = includeSources d, cases = cs\<rparr>)
          \<and> list_all (\<lambda>c. c_influencers c \<noteq> [] \<and> c_metrics c \<noteq> []) cs"
proof -
  from assms(1) obtain xs where x: "cases d = JArr xs"
    and e: "\<forall>x \<in> set xs. fst (zparse el x) = []"
    by (rule array_ok)
  show "every_case (\<lambda>c. has_items ''influencers'' c \<and> has_items ''metrics'' c) (cases d)"
    using e assms(3) by (simp add: x every_case_def list_all_iff)
  obtain cs where cs: "as_array as_enrichedCase (cases d) = Some cs"
    using array_view [OF assms(1), where f = as_enrichedCase] assms(2) by blast
  then have t: "those (map as_enrichedCase xs) = Some cs" by (simp add: x)
  have "\<forall>c \<in> set cs. \<exists>p \<in> set xs. as_enrichedCase p = Some c"
    using t by (rule those_map_Some)
  then have "\<forall>c \<in> set cs. c_influencers c \<noteq> [] \<and> c_metrics c \<noteq> []"
    using e assms(3) by (meson as_enrichedCase_items)
  then show "\<exists>cs. summarize_input d =
            ([], Inr \<lparr>metricFocus = metricFocus d, language = language d,
                       includeSources = includeSources d, cases = cs\<rparr>)
          \<and> list_all (\<lambda>c. c_influencers c \<noteq> [] \<and> c_metrics c \<noteq> []) cs"
    by (simp add: summarize_input_def cs list_all_iff)
qed

lemma enrich_keeps_invariants:
  "enrichCasesWithMetricsStep_ci w e d = (evs, Inr out) \<Longrightarrow>
     every_case (\<lambda>c. has_items ''influencers'' c \<and> has_items ''metrics'' c) (cases out)
     \<and> (\<exists>cs. summarize_input out =
            ([], Inr \<lparr>metricFocus = metricFocus out, language = language out,
                       includeSources = includeSources out, cases = cs\<rparr>)
          \<and> list_all (\<lambda>c. c_influencers c \<noteq> [] \<and> c_metrics c \<noteq> []) cs)"
  "enrichCasesWithMetricsStep_mr w e d = (evs, Inr out) \<Longrightarrow>
     every_case (\<lambda>c. has_items ''influencers'' c \<and> has_items ''metrics'' c) (cases out)
     \<and> (\<exists>cs. summarize_input out =
            ([], Inr \<lparr>metricFocus = metricFocus out, language = language out,
                       includeSources = includeSources out, cases = cs\<rparr>)
          \<and> list_all (\<lambda>c. c_influencers c \<noteq> [] \<and> c_metrics c \<noteq> []) cs)"
proof -
  assume "enrichCasesWithMetricsStep_ci w e d = (evs, Inr out)"
  then have "fst (zparse (ZArray enrichedCaseSchema_ci []) (cases out)) = []"
    by (rule enrich_ci_cases_valid)
  then show "every_case (\<lambda>c. has_items ''influencers'' c \<and> has_items ''metrics'' c) (cases out)
     \<and> (\<exists>cs. summarize_input out =
            ([], Inr \<lparr>metricFocus = metricFocus out, language = language out,
                       includeSources = includeSources out, cases = cs\<rparr>)
          \<and> list_all (\<lambda>c. c_influencers c \<noteq> [] \<and> c_metrics c \<noteq> []) cs)"
    using typed_cases [of enrichedCaseSchema_ci out] enrichedCase_ci_view
      enrichedCase_ci_has_items(1) by blast
next
  assume "enrichCasesWithMetricsStep_mr w e d = (evs, Inr out)"
  then have "fst (zparse (ZArray enrichedCaseSchema_mr []) (cases out)) = []"
    by (rule enrich_mr_cases_valid)
  then show "every_case (\<lambda>c. has_items ''influencers'' c \<and> has_items ''metrics'' c) (cases out)
     \<and> (\<exists>cs. summarize_input out =
            ([], Inr \<lparr>metricFocus = metricFocus out, language = language out,
                       includeSources = includeSources out, cases = cs\<rparr>)
          \<and> list_all (\<lambda>c. c_influencers c \<noteq> [] \<and> c_metrics c \<noteq> []) cs)"
    using typed_cases [of enrichedCaseSchema_mr out] enrichedCase_mr_view
      enrichedCase_mr_has_items(1) by blast
qed

lemma example_enriched_ok:
  "zparse enrichedCaseSchema_mr (example_enriched_json b) = ([], example_enriched_json b)"
  "zparse enrichedCaseSchema_ci (example_enriched_json b) = ([], example_enriched_json b)"
  by (simp_all add: enrichedCaseSchema_mr_shape enrichedCaseSchema_ci_shape example_enriched_json_def
      influencerSchema_def metricSchema_mr_def metricSchema_ci_def zparse.simps get_prop.simps)


lemma example_enriched_list_parsed:
  "zparse enrichedCaseListSchema_mr (JObj [(''cases'', JArr [example_enriched_json b])])
     = ([], JObj [(''cases'', JArr [example_enriched_json b])])"
  "zparse enrichedCaseListSchema_ci (JObj [(''cases'', JArr [example_enriched_json b])])
     = ([], JObj [(''cases'', JArr [example_enriched_json b])])"
  by (simp_all add: enrichedCaseListSchema_mr_def enrichedCaseListSchema_ci_def
      zparse.simps(5,6) get_prop.simps example_enriched_ok)

lemma empty_enriched_list_parsed:
  "zparse enrichedCaseListSchema_mr (JObj [(''cases'', JArr [])]) = ([], JObj [(''cases'', JArr [])])"
  "zparse enrichedCaseListSchema_ci (JObj [(''cases'', JArr [])]) = ([], JObj [(''cases'', JArr [])])"
  by (simp_all add: enrichedCaseListSchema_mr_def enrichedCaseListSchema_ci_def
      zparse.simps(5,6) get_prop.simps)

text \<open>
  C1, as amended. When the second stage returns, its cases are the \<open>cases\<close> of the value the
  adapter returned for the enriched-case-list schema, and \<open>metricFocus\<close>, \<open>language\<close> and
  \<open>includeSources\<close> are those of its input. The stage copies no field of the input cases
  into the output and compares none: the input cases reach the model inside the prompt,
  and the base fields of the output are what the model returned.
\<close>

theorem enrich_returns_model_cases:
  "(enrichCasesWithMetricsStep_ci w e d = (evs, Inr out) \<longrightarrow>
      (\<exists>structured.
          generateStructuredObject_ci w e (MODEL_NAME e) enrichedCaseListSchema_ci
            enrich_system_ci (enrich_prompt_ci w d) = (evs, Inr structured)
          \<and> js_member structured ''cases'' = Inr (cases out))
      \<and> metricFocus out = metricFocus d \<and> language out = language d
      \<and> includeSources out = includeSources d)
   \<and> (enrichCasesWithMetricsStep_mr w e d' = (evs', Inr out') \<longrightarrow>
      (\<exists>structured.
          generateStructuredObject_mr w e (MODEL_NAME e) enrichedCaseListSchema_mr
            enrich_system_mr (enrich_prompt_mr w d') = (evs', Inr structured)
          \<and> js_member structured ''cases'' = Inr (cases out'))
      \<and> metricFocus out' = metricFocus d' \<and> language out' = language d'
      \<and> includeSources out' = includeSources d')"
  unfolding enrichCasesWithMetricsStep_ci_def enrichCasesWithMetricsStep_mr_def
  by (intro conjI impI; (erule forward_cases_Inr)?)

text \<open>
  C1 as stated fails: the input case has the brand "Acme", the model answers a case that
  satisfies the schema with the brand "Other", and the stage returns it.
\<close>

theorem enrich_returns_model_cases_counterexample:
  "enrichCasesWithMetricsStep_mr (example_world ''{}'' (JObj [(''cases'', JArr [example_enriched_json ''Other''])]) (Inr (JObj [])))
      (example_env ''gpt-4o-mini'' None) (example_data (JArr [example_base_json])) =
     ([GenerateObject ''gpt-4o-mini'' enrichedCaseListSchema_mr enrich_system_mr
         (enrich_prompt_mr (example_world ''{}'' (JObj [(''cases'', JArr [example_enriched_json ''Other''])]) (Inr (JObj [])))
            (example_data (JArr [example_base_json])))],
      Inr (example_data (JArr [example_enriched_json ''Other''])))
   \<and> satisfies enrich_outputSchema_mr
        (with_cases_json (example_data (JArr [example_enriched_json ''Other''])))
   \<and> base_fields (example_enriched_json ''Other'') \<noteq> base_fields example_base_json"
proof -
  have a: "enrichCasesWithMetricsStep_mr (example_world ''{}'' (JObj [(''cases'', JArr [example_enriched_json ''Other''])]) (Inr (JObj [])))
      (example_env ''gpt-4o-mini'' None) (example_data (JArr [example_base_json])) =
     ([GenerateObject ''gpt-4o-mini'' enrichedCaseListSchema_mr enrich_system_mr
         (enrich_prompt_mr (example_world ''{}'' (JObj [(''cases'', JArr [example_enriched_json ''Other''])]) (Inr (JObj [])))
            (example_data (JArr [example_base_json])))],
      Inr (example_data (JArr [example_enriched_json ''Other''])))"
    by (simp add: enrichCasesWithMetricsStep_mr_def forward_cases_def
        generateStructuredObject_mr_def isNonStructuredModel_def MODEL_NAME_def example_env_def
        example_world_def example_data_def get_prop.simps generateObject_def
        example_enriched_list_parsed)
  have b: "satisfies enrich_outputSchema_mr
        (with_cases_json (example_data (JArr [example_enriched_json ''Other''])))"
    by (simp add: satisfies_def enrich_outputSchema_mr_def with_cases_json_def example_data_def
        object_ok_iff array_ok_iff example_enriched_ok get_prop.simps languageSchema_def
        zparse.simps(1-4))
  have c: "base_fields (example_enriched_json ''Other'') \<noteq> base_fields example_base_json"
    by (simp add: base_fields_def example_enriched_json_def example_base_json_def get_prop.simps)
  from a b c show ?thesis by blast
qed

text \<open>A model that returns the input case with a metric added.\<close>

theorem enrich_returns_model_cases_witness:
  "enrichCasesWithMetricsStep_ci (example_world ''{}'' (JObj [(''cases'', JArr [example_enriched_json ''Acme''])]) (Inr (JObj [])))
      (example_env ''gpt-4o-mini'' None) (example_data (JArr [example_base_json])) =
     ([GenerateObject ''gpt-4o-mini'' enrichedCaseListSchema_ci enrich_system_ci
         (enrich_prompt_ci (example_world ''{}'' (JObj [(''cases'', JArr [example_enriched_json ''Acme''])]) (Inr (JObj [])))
            (example_data (JArr [example_base_json])))],
      Inr (example_data (JArr [example_enriched_json ''Acme''])))
   \<and> enrichCasesWithMetricsStep_mr (example_world ''{}'' (JObj [(''cases'', JArr [example_enriched_json ''Acme''])]) (Inr (JObj [])))
      (example_env ''gpt-4o-mini'' None) (example_data (JArr [example_base_json])) =
     ([GenerateObject ''gpt-4o-mini'' enrichedCaseListSchema_mr enrich_system_mr
         (enrich_prompt_mr (example_world ''{}'' (JObj [(''cases'', JArr [example_enriched_json ''Acme''])]) (Inr (JObj [])))
            (example_data (JArr [example_base_json])))],
      Inr (example_data (JArr [example_enriched_json ''Acme''])))
   \<and> js_member (JObj [(''cases'', JArr [example_enriched_json ''Acme''])]) ''cases'' =
       Inr (cases (example_data (JArr [example_enriched_json ''Acme''])))
   \<and> metricFocus (example_data (JArr [example_enriched_json ''Acme''])) =
       metricFocus (example_data (JArr [example_base_json]))"
proof -
  have a: "enrichCasesWithMetricsStep_ci (example_world ''{}'' (JObj [(''cases'', JArr [example_enriched_json ''Acme''])]) (Inr (JObj [])))
      (example_env ''gpt-4o-mini'' None) (example_data (JArr [example_base_json])) =
     ([GenerateObject ''gpt-4o-mini'' enrichedCaseListSchema_ci enrich_system_ci
         (enrich_prompt_ci (example_world ''{}'' (JObj [(''cases'', JArr [example_enriched_json ''Acme''])]) (Inr (JObj [])))
            (example_data (JArr [example_base_json])))],
      Inr (example_data (JArr [example_enriched_json ''Acme''])))"
    by (simp add: enrichCasesWithMetricsStep_ci_def forward_cases_def
        generateStructuredObject_ci_def isSearchModel_def MODEL_NAME_def example_env_def
        example_world_def example_data_def get_prop.simps generateObject_def
        example_enriched_list_parsed)
  have b: "enrichCasesWithMetricsStep_mr (example_world ''{}'' (JObj [(''cases'', JArr [example_enriched_json ''Acme''])]) (Inr (JObj [])))
      (example_env ''gpt-4o-mini'' None) (example_data (JArr [example_base_json])) =
     ([GenerateObject ''gpt-4o-mini'' enrichedCaseListSchema_mr enrich_system_mr
         (enrich_prompt_mr (example_world ''{}'' (JObj [(''cases'', JArr [example_enriched_json ''Acme''])]) (Inr (JObj [])))
            (example_data (JArr [example_base_json])))],
      Inr (example_data (JArr [example_enriched_json ''Acme''])))"
    by (simp add: enrichCasesWithMetricsStep_mr_def forward_cases_def
        generateStructuredObject_mr_def isNonStructuredModel_def MODEL_NAME_def example_env_def
        example_world_def example_data_def get_prop.simps generateObject_def
        example_enriched_list_parsed)
  show ?thesis
    using a b enrich_returns_model_cases [of "example_world ''{}'' (JObj [(''cases'', JArr [example_enriched_json ''Acme''])]) (Inr (JObj []))"
        "example_env ''gpt-4o-mini'' None" "example_data (JArr [example_base_json])" _ _ "example_data (JArr [example_base_json])"]
    by (simp add: example_data_def get_prop.simps)
qed


lemma example_base_ok: "zparse baseCaseSchema example_base_json = ([], example_base_json)"
  by (simp add: baseCaseSchema_def example_base_json_def influencerSchema_def zparse.simps
      get_prop.simps)

lemma leaf_ok:
  "zparse (ZArray (ZString []) [CMin 1]) (JArr [JStr ''GMV'']) = ([], JArr [JStr ''GMV''])"
  "zparse languageSchema (JStr ''en'') = ([], JStr ''en'')"
  "zparse ZBoolean (JBool True) = ([], JBool True)"
  by (simp_all add: languageSchema_def zparse.simps)

lemma example_case_view: "as_enrichedCase (example_enriched_json ''Acme'') = Some example_case"
  by (simp add: as_enrichedCase_def example_enriched_json_def example_case_def example_metric_def
      as_influencer_def as_metric_def get_prop.simps)

lemma example_case_list_parsed:
  "zparse caseListSchema (JObj [(''cases'', JArr [example_base_json])])
     = ([], JObj [(''cases'', JArr [example_base_json])])"
  by (simp add: caseListSchema_def zparse.simps(5,6) get_prop.simps example_base_ok)


lemma three: "Number_toString 3 = ''3''"
  by code_simp

lemma other_schema:
  "enrichedCaseListSchema_mr \<noteq> caseListSchema"
  "enrichedCaseListSchema_ci \<noteq> caseListSchema"
  by (simp_all add: enrichedCaseListSchema_mr_def enrichedCaseListSchema_ci_def caseListSchema_def)

lemma scripted_world_simps:
  "provider_object (scripted_world a b) m caseListSchema sys p = Inr a"
  "provider_object (scripted_world a b) m enrichedCaseListSchema_mr sys p = Inr b"
  "provider_object (scripted_world a b) m enrichedCaseListSchema_ci sys p = Inr b"
  "webhook_send (scripted_world a b) hook pl = None"
  by (simp_all add: scripted_world_def example_world_def other_schema)

lemma gpt_4o_mini_is_structured:
  "\<not> isSearchModel (example_env ''gpt-4o-mini'' hook)"
  "\<not> isNonStructuredModel (example_env ''gpt-4o-mini'' hook)"
  "MODEL_NAME (example_env ''gpt-4o-mini'' hook) = ''gpt-4o-mini''"
  by (simp_all add: isSearchModel_def isNonStructuredModel_def MODEL_NAME_def example_env_def)

lemma default_data_carry:
  "forward_cases i (evs, Inr (JObj [(''cases'', cs)])) =
     (evs, Inr \<lparr>metricFocus = metricFocus i, language = language i,
                 includeSources = includeSources i, cases = cs\<rparr>)"
  by (simp add: forward_cases_def get_prop.simps)

text \<open>The steps on an answer of the provider that satisfies the schema of the call.\<close>

lemma collect_mr_scripted:
  assumes "zparse caseListSchema (JObj [(''cases'', cs)]) = ([], JObj [(''cases'', cs)])"
  shows "collectCasesStep (scripted_world (JObj [(''cases'', cs)]) b) (example_env ''gpt-4o-mini'' hook) i =
     ([GenerateObject ''gpt-4o-mini'' caseListSchema collect_system_mr (collect_prompt_mr i)],
      Inr \<lparr>metricFocus = metricFocus i, language = language i,
           includeSources = includeSources i, cases = cs\<rparr>)"
  by (simp add: collectCasesStep_def generateStructuredObject_mr_def gpt_4o_mini_is_structured
      generateObject_def scripted_world_simps assms default_data_carry)

lemma collect_ci_scripted:
  assumes "zparse caseListSchema (JObj [(''cases'', cs)]) = ([], JObj [(''cases'', cs)])"
  shows "collectCompetitorCasesStep (scripted_world (JObj [(''cases'', cs)]) b) (example_env ''gpt-4o-mini'' hook) i =
     ([GenerateObject ''gpt-4o-mini'' caseListSchema collect_system_ci (collect_prompt_ci i)],
      Inr \<lparr>metricFocus = metricFocus i, language = language i,
           includeSources = includeSources i, cases = cs\<rparr>)"
  by (simp add: collectCompetitorCasesStep_def generateStructuredObject_ci_def
      gpt_4o_mini_is_structured generateObject_def scripted_world_simps assms default_data_carry)

lemma enrich_mr_scripted:
  assumes "zparse enrichedCaseListSchema_mr (JObj [(''cases'', cs)]) = ([], JObj [(''cases'', cs)])"
  shows "enrichCasesWithMetricsStep_mr (scripted_world a (JObj [(''cases'', cs)])) (example_env ''gpt-4o-mini'' hook) d =
     ([GenerateObject ''gpt-4o-mini'' enrichedCaseListSchema_mr enrich_system_mr
         (enrich_prompt_mr (scripted_world a (JObj [(''cases'', cs)])) d)],
      Inr \<lparr>metricFocus = metricFocus d, language = language d,
           includeSources = includeSources d, cases = cs\<rparr>)"
  by (simp add: enrichCasesWithMetricsStep_mr_def generateStructuredObject_mr_def
      gpt_4o_mini_is_structured generateObject_def scripted_world_simps assms default_data_carry)

lemma enrich_ci_scripted:
  assumes "zparse enrichedCaseListSchema_ci (JObj [(''cases'', cs)]) = ([], JObj [(''cases'', cs)])"
  shows "enrichCasesWithMetricsStep_ci (scripted_world a (JObj [(''cases'', cs)])) (example_env ''gpt-4o-mini'' hook) d =
     ([GenerateObject ''gpt-4o-mini'' enrichedCaseListSchema_ci enrich_system_ci
         (enrich_prompt_ci (scripted_world a (JObj [(''cases'', cs)])) d)],
      Inr \<lparr>metricFocus = metricFocus d, language = language d,
           includeSources = includeSources d, cases = cs\<rparr>)"
  by (simp add: enrichCasesWithMetricsStep_ci_def generateStructuredObject_ci_def
      gpt_4o_mini_is_structured generateObject_def scripted_world_simps assms default_data_carry)

lemma default_input_fields:
  "metricFocus (defaultInput\<lparr>focusKeyword := k\<rparr>) = [ja_sales, ''GMV'', ''CVR'']"
  "language (defaultInput\<lparr>focusKeyword := k\<rparr>) = Ja"
  "includeSources (defaultInput\<lparr>focusKeyword := k\<rparr>) = True"
  "metricFocus defaultInput = [ja_sales, ''GMV'', ''CVR'']"
  "language defaultInput = Ja"
  "includeSources defaultInput = True"
  by (simp_all add: defaultInput_def)

text \<open>The empty case list does not satisfy the output schemas the steps declare.\<close>

lemma no_cases_rejected:
  "\<not> satisfies collect_outputSchema (with_cases_json (default_data (JArr [])))"
  "\<not> satisfies enrich_outputSchema_mr (with_cases_json (default_data (JArr [])))"
  "\<not> satisfies enrich_outputSchema_ci (with_cases_json (default_data (JArr [])))"
  by (simp_all add: satisfies_def collect_outputSchema_def enrich_outputSchema_mr_def
      enrich_outputSchema_ci_def with_cases_json_def default_data_def object_ok_iff array_ok_iff
      get_prop.simps)

lemma no_cases_summary:
  "summarize_input (default_data (JArr [])) =
     ([], Inr \<lparr>metricFocus = [ja_sales, ''GMV'', ''CVR''], language = Ja, includeSources = True,
                cases = []\<rparr>)"
  "summary_mr Ja True [] = []"
  "summary_ci Ja True [] = []"
  by (simp_all add: summarize_input_def default_data_def summary_mr_def summary_ci_def)

text \<open>
  C6. The claim does not hold of the code: what the steps return has at most six cases,
  every case with an influencer and every enriched case with a metric, because the adapter
  puts each answer to its schema; but neither schema of the adapter asks for a case, and the
  output schemas of the steps, which do, are not applied. The provider answers an empty case
  list to both calls: the first step returns no case, its output does not satisfy the
  output schema it declares, and the run goes on through the second call to the third step,
  which returns an empty summary.
\<close>

theorem empty_case_list_reaches_every_stage:
  "collectCasesStep (scripted_world (JObj [(''cases'', JArr [])]) (JObj [(''cases'', JArr [])]))
      (example_env ''gpt-4o-mini'' None) defaultInput =
     ([GenerateObject ''gpt-4o-mini'' caseListSchema collect_system_mr
         (collect_prompt_mr defaultInput)],
      Inr (default_data (JArr [])))
   \<and> collectCompetitorCasesStep (scripted_world (JObj [(''cases'', JArr [])]) (JObj [(''cases'', JArr [])]))
      (example_env ''gpt-4o-mini'' None) defaultInput =
     ([GenerateObject ''gpt-4o-mini'' caseListSchema collect_system_ci
         (collect_prompt_ci defaultInput)],
      Inr (default_data (JArr [])))
   \<and> \<not> satisfies collect_outputSchema (with_cases_json (default_data (JArr [])))
   \<and> \<not> satisfies enrich_outputSchema_mr (with_cases_json (default_data (JArr [])))
   \<and> \<not> satisfies enrich_outputSchema_ci (with_cases_json (default_data (JArr [])))
   \<and> marketResearchWorkflow (scripted_world (JObj [(''cases'', JArr [])]) (JObj [(''cases'', JArr [])]))
      (example_env ''gpt-4o-mini'' None) defaultInput =
     ([GenerateObject ''gpt-4o-mini'' caseListSchema collect_system_mr
         (collect_prompt_mr defaultInput),
       GenerateObject ''gpt-4o-mini'' enrichedCaseListSchema_mr enrich_system_mr
         (enrich_prompt_mr (scripted_world (JObj [(''cases'', JArr [])]) (JObj [(''cases'', JArr [])]))
            (default_data (JArr []))),
       ConsoleWarn ja_no_webhook_warning],
      Inr \<lparr>summary = [], sentToSlack = False, result_cases = []\<rparr>)
   \<and> commerceInfluencerWorkflow (scripted_world (JObj [(''cases'', JArr [])]) (JObj [(''cases'', JArr [])]))
      (example_env ''gpt-4o-mini'' None) defaultInput =
     ([GenerateObject ''gpt-4o-mini'' caseListSchema collect_system_ci
         (collect_prompt_ci defaultInput),
       GenerateObject ''gpt-4o-mini'' enrichedCaseListSchema_ci enrich_system_ci
         (enrich_prompt_ci (scripted_world (JObj [(''cases'', JArr [])]) (JObj [(''cases'', JArr [])]))
            (default_data (JArr []))),
       ConsoleWarn ja_no_webhook_warning],
      Inr \<lparr>summary = [], sentToSlack = False, result_cases = []\<rparr>)"
proof -
  let ?w = "scripted_world (JObj [(''cases'', JArr [])]) (JObj [(''cases'', JArr [])])"
  let ?e = "example_env ''gpt-4o-mini'' None"
  have s1: "collectCasesStep ?w ?e defaultInput =
     ([GenerateObject ''gpt-4o-mini'' caseListSchema collect_system_mr
         (collect_prompt_mr defaultInput)],
      Inr (default_data (JArr [])))"
    by (simp add: collect_mr_scripted [OF empty_case_list_parsed] default_input_fields
        default_data_def)
  have s1': "collectCompetitorCasesStep ?w ?e defaultInput =
     ([GenerateObject ''gpt-4o-mini'' caseListSchema collect_system_ci
         (collect_prompt_ci defaultInput)],
      Inr (default_data (JArr [])))"
    by (simp add: collect_ci_scripted [OF empty_case_list_parsed] default_input_fields
        default_data_def)
  have s2: "enrichCasesWithMetricsStep_mr ?w ?e (default_data (JArr [])) =
     ([GenerateObject ''gpt-4o-mini'' enrichedCaseListSchema_mr enrich_system_mr
         (enrich_prompt_mr ?w (default_data (JArr [])))],
      Inr (default_data (JArr [])))"
    by (simp add: enrich_mr_scripted [OF empty_enriched_list_parsed(1)] default_data_def)
  have s2': "enrichCasesWithMetricsStep_ci ?w ?e (default_data (JArr [])) =
     ([GenerateObject ''gpt-4o-mini'' enrichedCaseListSchema_ci enrich_system_ci
         (enrich_prompt_ci ?w (default_data (JArr [])))],
      Inr (default_data (JArr [])))"
    by (simp add: enrich_ci_scripted [OF empty_enriched_list_parsed(2)] default_data_def)
  have h: "slackWebhook ?e = None"
    by (simp add: slackWebhook_def example_env_def)
  have w1: "marketResearchWorkflow ?w ?e defaultInput =
     ([GenerateObject ''gpt-4o-mini'' caseListSchema collect_system_mr
         (collect_prompt_mr defaultInput),
       GenerateObject ''gpt-4o-mini'' enrichedCaseListSchema_mr enrich_system_mr
         (enrich_prompt_mr ?w (default_data (JArr []))),
       ConsoleWarn ja_no_webhook_warning],
      Inr \<lparr>summary = [], sentToSlack = False, result_cases = []\<rparr>)"
    by (simp add: marketResearchWorkflow_def bind_res_def s1 s2 no_cases_summary
        step3_mr_no_hook [OF h])
  have w2: "commerceInfluencerWorkflow ?w ?e defaultInput =
     ([GenerateObject ''gpt-4o-mini'' caseListSchema collect_system_ci
         (collect_prompt_ci defaultInput),
       GenerateObject ''gpt-4o-mini'' enrichedCaseListSchema_ci enrich_system_ci
         (enrich_prompt_ci ?w (default_data (JArr []))),
       ConsoleWarn ja_no_webhook_warning],
      Inr \<lparr>summary = [], sentToSlack = False, result_cases = []\<rparr>)"
    by (simp add: commerceInfluencerWorkflow_def bind_res_def s1' s2' no_cases_summary
        step3_ci_no_hook [OF h])
  from s1 s1' no_cases_rejected w1 w2 show ?thesis by blast
qed


text \<open>
  Whatever the input, a run begins with the model call of the first step: nothing comes
  between the input and \<open>execute\<close>.
\<close>

lemma bind_res_first:
  assumes "fst m \<noteq> []"
  shows "hd (fst (bind_res m f)) = hd (fst m)"
  using assms by (cases m) (auto simp: bind_res_def split: sum.splits prod.splits)

lemma forward_cases_calls: "fst (forward_cases i r) = fst r"
  by (cases r) (auto simp: forward_cases_def split: sum.splits)

lemma adapter_first_call:
  "fst (generateStructuredObject_ci w e m s sys p) \<noteq> []"
  "hd (fst (generateStructuredObject_ci w e m s sys p)) =
     (if isSearchModel e then GenerateText m (sys @ json_only_system) (p @ json_only_prompt)
      else GenerateObject m s sys p)"
  "fst (generateStructuredObject_mr w e m s sys p) \<noteq> []"
  "hd (fst (generateStructuredObject_mr w e m s sys p)) =
     (if isNonStructuredModel e then GenerateText m (sys @ json_only_system) (p @ json_only_prompt)
      else GenerateObject m s sys p)"
  by (simp_all add: generateStructuredObject_ci_def generateStructuredObject_mr_def Let_def
      split: sum.splits)

lemma every_run_calls_the_model:
  "hd (fst (marketResearchWorkflow w e i)) =
     (if isNonStructuredModel e
      then GenerateText (MODEL_NAME e) (collect_system_mr @ json_only_system)
             (collect_prompt_mr i @ json_only_prompt)
      else GenerateObject (MODEL_NAME e) caseListSchema collect_system_mr (collect_prompt_mr i))"
  "hd (fst (commerceInfluencerWorkflow w e i)) =
     (if isSearchModel e
      then GenerateText (MODEL_NAME e) (collect_system_ci @ json_only_system)
             (collect_prompt_ci i @ json_only_prompt)
      else GenerateObject (MODEL_NAME e) caseListSchema collect_system_ci (collect_prompt_ci i))"
  unfolding marketResearchWorkflow_def commerceInfluencerWorkflow_def
  by (subst bind_res_first;
      simp add: collectCasesStep_def collectCompetitorCasesStep_def forward_cases_calls
        adapter_first_call)+

lemma blank_keyword_issues:
  "fst (zparse collectCasesStep_inputSchema (collect_input_json (defaultInput\<lparr>focusKeyword := []\<rparr>)))
     = [ZodIssue ''too_small'' [Key ''focusKeyword'']]"
  "fst (zparse collectCompetitorCasesStep_inputSchema
          (collect_input_json (defaultInput\<lparr>focusKeyword := []\<rparr>))) = []"
  by (simp_all add: collectCasesStep_inputSchema_def collectCompetitorCasesStep_inputSchema_def
      collect_input_json_def defaultInput_def languageSchema_def zparse.simps get_prop.simps)

lemma blank_keyword_prompt:
  "prefix (''Research topic: '' @ NL @ ''Target region: Japan. Find at least 3 distinct case studies'')
     (collect_prompt_mr (defaultInput\<lparr>focusKeyword := []\<rparr>))"
  "prefix (''Focus keyword: '' @ NL @ ''Priority region: Japan. Provide at least 3 distinct competitor'')
     (collect_prompt_ci (defaultInput\<lparr>focusKeyword := []\<rparr>))"
  by (simp_all add: collect_prompt_mr_def collect_prompt_ci_def defaultInput_def three NL_def)

lemma example_cases_typed:
  "summarize_input (default_data (JArr [example_enriched_json ''Acme''])) =
     ([], Inr \<lparr>metricFocus = [ja_sales, ''GMV'', ''CVR''], language = Ja, includeSources = True,
                cases = [example_case]\<rparr>)"
  by (simp add: summarize_input_def default_data_def example_case_view)

text \<open>
  C7. The claim does not hold of the code. The input schema of the market-research workflow
  asks for a keyword of at least one character, and the input with the empty keyword does
  not satisfy it; but the run does not apply the schema. The entry point is given the
  override \<open>{"focusKeyword": ""}\<close>: the first step makes its model call with the empty
  keyword in the prompt, and the run goes on to its end. \<open>commerce-influencer.ts\<close> declares
  no minimum, and its run makes the call as well.
\<close>

theorem empty_keyword_reaches_the_model:
  "focusKeyword (defaultInput\<lparr>focusKeyword := []\<rparr>) = []
   \<and> fst (zparse collectCasesStep_inputSchema (collect_input_json (defaultInput\<lparr>focusKeyword := []\<rparr>)))
       = [ZodIssue ''too_small'' [Key ''focusKeyword'']]
   \<and> \<not> satisfies collectCasesStep_inputSchema (collect_input_json (defaultInput\<lparr>focusKeyword := []\<rparr>))
   \<and> collectCasesStep (scripted_world (JObj [(''cases'', JArr [example_base_json])]) (JObj [(''cases'', JArr [example_enriched_json ''Acme''])])) (example_env ''gpt-4o-mini'' None) (defaultInput\<lparr>focusKeyword := []\<rparr>) =
       ([GenerateObject ''gpt-4o-mini'' caseListSchema collect_system_mr (collect_prompt_mr (defaultInput\<lparr>focusKeyword := []\<rparr>))],
        Inr (default_data (JArr [example_base_json])))
   \<and> prefix (''Research topic: '' @ NL @ ''Target region: Japan. Find at least 3 distinct case studies'')
        (collect_prompt_mr (defaultInput\<lparr>focusKeyword := []\<rparr>))
   \<and> marketResearchWorkflow (scripted_world (JObj [(''cases'', JArr [example_base_json])]) (JObj [(''cases'', JArr [example_enriched_json ''Acme''])])) (example_env ''gpt-4o-mini'' None) (defaultInput\<lparr>focusKeyword := []\<rparr>) =
       ([GenerateObject ''gpt-4o-mini'' caseListSchema collect_system_mr (collect_prompt_mr (defaultInput\<lparr>focusKeyword := []\<rparr>)),
         GenerateObject ''gpt-4o-mini'' enrichedCaseListSchema_mr enrich_system_mr
           (enrich_prompt_mr (scripted_world (JObj [(''cases'', JArr [example_base_json])]) (JObj [(''cases'', JArr [example_enriched_json ''Acme''])])) (default_data (JArr [example_base_json]))),
         ConsoleWarn ja_no_webhook_warning],
        Inr \<lparr>summary = summary_mr Ja True [example_case], sentToSlack = False,
             result_cases = [example_case]\<rparr>)
   \<and> satisfies collectCompetitorCasesStep_inputSchema (collect_input_json (defaultInput\<lparr>focusKeyword := []\<rparr>))
   \<and> commerceInfluencerWorkflow (scripted_world (JObj [(''cases'', JArr [example_base_json])]) (JObj [(''cases'', JArr [example_enriched_json ''Acme''])])) (example_env ''gpt-4o-mini'' None) (defaultInput\<lparr>focusKeyword := []\<rparr>) =
       ([GenerateObject ''gpt-4o-mini'' caseListSchema collect_system_ci (collect_prompt_ci (defaultInput\<lparr>focusKeyword := []\<rparr>)),
         GenerateObject ''gpt-4o-mini'' enrichedCaseListSchema_ci enrich_system_ci
           (enrich_prompt_ci (scripted_world (JObj [(''cases'', JArr [example_base_json])]) (JObj [(''cases'', JArr [example_enriched_json ''Acme''])])) (default_data (JArr [example_base_json]))),
         ConsoleWarn ja_no_webhook_warning],
        Inr \<lparr>summary = summary_ci Ja True [example_case], sentToSlack = False,
             result_cases = [example_case]\<rparr>)"
proof -
  have k: "focusKeyword (defaultInput\<lparr>focusKeyword := []\<rparr>) = []"
    by (simp add: defaultInput_def)
  have z: "\<not> satisfies collectCasesStep_inputSchema (collect_input_json (defaultInput\<lparr>focusKeyword := []\<rparr>))"
    "satisfies collectCompetitorCasesStep_inputSchema (collect_input_json (defaultInput\<lparr>focusKeyword := []\<rparr>))"
    by (simp_all add: satisfies_def blank_keyword_issues)
  have s1: "collectCasesStep (scripted_world (JObj [(''cases'', JArr [example_base_json])]) (JObj [(''cases'', JArr [example_enriched_json ''Acme''])])) (example_env ''gpt-4o-mini'' None) (defaultInput\<lparr>focusKeyword := []\<rparr>) =
       ([GenerateObject ''gpt-4o-mini'' caseListSchema collect_system_mr (collect_prompt_mr (defaultInput\<lparr>focusKeyword := []\<rparr>))],
        Inr (default_data (JArr [example_base_json])))"
    by (simp add: collect_mr_scripted [OF example_case_list_parsed] default_input_fields
        default_data_def)
  have s1': "collectCompetitorCasesStep (scripted_world (JObj [(''cases'', JArr [example_base_json])]) (JObj [(''cases'', JArr [example_enriched_json ''Acme''])])) (example_env ''gpt-4o-mini'' None) (defaultInput\<lparr>focusKeyword := []\<rparr>) =
       ([GenerateObject ''gpt-4o-mini'' caseListSchema collect_system_ci (collect_prompt_ci (defaultInput\<lparr>focusKeyword := []\<rparr>))],
        Inr (default_data (JArr [example_base_json])))"
    by (simp add: collect_ci_scripted [OF example_case_list_parsed] default_input_fields
        default_data_def)
  have s2: "enrichCasesWithMetricsStep_mr (scripted_world (JObj [(''cases'', JArr [example_base_json])]) (JObj [(''cases'', JArr [example_enriched_json ''Acme''])])) (example_env ''gpt-4o-mini'' None) (default_data (JArr [example_base_json])) =
       ([GenerateObject ''gpt-4o-mini'' enrichedCaseListSchema_mr enrich_system_mr
           (enrich_prompt_mr (scripted_world (JObj [(''cases'', JArr [example_base_json])]) (JObj [(''cases'', JArr [example_enriched_json ''Acme''])])) (default_data (JArr [example_base_json])))],
        Inr (default_data (JArr [example_enriched_json ''Acme''])))"
    by (simp add: enrich_mr_scripted [OF example_enriched_list_parsed(1)] default_data_def)
  have s2': "enrichCasesWithMetricsStep_ci (scripted_world (JObj [(''cases'', JArr [example_base_json])]) (JObj [(''cases'', JArr [example_enriched_json ''Acme''])])) (example_env ''gpt-4o-mini'' None) (default_data (JArr [example_base_json])) =
       ([GenerateObject ''gpt-4o-mini'' enrichedCaseListSchema_ci enrich_system_ci
           (enrich_prompt_ci (scripted_world (JObj [(''cases'', JArr [example_base_json])]) (JObj [(''cases'', JArr [example_enriched_json ''Acme''])])) (default_data (JArr [example_base_json])))],
        Inr (default_data (JArr [example_enriched_json ''Acme''])))"
    by (simp add: enrich_ci_scripted [OF example_enriched_list_parsed(2)] default_data_def)
  have h: "slackWebhook (example_env ''gpt-4o-mini'' None) = None"
    by (simp add: slackWebhook_def example_env_def)
  have w1: "marketResearchWorkflow (scripted_world (JObj [(''cases'', JArr [example_base_json])]) (JObj [(''cases'', JArr [example_enriched_json ''Acme''])])) (example_env ''gpt-4o-mini'' None) (defaultInput\<lparr>focusKeyword := []\<rparr>) =
       ([GenerateObject ''gpt-4o-mini'' caseListSchema collect_system_mr (collect_prompt_mr (defaultInput\<lparr>focusKeyword := []\<rparr>)),
         GenerateObject ''gpt-4o-mini'' enrichedCaseListSchema_mr enrich_system_mr
           (enrich_prompt_mr (scripted_world (JObj [(''cases'', JArr [example_base_json])]) (JObj [(''cases'', JArr [example_enriched_json ''Acme''])])) (default_data (JArr [example_base_json]))),
         ConsoleWarn ja_no_webhook_warning],
        Inr \<lparr>summary = summary_mr Ja True [example_case], sentToSlack = False,
             result_cases = [example_case]\<rparr>)"
    by (simp add: marketResearchWorkflow_def bind_res_def s1 s2 example_cases_typed
        step3_mr_no_hook [OF h])
  have w2: "commerceInfluencerWorkflow (scripted_world (JObj [(''cases'', JArr [example_base_json])]) (JObj [(''cases'', JArr [example_enriched_json ''Acme''])])) (example_env ''gpt-4o-mini'' None) (defaultInput\<lparr>focusKeyword := []\<rparr>) =
       ([GenerateObject ''gpt-4o-mini'' caseListSchema collect_system_ci (collect_prompt_ci (defaultInput\<lparr>focusKeyword := []\<rparr>)),
         GenerateObject ''gpt-4o-mini'' enrichedCaseListSchema_ci enrich_system_ci
           (enrich_prompt_ci (scripted_world (JObj [(''cases'', JArr [example_base_json])]) (JObj [(''cases'', JArr [example_enriched_json ''Acme''])])) (default_data (JArr [example_base_json]))),
         ConsoleWarn ja_no_webhook_warning],
        Inr \<lparr>summary = summary_ci Ja True [example_case], sentToSlack = False,
             result_cases = [example_case]\<rparr>)"
    by (simp add: commerceInfluencerWorkflow_def bind_res_def s1' s2' example_cases_typed
        step3_ci_no_hook [OF h])
  from k blank_keyword_issues(1) z s1 blank_keyword_prompt(1) w1 w2 show ?thesis by blast
qed

end
